theory Spec2Isabelle
  imports Complex_Main "HOL-Library.Word" "HOL-Library.AList" "HOL-Library.Log_Nat"
begin

chapter \<open>The program\<close>

section \<open>Numbers\<close>

text \<open>
  JavaScript numbers are modelled as exact rationals: every constant of the program
  (0.05, 0.2, 0.7, ...) is read as the decimal fraction it denotes. The rounding of
  IEEE doubles is modelled where a result below rests on it, in the average that
  \<open>isApplicableInEnvironment\<close> compares with its threshold: there every constant,
  quotient and sum is rounded by \<open>roundDouble\<close>.
\<close>

type_synonym num = rat

text \<open>The nearest integer, a tie going to the even one.\<close>

definition roundHalfEven :: "rat \<Rightarrow> int" where
  "roundHalfEven q =
     (let f = \<lfloor>q\<rfloor>; r = q - of_int f
      in if r < 1 / 2 then f else if 1 / 2 < r then f + 1 else if even f then f else f + 1)"

text \<open>
  The binary exponent of a positive number \<open>x\<close>, the integer \<open>e\<close> with
  \<open>2 ^ e \<le> x < 2 ^ (e + 1)\<close>: the difference of the bit lengths of numerator and
  denominator, or one less.
\<close>

definition exponent :: "rat \<Rightarrow> int" where
  "exponent x =
     (let e = bitlen (fst (quotient_of x)) - bitlen (snd (quotient_of x))
      in if 2 powi e \<le> x then e else e - 1)"

text \<open>
  The double nearest to a number: the nearest multiple of \<open>2 ^ (e - 52)\<close>, which gives
  a significand of 53 bits, ties to the even significand. The exponent range of doubles
  is not modelled (no overflow to Infinity, no subnormal numbers): the quotients and
  sums of counts that are rounded below lie far inside it.
\<close>

definition roundDouble :: "num \<Rightarrow> num" where
  "roundDouble x =
     (if x = 0 then 0
      else (let ulp = 2 powi (exponent \<bar>x\<bar> - 52)
            in sgn x * of_int (roundHalfEven (\<bar>x\<bar> / ulp)) * ulp))"

section \<open>Cross-reality knowledge: configuration\<close>

definition LOW_LEVEL_CAPACITY :: nat where "LOW_LEVEL_CAPACITY = 20"

definition MID_LEVEL_CAPACITY :: nat where "MID_LEVEL_CAPACITY = 15"

definition HIGH_LEVEL_CAPACITY :: nat where "HIGH_LEVEL_CAPACITY = 10"

definition ABSTRACTION_CONFIDENCE_THRESHOLD :: num where "ABSTRACTION_CONFIDENCE_THRESHOLD = 6 / 10"

definition ABSTRACTION_INSTANCE_THRESHOLD :: nat where "ABSTRACTION_INSTANCE_THRESHOLD = 5"

definition KNOWLEDGE_DECAY_RATE :: num where "KNOWLEDGE_DECAY_RATE = 5 / 100"

definition MINIMUM_KNOWLEDGE_CONFIDENCE :: num where "MINIMUM_KNOWLEDGE_CONFIDENCE = 2 / 10"

definition VALIDATION_THRESHOLD :: num where "VALIDATION_THRESHOLD = 7 / 10"

definition ENVIRONMENT_TRANSITION_THRESHOLD :: num where "ENVIRONMENT_TRANSITION_THRESHOLD = 6 / 10"

section \<open>Cross-reality knowledge: data\<close>

text \<open>
  The level of a knowledge entry is one of the strings 'low', 'mid', 'high'; the
  constructor is only ever called with these three.
\<close>

datatype level = Low | Mid | High

text \<open>
  A condition value is a JavaScript value: a number, a boolean, a string, null, or an
  object (a position), which \<open>===\<close> compares by reference; \<open>None\<close> in a value field
  stands for \<open>undefined\<close>.
\<close>

datatype jsval = JNum num | JBool bool | JStr string | JNull | JObj nat

record condition =
  property :: string
  operator :: string
  cvalue :: "jsval option"
  valueRange :: "(num option \<times> num option) option"
  threshold :: "num option"
  generalized :: bool

text \<open>
  A knowledge pattern. The fields \<open>description\<close>, \<open>outcome\<close> and \<open>level\<close> of the
  source's pattern objects are carried along by the program but read by none of the
  operations below, and are left out.
\<close>

record pattern =
  ptype :: string
  conditions :: "condition list"
  universalPrinciple :: bool

record knowledgeInstance =
  idata :: pattern
  itimestamp :: num
  ienvironmentId :: "nat option"

text \<open>
  \<open>transferSuccess\<close> is a Map from environment id to \<open>{success, total}\<close>, kept in
  insertion order.
\<close>

record KnowledgeEntry =
  kid :: string
  kpattern :: pattern
  level :: level
  confidence :: num
  instances :: "knowledgeInstance list"
  environmentIds :: "nat list"
  created :: num
  lastConfirmed :: num
  lastUsed :: num
  applicationCount :: nat
  successCount :: nat
  transferSuccess :: "(nat \<times> (nat \<times> nat)) list"

text \<open>A tier is a Map from entry id to entry, in insertion order.\<close>

type_synonym tier = "(string \<times> KnowledgeEntry) list"

record knowledge =
  low :: tier
  mid :: tier
  high :: tier

section \<open>Low-level patterns extracted from experiences\<close>

definition getQuadrant :: "num \<times> num \<Rightarrow> nat" where
  "getQuadrant position =
     (let quadrantX = (if fst position < 50 then 0 else 1);
          quadrantY = (if snd position < 50 then 0 else 1)
      in quadrantX + quadrantY * 2)"

definition extractResourcePattern :: "num \<times> num \<Rightarrow> pattern" where
  "extractResourcePattern position =
     \<lparr>ptype = ''resource_location'',
      conditions = [\<lparr>property = ''quadrant'', operator = ''equals'',
                     cvalue = Some (JNum (of_nat (getQuadrant position))),
                     valueRange = None, threshold = None, generalized = False\<rparr>],
      universalPrinciple = False\<rparr>"

definition extractHazardPattern :: "bool \<Rightarrow> pattern" where
  "extractHazardPattern realityShift =
     \<lparr>ptype = ''hazard_behavior'',
      conditions = [\<lparr>property = ''realityFluxActive'', operator = ''equals'',
                     cvalue = Some (JBool realityShift),
                     valueRange = None, threshold = None, generalized = False\<rparr>],
      universalPrinciple = False\<rparr>"

section \<open>KnowledgeEntry: construction and confidence\<close>

text \<open>
  \<open>Date.now()\<close> and the random suffix of a new entry's id are inputs: every operation
  that reads the clock takes \<open>now\<close>, every operation that may construct an entry takes
  the id the constructor would draw. An environment id argument is \<open>None\<close> for null;
  it is truthy when it is a number other than 0.
\<close>

definition truthyId :: "nat option \<Rightarrow> bool" where
  "truthyId environmentId = (case environmentId of None \<Rightarrow> False | Some n \<Rightarrow> n \<noteq> 0)"

definition newKnowledgeEntry ::
  "string \<Rightarrow> num \<Rightarrow> pattern \<Rightarrow> level \<Rightarrow> nat option \<Rightarrow> KnowledgeEntry" where
  "newKnowledgeEntry newId now p l environmentId =
     \<lparr>kid = newId, kpattern = p, level = l, confidence = 5 / 10, instances = [],
      environmentIds = (if truthyId environmentId then [the environmentId] else []),
      created = now, lastConfirmed = now, lastUsed = now,
      applicationCount = 0, successCount = 0, transferSuccess = []\<rparr>"

definition updateConfidence :: "KnowledgeEntry \<Rightarrow> KnowledgeEntry" where
  "updateConfidence e =
     (let instanceFactor =
            min 1 (of_nat (length (instances e)) / of_nat ABSTRACTION_INSTANCE_THRESHOLD);
          applicationFactor =
            (if applicationCount e > 0
             then of_nat (successCount e) / of_nat (applicationCount e) else 5 / 10);
          environmentFactor = min 1 (of_nat (length (environmentIds e)) / 3);
          instanceWeight = (if level e = Mid then 4 / 10 else if level e = High then 2 / 10 else 6 / 10);
          applicationWeight = (if level e = Mid then 4 / 10 else if level e = High then 5 / 10 else 3 / 10);
          environmentWeight = (if level e = Mid then 2 / 10 else if level e = High then 3 / 10 else 1 / 10)
      in e\<lparr>confidence :=
             instanceWeight * instanceFactor +
             applicationWeight * applicationFactor +
             environmentWeight * environmentFactor\<rparr>)"

definition addInstance :: "num \<Rightarrow> pattern \<Rightarrow> nat option \<Rightarrow> KnowledgeEntry \<Rightarrow> KnowledgeEntry" where
  "addInstance now inst environmentId e =
     (let e1 = e\<lparr>instances := instances e @
                   [\<lparr>idata = inst, itimestamp = now, ienvironmentId = environmentId\<rparr>]\<rparr>;
          e2 = (if truthyId environmentId \<and> the environmentId \<notin> set (environmentIds e1)
                then e1\<lparr>environmentIds := environmentIds e1 @ [the environmentId]\<rparr>
                else e1)
      in (updateConfidence e2)\<lparr>lastConfirmed := now\<rparr>)"

definition recordApplication :: "num \<Rightarrow> bool \<Rightarrow> nat option \<Rightarrow> KnowledgeEntry \<Rightarrow> KnowledgeEntry" where
  "recordApplication now success environmentId e =
     (let e1 = e\<lparr>applicationCount := applicationCount e + 1, lastUsed := now\<rparr>;
          e2 = (if success then e1\<lparr>successCount := successCount e1 + 1\<rparr> else e1);
          e3 = (if truthyId environmentId
                then (let current = (case map_of (transferSuccess e2) (the environmentId) of
                                       None \<Rightarrow> (0, 0) | Some c \<Rightarrow> c);
                          current' = (if success then fst current + 1 else fst current,
                                      snd current + 1)
                      in e2\<lparr>transferSuccess :=
                              AList.update (the environmentId) current' (transferSuccess e2)\<rparr>)
                else e2)
      in updateConfidence e3)"

section \<open>KnowledgeEntry.isApplicableInEnvironment\<close>

text \<open>
  The average of \<open>success / total\<close> over the transfer records, as
  \<open>transferRates.reduce((sum, {success, total}) => sum + (success / total), 0) /
  transferRates.length\<close> computes it in doubles: each quotient is rounded, each
  addition to the running sum is rounded, from 0 and in the order of the records, and
  the final division is rounded. A record with \<open>total = 0\<close> makes the quotient NaN
  (0/0) or Infinity; a NaN makes the comparison with the threshold false, an Infinity
  (without a NaN) makes it true. The threshold is the double that the constant 0.7
  denotes.
\<close>

definition averageSuccessRate :: "(nat \<times> nat) list \<Rightarrow> num" where
  "averageSuccessRate transferRates =
     roundDouble
       (foldl (\<lambda>sum (success, total). roundDouble (sum + roundDouble (of_nat success / of_nat total)))
          0 transferRates
        / of_nat (length transferRates))"

definition isApplicableInEnvironment :: "KnowledgeEntry \<Rightarrow> nat \<Rightarrow> bool" where
  "isApplicableInEnvironment e environmentId =
     (if level e = High then True
      else if environmentId \<in> set (environmentIds e) then True
      else if level e = Mid then
        (let transferRates = map snd (transferSuccess e)
         in if length transferRates = 0 then True
            else if list_ex (\<lambda>(success, total). total = 0 \<and> success = 0) transferRates then False
            else if list_ex (\<lambda>(success, total). total = 0) transferRates then True
            else averageSuccessRate transferRates \<ge> roundDouble VALIDATION_THRESHOLD)
      else False)"

section \<open>CrossRealitySystem: state\<close>

text \<open>
  An environment profile: three Maps from feature name to an exponential moving
  average, the last update time and the visit count.
\<close>

record EnvironmentProfile =
  entityDistribution :: "(string \<times> num) list"
  spatialCharacteristics :: "(string \<times> num) list"
  stabilityMetrics :: "(string \<times> num) list"
  lastUpdated :: num
  visitCount :: nat

text \<open>
  The state of the cross-reality system that the operations below read and write: the
  per-agent knowledge Maps, the environment profiles (a Map in insertion order), the
  world's explicit environment id (\<open>None\<close> when the world has none), and the
  environment fields and the adaptation rate of the CrossRealityKnowledge component.
  The component's mirrors of counts and confidences, written by
  \<open>syncKnowledgeToComponent\<close>, are copies that nothing below reads, and are not part
  of the state. The similarity and the adaptation rate are f32 fields of the component;
  the rounding of what is stored in them is not modelled.
\<close>

record CrossRealitySystem =
  agentKnowledge :: "nat \<rightharpoonup> knowledge"
  environments :: "(nat \<times> EnvironmentProfile) list"
  worldCurrentEnvironmentId :: "nat option"
  currentEnvironmentId :: "nat \<Rightarrow> nat"
  lastEnvironmentId :: "nat \<Rightarrow> nat"
  environmentTransitionTime :: "nat \<Rightarrow> num"
  environmentSimilarity :: "nat \<Rightarrow> num"
  adaptationRate :: "nat \<Rightarrow> num"

section \<open>KnowledgeEntry.applyDecay and applyKnowledgeDecay\<close>

definition levelMultiplier :: "level \<Rightarrow> num" where
  "levelMultiplier l = (if l = Low then 12 / 10 else (if l = Mid then 1 else 8 / 10))"

definition applyDecay :: "num \<Rightarrow> KnowledgeEntry \<Rightarrow> KnowledgeEntry" where
  "applyDecay currentTime e =
     (let timeSinceLastUse = currentTime - lastUsed e;
          decayFactor = KNOWLEDGE_DECAY_RATE * (timeSinceLastUse / 1000)
      in e\<lparr>confidence :=
             max MINIMUM_KNOWLEDGE_CONFIDENCE
                 (confidence e - decayFactor * levelMultiplier (level e))\<rparr>)"

text \<open>
  One of the three loops of \<open>applyKnowledgeDecay\<close>: every entry of the tier is decayed
  in iteration order and deleted from the Map when its confidence is then below the
  minimum.
\<close>

fun decayTier :: "num \<Rightarrow> tier \<Rightarrow> tier" where
  "decayTier currentTime [] = []"
| "decayTier currentTime ((i, entry) # rest) =
     (let entry' = applyDecay currentTime entry
      in if confidence entry' < MINIMUM_KNOWLEDGE_CONFIDENCE
         then decayTier currentTime rest
         else (i, entry') # decayTier currentTime rest)"

definition applyKnowledgeDecay :: "CrossRealitySystem \<Rightarrow> nat \<Rightarrow> num \<Rightarrow> CrossRealitySystem" where
  "applyKnowledgeDecay crs agent currentTime =
     (case agentKnowledge crs agent of
        None \<Rightarrow> crs
      | Some k \<Rightarrow>
          crs\<lparr>agentKnowledge := (agentKnowledge crs)(agent \<mapsto>
            \<lparr>low = decayTier currentTime (low k),
             mid = decayTier currentTime (mid k),
             high = decayTier currentTime (high k)\<rparr>)\<rparr>)"

section \<open>Adding knowledge to a tier\<close>

definition patternsMatch :: "pattern \<Rightarrow> pattern \<Rightarrow> bool" where
  "patternsMatch pattern1 pattern2 =
     (if ptype pattern1 \<noteq> ptype pattern2 then False
      else if length (conditions pattern1) \<noteq> length (conditions pattern2) then False
      else list_all
             (\<lambda>condition1.
                find (\<lambda>c. property c = property condition1 \<and> operator c = operator condition1)
                  (conditions pattern2) \<noteq> None)
             (conditions pattern1))"

text \<open>
  The capacity check and insertion that ends each of the three \<open>add...Knowledge\<close>
  methods: when the tier's size has reached the capacity, the entries are sorted by
  ascending confidence (Array.prototype.sort is stable) and the first one is deleted;
  then the new entry is set under its id.
\<close>

definition insertWithCapacity :: "nat \<Rightarrow> tier \<Rightarrow> KnowledgeEntry \<Rightarrow> tier" where
  "insertWithCapacity capacity t newEntry =
     (let t' = (if length t \<ge> capacity
                then (case sort_key (\<lambda>a. confidence (snd a)) t of
                        [] \<Rightarrow> t
                      | weakestEntry # _ \<Rightarrow> AList.delete (fst weakestEntry) t)
                else t)
      in AList.update (kid newEntry) newEntry t')"

definition addLowLevelKnowledge ::
  "CrossRealitySystem \<Rightarrow> nat \<Rightarrow> pattern \<Rightarrow> nat \<Rightarrow> string \<Rightarrow> num
     \<Rightarrow> KnowledgeEntry option \<times> CrossRealitySystem" where
  "addLowLevelKnowledge crs agent p environmentId newId now =
     (case agentKnowledge crs agent of
        None \<Rightarrow> (None, crs)
      | Some k \<Rightarrow>
          (case find (\<lambda>(i, entry). patternsMatch (kpattern entry) p) (low k) of
             Some (i, existingEntry) \<Rightarrow>
               (let e' = addInstance now p (Some environmentId) existingEntry
                in (Some e',
                    crs\<lparr>agentKnowledge := (agentKnowledge crs)(agent \<mapsto>
                          k\<lparr>low := AList.update i e' (low k)\<rparr>)\<rparr>))
           | None \<Rightarrow>
               (let newEntry = newKnowledgeEntry newId now p Low (Some environmentId)
                in (Some newEntry,
                    crs\<lparr>agentKnowledge := (agentKnowledge crs)(agent \<mapsto>
                          k\<lparr>low := insertWithCapacity LOW_LEVEL_CAPACITY (low k) newEntry\<rparr>)\<rparr>))))"

text \<open>\<open>[...new Set(xs)]\<close>: the distinct elements in order of first occurrence.\<close>

definition uniqueInOrder :: "'a list \<Rightarrow> 'a list" where
  "uniqueInOrder xs = rev (remdups (rev xs))"

definition pushEnvironmentIds :: "nat list \<Rightarrow> KnowledgeEntry \<Rightarrow> KnowledgeEntry" where
  "pushEnvironmentIds envIds e =
     foldl (\<lambda>e envId. if envId \<in> set (environmentIds e) then e
                       else e\<lparr>environmentIds := environmentIds e @ [envId]\<rparr>) e envIds"

definition addMidLevelKnowledge ::
  "CrossRealitySystem \<Rightarrow> nat \<Rightarrow> pattern \<Rightarrow> KnowledgeEntry list \<Rightarrow> string \<Rightarrow> num
     \<Rightarrow> KnowledgeEntry option \<times> CrossRealitySystem" where
  "addMidLevelKnowledge crs agent p sourceEntries newId now =
     (case agentKnowledge crs agent of
        None \<Rightarrow> (None, crs)
      | Some k \<Rightarrow>
          (let envIds = uniqueInOrder (concat (map environmentIds sourceEntries))
           in case find (\<lambda>(i, entry). patternsMatch (kpattern entry) p) (mid k) of
                Some (i, existingEntry) \<Rightarrow>
                  (let e' = pushEnvironmentIds envIds (addInstance now p None existingEntry)
                   in (Some e',
                       crs\<lparr>agentKnowledge := (agentKnowledge crs)(agent \<mapsto>
                             k\<lparr>mid := AList.update i e' (mid k)\<rparr>)\<rparr>))
              | None \<Rightarrow>
                  (let newEntry = addInstance now p None
                         (pushEnvironmentIds envIds (newKnowledgeEntry newId now p Mid None))
                   in (Some newEntry,
                       crs\<lparr>agentKnowledge := (agentKnowledge crs)(agent \<mapsto>
                             k\<lparr>mid := insertWithCapacity MID_LEVEL_CAPACITY (mid k) newEntry\<rparr>)\<rparr>))))"

definition addHighLevelKnowledge ::
  "CrossRealitySystem \<Rightarrow> nat \<Rightarrow> pattern \<Rightarrow> KnowledgeEntry list \<Rightarrow> string \<Rightarrow> num
     \<Rightarrow> KnowledgeEntry option \<times> CrossRealitySystem" where
  "addHighLevelKnowledge crs agent p sourceEntries newId now =
     (case agentKnowledge crs agent of
        None \<Rightarrow> (None, crs)
      | Some k \<Rightarrow>
          (let envIds = map fst (environments crs)
           in case find (\<lambda>(i, entry). ptype (kpattern entry) = ptype p \<and>
                                       universalPrinciple (kpattern entry)) (high k) of
                Some (i, existingEntry) \<Rightarrow>
                  (let e' = pushEnvironmentIds envIds (addInstance now p None existingEntry)
                   in (Some e',
                       crs\<lparr>agentKnowledge := (agentKnowledge crs)(agent \<mapsto>
                             k\<lparr>high := AList.update i e' (high k)\<rparr>)\<rparr>))
              | None \<Rightarrow>
                  (let newEntry = addInstance now p None
                         (pushEnvironmentIds envIds (newKnowledgeEntry newId now p High None))
                   in (Some newEntry,
                       crs\<lparr>agentKnowledge := (agentKnowledge crs)(agent \<mapsto>
                             k\<lparr>high := insertWithCapacity HIGH_LEVEL_CAPACITY (high k) newEntry\<rparr>)\<rparr>))))"

section \<open>Generalization from low to mid level\<close>

text \<open>
  \<open>Math.min(...values)\<close> and \<open>Math.max(...values)\<close> convert each value to a number;
  \<open>None\<close> stands for NaN, which any NaN among the values makes the result. A string
  or an object is read as NaN here (a numeric string would convert to its number).
\<close>

definition toNumber :: "jsval \<Rightarrow> num option" where
  "toNumber v = (case v of JNum r \<Rightarrow> Some r | JBool b \<Rightarrow> Some (if b then 1 else 0)
                 | JNull \<Rightarrow> Some 0 | JStr s \<Rightarrow> None | JObj r \<Rightarrow> None)"

definition mathMin :: "jsval list \<Rightarrow> num option" where
  "mathMin values = (if list_all (\<lambda>v. toNumber v \<noteq> None) values
                     then Some (Min (set (map (\<lambda>v. the (toNumber v)) values))) else None)"

definition mathMax :: "jsval list \<Rightarrow> num option" where
  "mathMax values = (if list_all (\<lambda>v. toNumber v \<noteq> None) values
                     then Some (Max (set (map (\<lambda>v. the (toNumber v)) values))) else None)"

definition isNumber :: "jsval \<Rightarrow> bool" where
  "isNumber v = (case v of JNum r \<Rightarrow> True | _ \<Rightarrow> False)"

definition isBoolean :: "jsval \<Rightarrow> bool" where
  "isBoolean v = (case v of JBool b \<Rightarrow> True | _ \<Rightarrow> False)"

text \<open>
  Two conditions are the same for generalization when property and operator agree.
\<close>

definition sameKey :: "condition \<Rightarrow> condition \<Rightarrow> bool" where
  "sameKey condition c = (property c = property condition \<and> operator c = operator condition)"

text \<open>
  The generalized value of a common condition, from the values the entries give it
  (entries whose matching condition has no value contribute none): a range for
  numbers, the majority for booleans, otherwise the common value or null.
\<close>

definition generalizeCondition :: "KnowledgeEntry list \<Rightarrow> condition \<Rightarrow> condition" where
  "generalizeCondition entries condition =
     (let values = concat (map (\<lambda>entry.
                      case find (sameKey condition) (conditions (kpattern entry)) of
                        None \<Rightarrow> []
                      | Some matchingCondition \<Rightarrow>
                          (case cvalue matchingCondition of None \<Rightarrow> [] | Some v \<Rightarrow> [v])) entries)
      in if values \<noteq> [] \<and> isNumber (hd values) then
           \<lparr>property = property condition, operator = operator condition, cvalue = None,
            valueRange = Some (mathMin values, mathMax values), threshold = None,
            generalized = True\<rparr>
         else if values \<noteq> [] \<and> isBoolean (hd values) then
           (let trueCount = length (filter (\<lambda>v. v = JBool True) values)
            in \<lparr>property = property condition, operator = operator condition,
                cvalue = Some (JBool (of_nat trueCount > (of_nat (length values) :: num) / 2)),
                valueRange = None, threshold = None, generalized = True\<rparr>)
         else
           \<lparr>property = property condition, operator = operator condition,
            cvalue = (if values = [] then None
                      else if list_all (\<lambda>v. v = hd values) values then Some (hd values)
                      else Some JNull),
            valueRange = None, threshold = None, generalized = True\<rparr>)"

definition findCommonConditions :: "KnowledgeEntry list \<Rightarrow> condition list" where
  "findCommonConditions entries =
     (if length entries = 0 then []
      else
        (let candidateConditions = conditions (kpattern (hd entries));
             commonConditions =
               filter (\<lambda>condition.
                         list_all (\<lambda>entry. list_ex (sameKey condition) (conditions (kpattern entry)))
                           entries)
                 candidateConditions
         in map (generalizeCondition entries) commonConditions))"

text \<open>
  \<open>knowledgeByType\<close>: a Map from pattern type to the entries of that type, filled in
  iteration order of the low tier.
\<close>

fun groupByType ::
  "KnowledgeEntry list \<Rightarrow> (string \<times> KnowledgeEntry list) list \<Rightarrow> (string \<times> KnowledgeEntry list) list" where
  "groupByType [] knowledgeByType = knowledgeByType"
| "groupByType (entry # rest) knowledgeByType =
     groupByType rest
       (case map_of knowledgeByType (ptype (kpattern entry)) of
          None \<Rightarrow> knowledgeByType @ [(ptype (kpattern entry), [entry])]
        | Some entries \<Rightarrow>
            AList.update (ptype (kpattern entry)) (entries @ [entry]) knowledgeByType)"

text \<open>
  The loop of \<open>generalizeLowToMid\<close> over the groups; each \<open>continue\<close> is a recursive
  call on the remaining groups with the state unchanged. \<open>newId type\<close> is the id that
  the constructor would draw when the group of this type is promoted.
\<close>

fun generalizeTypes ::
  "nat \<Rightarrow> (string \<Rightarrow> string) \<Rightarrow> num \<Rightarrow> (string \<times> KnowledgeEntry list) list
     \<Rightarrow> CrossRealitySystem \<Rightarrow> CrossRealitySystem" where
  "generalizeTypes agent newId now [] crs = crs"
| "generalizeTypes agent newId now ((type, entries) # rest) crs =
     (if length entries < ABSTRACTION_INSTANCE_THRESHOLD
      then generalizeTypes agent newId now rest crs
      else
        (let confidentEntries =
               filter (\<lambda>entry. confidence entry \<ge> ABSTRACTION_CONFIDENCE_THRESHOLD) entries
         in if length confidentEntries < 3
            then generalizeTypes agent newId now rest crs
            else
              (let commonConditions = findCommonConditions confidentEntries
               in if length commonConditions = 0
                  then generalizeTypes agent newId now rest crs
                  else
                    (let midLevelPattern =
                           \<lparr>ptype = type, conditions = commonConditions,
                            universalPrinciple = False\<rparr>
                     in generalizeTypes agent newId now rest
                          (snd (addMidLevelKnowledge crs agent midLevelPattern
                                  confidentEntries (newId type) now))))))"

definition generalizeLowToMid ::
  "CrossRealitySystem \<Rightarrow> nat \<Rightarrow> (string \<Rightarrow> string) \<Rightarrow> num \<Rightarrow> CrossRealitySystem" where
  "generalizeLowToMid crs agent newId now =
     (case agentKnowledge crs agent of
        None \<Rightarrow> crs
      | Some k \<Rightarrow> generalizeTypes agent newId now (groupByType (map snd (low k)) []) crs)"

section \<open>Environment tracking and knowledge adaptation\<close>

definition MAX_ENVIRONMENT_CACHE :: nat where "MAX_ENVIRONMENT_CACHE = 5"

text \<open>
  \<open>detectEnvironmentId\<close> reads the agent's reality-flux effect type
  (\<open>RealityFlux[agent]?.effectType || 0\<close>) and position from other components; they
  are arguments here.
\<close>

definition detectEnvironmentId :: "CrossRealitySystem \<Rightarrow> nat \<Rightarrow> num \<times> num \<Rightarrow> nat" where
  "detectEnvironmentId crs realityEffect position =
     (if truthyId (worldCurrentEnvironmentId crs) then the (worldCurrentEnvironmentId crs)
      else if realityEffect > 0 then 1000 + realityEffect
      else (let quadrantX = (if fst position < 50 then 0 else 1);
                quadrantY = (if snd position < 50 then 0 else 1)
            in quadrantX + quadrantY * 2 + 1))"

text \<open>\<open>map.get(key) || 0\<close> on a Map of numbers.\<close>

definition featureValue :: "(string \<times> num) list \<Rightarrow> string \<Rightarrow> num" where
  "featureValue m key = (case map_of m key of None \<Rightarrow> 0 | Some v \<Rightarrow> v)"

text \<open>
  One of the three comparison loops of \<open>EnvironmentProfile.calculateSimilarity\<close>, over
  the keys of both Maps, carrying the score and the number of comparisons.
\<close>

definition compareFeatures ::
  "(string \<times> num) list \<Rightarrow> (string \<times> num) list \<Rightarrow> num \<times> nat \<Rightarrow> num \<times> nat" where
  "compareFeatures these others acc =
     foldl (\<lambda>(similarityScore, comparisonCount) key.
              (let thisValue = featureValue these key;
                   otherValue = featureValue others key;
                   maxValue = max thisValue otherValue
               in if maxValue > 0
                  then (similarityScore + (1 - \<bar>thisValue - otherValue\<bar> / maxValue),
                        comparisonCount + 1)
                  else (similarityScore, comparisonCount)))
       acc (uniqueInOrder (map fst these @ map fst others))"

definition calculateSimilarity :: "EnvironmentProfile \<Rightarrow> EnvironmentProfile \<Rightarrow> num" where
  "calculateSimilarity this otherProfile =
     (let acc1 = compareFeatures (entityDistribution this) (entityDistribution otherProfile) (0, 0);
          acc2 = compareFeatures (spatialCharacteristics this)
                   (spatialCharacteristics otherProfile) acc1;
          acc3 = compareFeatures (stabilityMetrics this) (stabilityMetrics otherProfile) acc2
      in if snd acc3 > 0 then fst acc3 / of_nat (snd acc3) else 0)"

definition calculateEnvironmentSimilarity :: "CrossRealitySystem \<Rightarrow> nat \<Rightarrow> nat \<Rightarrow> num" where
  "calculateEnvironmentSimilarity crs envId1 envId2 =
     (if envId1 = envId2 then 1
      else if envId1 = 0 \<or> envId2 = 0 then 0
      else (case (map_of (environments crs) envId1, map_of (environments crs) envId2) of
              (Some env1, Some env2) \<Rightarrow> calculateSimilarity env1 env2
            | _ \<Rightarrow>
                if envId1 \<ge> 1000 \<or> envId2 \<ge> 1000 then 2 / 10
                else if \<bar>int envId1 - int envId2\<bar> = 1 \<or> \<bar>int envId1 - int envId2\<bar> = 2
                then 6 / 10
                else 4 / 10))"

text \<open>
  What \<open>collectEnvironmentObservations\<close> gathers from the agent's sensors: three
  objects from feature name to number, in key order. They are an argument here.
\<close>

record observations =
  entityCounts :: "(string \<times> num) list"
  spatialData :: "(string \<times> num) list"
  stabilityData :: "(string \<times> num) list"

definition movingAverage :: "(string \<times> num) list \<Rightarrow> (string \<times> num) list \<Rightarrow> (string \<times> num) list" where
  "movingAverage m observed =
     foldl (\<lambda>m (key, v). AList.update key (featureValue m key * (8 / 10) + v * (2 / 10)) m)
       m observed"

definition profileUpdate :: "num \<Rightarrow> observations \<Rightarrow> EnvironmentProfile \<Rightarrow> EnvironmentProfile" where
  "profileUpdate now obs profile =
     profile\<lparr>visitCount := visitCount profile + 1, lastUpdated := now,
             entityDistribution := movingAverage (entityDistribution profile) (entityCounts obs),
             spatialCharacteristics :=
               movingAverage (spatialCharacteristics profile) (spatialData obs),
             stabilityMetrics := movingAverage (stabilityMetrics profile) (stabilityData obs)\<rparr>"

definition newEnvironmentProfile :: "num \<Rightarrow> EnvironmentProfile" where
  "newEnvironmentProfile now =
     \<lparr>entityDistribution = [], spatialCharacteristics = [], stabilityMetrics = [],
      lastUpdated = now, visitCount = 1\<rparr>"

definition updateEnvironmentProfile ::
  "CrossRealitySystem \<Rightarrow> nat \<Rightarrow> observations \<Rightarrow> num \<Rightarrow> CrossRealitySystem" where
  "updateEnvironmentProfile crs environmentId obs now =
     (if environmentId = 0 then crs
      else (case map_of (environments crs) environmentId of
              Some profile \<Rightarrow>
                crs\<lparr>environments :=
                      AList.update environmentId (profileUpdate now obs profile) (environments crs)\<rparr>
            | None \<Rightarrow>
                (let profile = newEnvironmentProfile now;
                     envs = AList.update environmentId profile (environments crs);
                     envs' = (if length envs > MAX_ENVIRONMENT_CACHE
                              then (case sort_key (\<lambda>a. lastUpdated (snd a)) envs of
                                      [] \<Rightarrow> envs
                                    | oldest # _ \<Rightarrow> AList.delete (fst oldest) envs)
                              else envs)
                 in crs\<lparr>environments :=
                          (if environmentId \<in> fst ` set envs'
                           then AList.update environmentId (profileUpdate now obs profile) envs'
                           else envs')\<rparr>)))"

text \<open>
  One of the three loops of \<open>adaptKnowledge\<close>: the confidence of every affected entry
  of the tier is multiplied by the factor. After the loops \<open>adaptKnowledge\<close> copies
  the knowledge to the component, moves the agent's adaptation rate towards the
  adaptation factor, and logs the transition.
\<close>

definition adaptTier :: "(KnowledgeEntry \<Rightarrow> bool) \<Rightarrow> num \<Rightarrow> tier \<Rightarrow> tier" where
  "adaptTier affected factor t =
     map (\<lambda>(i, knowledge).
            (i, if affected knowledge
                then knowledge\<lparr>confidence := confidence knowledge * factor\<rparr>
                else knowledge)) t"

definition adaptKnowledge ::
  "CrossRealitySystem \<Rightarrow> nat \<Rightarrow> nat \<Rightarrow> nat \<Rightarrow> num \<Rightarrow> CrossRealitySystem" where
  "adaptKnowledge crs agent newEnvironmentId previousEnvironmentId similarity =
     (case agentKnowledge crs agent of
        None \<Rightarrow> crs
      | Some k \<Rightarrow>
          (let adaptationFactor = max (1 / 10) (1 - similarity)
           in crs\<lparr>agentKnowledge := (agentKnowledge crs)(agent \<mapsto>
                \<lparr>low = adaptTier (\<lambda>knowledge. \<not> isApplicableInEnvironment knowledge newEnvironmentId)
                         (1 - adaptationFactor * (7 / 10)) (low k),
                 mid = adaptTier (\<lambda>knowledge. \<not> isApplicableInEnvironment knowledge newEnvironmentId)
                         (1 - adaptationFactor * (4 / 10)) (mid k),
                 high = adaptTier (\<lambda>knowledge. True)
                         (1 - adaptationFactor * (1 / 10)) (high k)\<rparr>),
                 adaptationRate := (adaptationRate crs)
                   (agent := adaptationRate crs agent * (8 / 10) + adaptationFactor * (2 / 10))\<rparr>))"

definition updateEnvironment ::
  "CrossRealitySystem \<Rightarrow> nat \<Rightarrow> num \<Rightarrow> nat \<Rightarrow> num \<times> num \<Rightarrow> observations \<Rightarrow> num
     \<Rightarrow> CrossRealitySystem" where
  "updateEnvironment crs agent currentTime realityEffect position obs now =
     (let newEnvironmentId = detectEnvironmentId crs realityEffect position;
          currentEnvId = currentEnvironmentId crs agent;
          crs1 =
            (if newEnvironmentId \<noteq> currentEnvId
             then (let similarity = calculateEnvironmentSimilarity crs newEnvironmentId currentEnvId;
                       crs' = crs\<lparr>lastEnvironmentId := (lastEnvironmentId crs)(agent := currentEnvId),
                                  currentEnvironmentId :=
                                    (currentEnvironmentId crs)(agent := newEnvironmentId),
                                  environmentTransitionTime :=
                                    (environmentTransitionTime crs)(agent := currentTime),
                                  environmentSimilarity :=
                                    (environmentSimilarity crs)(agent := similarity)\<rparr>
                   in if similarity < ENVIRONMENT_TRANSITION_THRESHOLD
                      then adaptKnowledge crs' agent newEnvironmentId currentEnvId similarity
                      else crs')
             else crs)
      in updateEnvironmentProfile crs1 newEnvironmentId obs now)"

section \<open>HESMS: configuration and data\<close>

text \<open>
  The options of a memory manager are \<open>CONFIG\<close> overridden by the caller's options;
  the fields that the operations below read are kept.
\<close>

record options =
  PATTERN_CONFIDENCE_THRESHOLD :: num
  ENABLE_CLOUD_SYNC :: bool
  BATCH_SIZE :: nat
  RETRY_DELAY :: num
  MAX_RETRIES :: nat
  SPATIAL_CELL_SIZE :: num

definition CONFIG :: options where
  "CONFIG = \<lparr>PATTERN_CONFIDENCE_THRESHOLD = 7 / 10, ENABLE_CLOUD_SYNC = True, BATCH_SIZE = 50,
             RETRY_DELAY = 1000, MAX_RETRIES = 3, SPATIAL_CELL_SIZE = 10\<rparr>"

text \<open>
  The context of an episodic memory. \<open>None\<close> is null: the value read from the agent's
  component was undefined or falsy.
\<close>

record memoryContext =
  action :: "num option"
  success :: "num option"
  emotionalState :: "num option"
  realityShift :: bool

text \<open>
  An episodic memory. Its id string ends in random characters and is an input where a
  memory is constructed; \<open>tags\<close> and \<open>creationTime\<close> are read by nothing below and are
  left out.
\<close>

record EpisodicMemory =
  memId :: string
  timestamp :: num
  entityId :: nat
  entityType :: nat
  position :: "num \<times> num"
  importance :: num
  mcontext :: memoryContext
  agentId :: nat
  fidelity :: num
  emotionalImpact :: num

text \<open>
  \<open>Math.hypot(dx, dy)\<close> compared with a bound, without the square root: for a
  non-negative bound the comparison of the squares is the same.
\<close>

definition hypotLess :: "num \<Rightarrow> num \<Rightarrow> num \<Rightarrow> bool" where
  "hypotLess dx dy r = (0 < r \<and> dx * dx + dy * dy < r * r)"

definition hypotAtMost :: "num \<Rightarrow> num \<Rightarrow> num \<Rightarrow> bool" where
  "hypotAtMost dx dy r = (0 \<le> r \<and> dx * dx + dy * dy \<le> r * r)"

text \<open>Decimal digits of a natural number, as template strings print it.\<close>

fun showNat :: "nat \<Rightarrow> string" where
  "showNat n = (if n < 10 then [''0123456789'' ! n]
                else showNat (n div 10) @ [''0123456789'' ! (n mod 10)])"

declare showNat.simps [simp del]

section \<open>SemanticMemory\<close>

record semanticPattern =
  stype :: string
  rule :: string
  sconfidence :: num
  sourceCount :: nat
  screated :: num
  slastConfirmed :: num
  evidence :: "string list"

text \<open>The argument of \<open>addPattern\<close>.\<close>

record patternInput =
  in_type :: string
  in_rule :: string
  in_confidence :: num
  in_sourceCount :: nat
  in_timestamp :: num
  in_evidence :: "string list"

record SemanticMemory =
  patterns :: "semanticPattern list"
  associations :: "(string \<times> num) list"
  conceptConfidence :: "(string \<times> num) list"
  semLastUpdated :: num
  version :: nat

definition newSemanticMemory :: SemanticMemory where
  "newSemanticMemory =
     \<lparr>patterns = [], associations = [], conceptConfidence = [], semLastUpdated = 0, version = 1\<rparr>"

text \<open>
  \<open>addPattern\<close> merges into the first pattern of the same type, in place, or appends.
  A merge with no source on either side divides 0 by 0, which is NaN in the program and
  0 here; \<open>extractResourcePatterns\<close> passes patterns with at least three sources.
\<close>

fun mergePattern :: "patternInput \<Rightarrow> semanticPattern list \<Rightarrow> semanticPattern list" where
  "mergePattern p [] =
     [\<lparr>stype = in_type p, rule = in_rule p, sconfidence = in_confidence p,
       sourceCount = in_sourceCount p, screated = in_timestamp p,
       slastConfirmed = in_timestamp p, evidence = in_evidence p\<rparr>]"
| "mergePattern p (existing # rest) =
     (if stype existing = in_type p
      then (let totalCount = sourceCount existing + in_sourceCount p
            in existing\<lparr>sconfidence :=
                          (sconfidence existing * of_nat (sourceCount existing) +
                           in_confidence p * of_nat (in_sourceCount p)) / of_nat totalCount,
                        sourceCount := totalCount,
                        slastConfirmed := in_timestamp p,
                        evidence := evidence existing @ in_evidence p\<rparr> # rest)
      else existing # mergePattern p rest)"

definition addPattern :: "patternInput \<Rightarrow> SemanticMemory \<Rightarrow> SemanticMemory" where
  "addPattern p sm = sm\<lparr>patterns := mergePattern p (patterns sm)\<rparr>"

definition addAssociation :: "string \<Rightarrow> string \<Rightarrow> num \<Rightarrow> SemanticMemory \<Rightarrow> SemanticMemory" where
  "addAssociation concept1 concept2 strength sm =
     (let key = concept1 @ '':'' @ concept2;
          reverseKey = concept2 @ '':'' @ concept1;
          current = (case map_of (associations sm) key of None \<Rightarrow> 0 | Some v \<Rightarrow> v);
          newStrength = min 1 (current + strength * (3 / 10))
      in sm\<lparr>associations :=
              AList.update reverseKey newStrength
                (AList.update key newStrength (associations sm))\<rparr>)"

text \<open>
  The memories near the one at index \<open>i\<close>: \<open>m !== memory\<close> compares objects, and the
  objects of a list of memories are told apart by their index.
\<close>

definition othersAt :: "EpisodicMemory list \<Rightarrow> nat \<Rightarrow> EpisodicMemory list" where
  "othersAt memories i = map snd (filter (\<lambda>(j, m). j \<noteq> i) (enumerate 0 memories))"

definition proximityNearby :: "EpisodicMemory list \<Rightarrow> nat \<Rightarrow> nat \<Rightarrow> EpisodicMemory list" where
  "proximityNearby memories targetType i =
     (let memory = memories ! i
      in filter (\<lambda>m. entityType m = targetType \<and>
                      \<bar>timestamp m - timestamp memory\<bar> < 10 \<and>
                      hypotLess (fst (position m) - fst (position memory))
                                (snd (position m) - snd (position memory)) 15)
           (othersAt memories i))"

text \<open>
  The loop of \<open>_extractProximityPattern\<close> over the memories, from index \<open>i\<close> on,
  carrying the count, the evidence and the semantic memory.
\<close>

fun proximityLoop ::
  "EpisodicMemory list \<Rightarrow> nat \<Rightarrow> nat list \<Rightarrow> nat \<times> string list \<times> SemanticMemory
     \<Rightarrow> nat \<times> string list \<times> SemanticMemory" where
  "proximityLoop memories targetType [] acc = acc"
| "proximityLoop memories targetType (i # rest) (proximalCount, evidenceIds, sm) =
     (if length (proximityNearby memories targetType i) > 0
      then proximityLoop memories targetType rest
             (proximalCount + 1, evidenceIds @ [memId (memories ! i)],
              addAssociation (''type_'' @ showNat (entityType (memories ! i)))
                (''type_'' @ showNat targetType) (3 / 10) sm)
      else proximityLoop memories targetType rest (proximalCount, evidenceIds, sm))"

definition extractProximityPattern ::
  "EpisodicMemory list \<Rightarrow> nat \<Rightarrow> string \<Rightarrow> string \<Rightarrow> SemanticMemory \<Rightarrow> SemanticMemory" where
  "extractProximityPattern memories targetType patternType rule_text sm =
     (case proximityLoop memories targetType [0..<length memories] (0, [], sm) of
        (proximalCount, evidenceIds, sm') \<Rightarrow>
          (let ratio = (of_nat proximalCount :: num) / of_nat (length memories)
           in if ratio > 3 / 10
              then addPattern
                     \<lparr>in_type = patternType, in_rule = rule_text, in_confidence = ratio,
                      in_sourceCount = length memories,
                      in_timestamp = timestamp (last memories), in_evidence = evidenceIds\<rparr> sm'
              else sm'))"

definition clusterNearby :: "EpisodicMemory list \<Rightarrow> nat \<Rightarrow> EpisodicMemory list" where
  "clusterNearby memories i =
     (let memory = memories ! i
      in filter (\<lambda>m. hypotLess (fst (position m) - fst (position memory))
                                (snd (position m) - snd (position memory)) 20)
           (othersAt memories i))"

definition extractClusterPattern ::
  "EpisodicMemory list \<Rightarrow> string \<Rightarrow> string \<Rightarrow> SemanticMemory \<Rightarrow> SemanticMemory" where
  "extractClusterPattern memories patternType rule_text sm =
     (let clustered = filter (\<lambda>i. length (clusterNearby memories i) \<ge> 2) [0..<length memories];
          evidenceIds = map (\<lambda>i. memId (memories ! i)) clustered;
          ratio = (of_nat (length clustered) :: num) / of_nat (length memories)
      in if ratio > 4 / 10
         then addPattern
                \<lparr>in_type = patternType, in_rule = rule_text, in_confidence = ratio,
                 in_sourceCount = length memories,
                 in_timestamp = timestamp (last memories), in_evidence = evidenceIds\<rparr> sm
         else sm)"

definition extractResourcePatterns :: "EpisodicMemory list \<Rightarrow> SemanticMemory \<Rightarrow> SemanticMemory" where
  "extractResourcePatterns memories sm =
     (let resources = filter (\<lambda>m. entityType m = 0) memories
      in if length resources < 3 then sm
         else extractClusterPattern resources ''resource_clustering'' ''Resources tend to cluster''
                (extractProximityPattern resources 1 ''resource_obstacle_proximity''
                   ''Resources are often near obstacles'' sm))"

section \<open>MemoryManager: state\<close>

text \<open>
  The EnhancedMemory component: per-agent scalars indexed by the agent, and the
  short-term arrays, which the program indexes flat, by \<open>agent * 10 + slot\<close>. The
  capacity and the write index are ui8 typed arrays. An array-typed property holds one
  subarray per entity; the program assigns to the elements of the property itself, so a
  slot holds the number that was assigned to it, as it is.
\<close>

record EnhancedMemory =
  shortTermCapacity :: "nat \<Rightarrow> 8 word"
  shortTermIndex :: "nat \<Rightarrow> 8 word"
  shortTermIds :: "nat \<Rightarrow> nat"
  shortTermTypes :: "nat \<Rightarrow> nat"
  shortTermPositionsX :: "nat \<Rightarrow> num"
  shortTermPositionsY :: "nat \<Rightarrow> num"
  shortTermTimestamps :: "nat \<Rightarrow> nat"
  shortTermImportance :: "nat \<Rightarrow> num"
  shortTermFidelity :: "nat \<Rightarrow> num"
  memoryId :: "nat \<Rightarrow> nat"
  globalFidelity :: "nat \<Rightarrow> num"

text \<open>
  The spatial index is a Map from grid cell to the memories in it; the cell key
  \<open>"i,j"\<close> is the pair of integers it prints.
\<close>

type_synonym grid = "((int \<times> int) \<times> EpisodicMemory list) list"

text \<open>
  The memory manager: its Maps are keyed by memory id and kept in insertion order;
  \<open>pendingSemanticUpdates\<close> is a Set in insertion order; \<open>worldTime\<close> is
  \<open>this.world.time\<close>, the tick counter.
\<close>

record MemoryManager =
  options :: options
  agentMemoryCache :: "(nat \<times> SemanticMemory) list"
  episodicQueue :: "(nat \<times> EpisodicMemory list) list"
  longTermMemory :: "(nat \<times> EpisodicMemory list) list"
  spatialIndex :: grid
  pendingSemanticUpdates :: "nat list"
  initialized :: bool
  syncInProgress :: bool
  worldTime :: nat

definition newMemoryManager :: "options \<Rightarrow> nat \<Rightarrow> MemoryManager" where
  "newMemoryManager opts time =
     \<lparr>options = opts, agentMemoryCache = [], episodicQueue = [], longTermMemory = [],
      spatialIndex = [], pendingSemanticUpdates = [], initialized = False,
      syncInProgress = False, worldTime = time\<rparr>"

section \<open>Recording an episodic memory\<close>

text \<open>
  The event passed to \<open>recordEpisodicMemory\<close>, and what the optional reads of the
  agent's other components (\<open>Actions[agent]?.currentAction\<close>,
  \<open>Actions[agent]?.successRate\<close>, \<open>CognitiveState[agent]?.emotionalState\<close>,
  \<open>RealityFlux[agent]?.effectType\<close>) give; \<open>None\<close> is undefined.
\<close>

record shortTermEvent =
  ev_entityId :: nat
  ev_entityType :: nat
  ev_position :: "num \<times> num"
  ev_importance :: "num option"

record agentReadings =
  currentAction :: "num option"
  successRate :: "num option"
  emotionalStateReading :: "num option"
  effectType :: "num option"

text \<open>\<open>x || null\<close> and \<open>x || d\<close> for a number that may be undefined.\<close>

definition orNull :: "num option \<Rightarrow> num option" where
  "orNull x = (case x of None \<Rightarrow> None | Some v \<Rightarrow> if v = 0 then None else Some v)"

definition orElse :: "num option \<Rightarrow> num \<Rightarrow> num" where
  "orElse x d = (case orNull x of None \<Rightarrow> d | Some v \<Rightarrow> v)"

definition newEpisodicMemory ::
  "string \<Rightarrow> nat \<Rightarrow> nat \<Rightarrow> nat \<Rightarrow> nat \<Rightarrow> num \<times> num \<Rightarrow> num \<Rightarrow> memoryContext \<Rightarrow> num \<Rightarrow> num
     \<Rightarrow> EpisodicMemory" where
  "newEpisodicMemory newId agent time eid etype pos imp ctx fid emotional =
     \<lparr>memId = newId, timestamp = of_nat time, entityId = eid, entityType = etype, position = pos,
      importance = min 1 (max 0 (orElse (Some imp) (5 / 10))), mcontext = ctx, agentId = agent,
      fidelity = min 1 (max 0 (orElse (Some fid) 1)),
      emotionalImpact = orElse (Some emotional) 50\<rparr>"

definition cellOf :: "num \<Rightarrow> num \<times> num \<Rightarrow> int \<times> int" where
  "cellOf cellSize pos = (\<lfloor>fst pos / cellSize\<rfloor>, \<lfloor>snd pos / cellSize\<rfloor>)"

definition addMemory :: "num \<Rightarrow> EpisodicMemory \<Rightarrow> grid \<Rightarrow> grid" where
  "addMemory cellSize memory g =
     (let key = cellOf cellSize (position memory)
      in AList.update key ((case map_of g key of None \<Rightarrow> [] | Some ms \<Rightarrow> ms) @ [memory]) g)"

definition recordEpisodicMemory ::
  "EnhancedMemory \<Rightarrow> MemoryManager \<Rightarrow> nat \<Rightarrow> agentReadings \<Rightarrow> string \<Rightarrow> shortTermEvent
     \<Rightarrow> EpisodicMemory \<times> EnhancedMemory \<times> MemoryManager" where
  "recordEpisodicMemory em mgr agent readings newId event =
     (let mId = memoryId em agent;
          index = unat (shortTermIndex em agent);
          capacity = unat (shortTermCapacity em agent);
          ctx = \<lparr>action = orNull (currentAction readings),
                 success = orNull (successRate readings),
                 emotionalState = orNull (emotionalStateReading readings),
                 realityShift = (case effectType readings of None \<Rightarrow> False | Some v \<Rightarrow> v > 0)\<rparr>;
          emotion = (case emotionalState ctx of None \<Rightarrow> 0 | Some v \<Rightarrow> v);
          emotionalBoost = (if emotion > 70 \<or> emotion < 30 then 2 / 10 else 0);
          imp = min 1 (orElse (ev_importance event) (5 / 10) + emotionalBoost);
          slot = agent * 10 + index;
          em' = em\<lparr>shortTermIds := (shortTermIds em)(slot := ev_entityId event),
                   shortTermTypes := (shortTermTypes em)(slot := ev_entityType event),
                   shortTermPositionsX := (shortTermPositionsX em)(slot := fst (ev_position event)),
                   shortTermPositionsY := (shortTermPositionsY em)(slot := snd (ev_position event)),
                   shortTermTimestamps := (shortTermTimestamps em)(slot := worldTime mgr),
                   shortTermImportance := (shortTermImportance em)(slot := imp),
                   shortTermFidelity := (shortTermFidelity em)(slot := globalFidelity em agent),
                   shortTermIndex := (shortTermIndex em)
                     (agent := (if capacity = 0 then 0 else of_nat ((index + 1) mod capacity)))\<rparr>;
          episodicMemory =
            newEpisodicMemory newId agent (worldTime mgr) (ev_entityId event) (ev_entityType event)
              (ev_position event) imp ctx (globalFidelity em agent)
              (case emotionalState ctx of None \<Rightarrow> 50 | Some v \<Rightarrow> v);
          queue = (case map_of (episodicQueue mgr) mId of None \<Rightarrow> [] | Some ms \<Rightarrow> ms) @ [episodicMemory];
          mgr' = mgr\<lparr>episodicQueue := AList.update mId queue (episodicQueue mgr),
                     spatialIndex := addMemory (SPATIAL_CELL_SIZE (options mgr)) episodicMemory
                                       (spatialIndex mgr),
                     pendingSemanticUpdates :=
                       (if length queue \<ge> 5 \<and> mId \<notin> set (pendingSemanticUpdates mgr)
                        then pendingSemanticUpdates mgr @ [mId]
                        else pendingSemanticUpdates mgr)\<rparr>
      in (episodicMemory, em', mgr'))"

text \<open>A run of calls for one agent, each with its readings, memory id suffix and event.\<close>

fun recordAll ::
  "nat \<Rightarrow> (agentReadings \<times> string \<times> shortTermEvent) list \<Rightarrow> EnhancedMemory \<times> MemoryManager
     \<Rightarrow> EnhancedMemory \<times> MemoryManager" where
  "recordAll agent [] s = s"
| "recordAll agent ((readings, newId, event) # calls) (em, mgr) =
     recordAll agent calls (snd (recordEpisodicMemory em mgr agent readings newId event))"

section \<open>Cloud sync with retries\<close>

text \<open>
  The outside world of the asynchronous sync path: how many HTTP requests have been
  made, the lines written by \<open>console.warn\<close> and \<open>console.log\<close>, and the delays
  awaited with \<open>setTimeout\<close>. The server is a function from the number of a request
  to its outcome: \<open>None\<close> when the request succeeds, the error message when it fails.
  A rejected promise is the error value \<open>Inl message\<close>.
\<close>

record io =
  requests :: nat
  warnings :: "string list"
  logs :: "string list"
  sleeps :: "num list"

type_synonym server = "nat \<Rightarrow> string option"

text \<open>
  The operations that the program retries, each one POST request: the creation of the
  cloud memory in \<open>initializeAgentMemory\<close> (\<open>createCloudMemory\<close>, which does
  nothing when cloud sync is off, and logs a line when the request succeeds), the
  upload of a compressed batch in \<open>syncEpisodicMemories\<close> (with a log line when it
  succeeds), and the upload of the semantic memory in \<open>updateSemanticPatterns\<close>.
  No caller reads the value that an operation returns: it is \<open>()\<close>.
\<close>

definition createCloudMemory :: "server \<Rightarrow> options \<Rightarrow> nat \<Rightarrow> io \<Rightarrow> (string + unit) \<times> io" where
  "createCloudMemory respond opts mId s =
     (if \<not> ENABLE_CLOUD_SYNC opts then (Inr (), s)
      else (case respond (requests s) of
              Some error \<Rightarrow> (Inl error, s\<lparr>requests := requests s + 1\<rparr>)
            | None \<Rightarrow>
                (Inr (),
                 s\<lparr>requests := requests s + 1,
                   logs := logs s @ [''HESMS: Cloud memory created for ID '' @ showNat mId]\<rparr>)))"

definition postEpisodic :: "server \<Rightarrow> nat \<Rightarrow> EpisodicMemory list \<Rightarrow> io \<Rightarrow> (string + unit) \<times> io" where
  "postEpisodic respond mId batch s =
     (case respond (requests s) of
        Some error \<Rightarrow> (Inl error, s\<lparr>requests := requests s + 1\<rparr>)
      | None \<Rightarrow>
          (Inr (),
           s\<lparr>requests := requests s + 1,
             logs := logs s @ [''HESMS: Synced '' @ showNat (length batch) @
                               '' memories for ID '' @ showNat mId]\<rparr>))"

definition postSemantic :: "server \<Rightarrow> nat \<Rightarrow> io \<Rightarrow> (string + unit) \<times> io" where
  "postSemantic respond mId s =
     (case respond (requests s) of
        Some error \<Rightarrow> (Inl error, s\<lparr>requests := requests s + 1\<rparr>)
      | None \<Rightarrow> (Inr (), s\<lparr>requests := requests s + 1\<rparr>))"

text \<open>
  The loop of \<open>retryOperation\<close> from a given attempt on. A loop that ends without a
  return (no retries at all) returns undefined, \<open>Inr None\<close>.
\<close>

function retryFrom ::
  "(io \<Rightarrow> (string + 'a) \<times> io) \<Rightarrow> options \<Rightarrow> nat \<Rightarrow> nat \<Rightarrow> io \<Rightarrow> (string + 'a option) \<times> io" where
  "retryFrom operation opts retries attempt s =
     (if attempt < retries
      then (case operation s of
              (Inr v, s') \<Rightarrow> (Inr (Some v), s')
            | (Inl error, s') \<Rightarrow>
                if attempt = retries - 1 then (Inl error, s')
                else retryFrom operation opts retries (attempt + 1)
                       (s'\<lparr>warnings := warnings s' @
                             [''HESMS: Retry '' @ showNat (attempt + 1) @ ''/'' @ showNat retries @
                              '' failed: '' @ error],
                           sleeps := sleeps s' @ [RETRY_DELAY opts * of_nat (attempt + 1)]\<rparr>))
      else (Inr None, s))"
  by pat_completeness auto

termination
  by (relation "measure (\<lambda>(operation, opts, retries, attempt, s). retries - attempt)") auto

declare retryFrom.simps [simp del]

definition retryOperation ::
  "(io \<Rightarrow> (string + 'a) \<times> io) \<Rightarrow> options \<Rightarrow> io \<Rightarrow> (string + 'a option) \<times> io" where
  "retryOperation operation opts s = retryFrom operation opts (MAX_RETRIES opts) 0 s"

text \<open>The batches of at most \<open>n\<close> memories each, for a positive batch size.\<close>

fun chunks :: "nat \<Rightarrow> 'a list \<Rightarrow> 'a list list" where
  "chunks n xs = (if xs = [] \<or> n = 0 then [] else take n xs # chunks n (drop n xs))"

declare chunks.simps [simp del]

fun sendBatches ::
  "server \<Rightarrow> options \<Rightarrow> nat \<Rightarrow> EpisodicMemory list list \<Rightarrow> io \<Rightarrow> (string + unit) \<times> io" where
  "sendBatches respond opts mId [] s = (Inr (), s)"
| "sendBatches respond opts mId (batch # rest) s =
     (case retryOperation (postEpisodic respond mId batch) opts s of
        (Inl error, s') \<Rightarrow> (Inl error, s')
      | (Inr v, s') \<Rightarrow> sendBatches respond opts mId rest s')"

text \<open>
  The loop of \<open>syncEpisodicMemories\<close> over the memory ids. The memories of an id are
  sorted in place by descending importance before anything else. With a batch size of
  0 the batching loop never ends: the result is \<open>None\<close>. An error thrown by
  \<open>retryOperation\<close> leaves the function at once; the queue of the id is emptied only
  after all its batches were sent.
\<close>

fun syncIds ::
  "server \<Rightarrow> nat list \<Rightarrow> MemoryManager \<Rightarrow> io \<Rightarrow> ((string + unit) \<times> MemoryManager \<times> io) option" where
  "syncIds respond [] mgr s = Some (Inr (), mgr, s)"
| "syncIds respond (mId # rest) mgr s =
     (case map_of (episodicQueue mgr) mId of
        None \<Rightarrow> Some (Inl ''TypeError'', mgr, s)
      | Some queued \<Rightarrow>
          (let memories = sort_key (\<lambda>m. - importance m) queued;
               mgr1 = mgr\<lparr>episodicQueue := AList.update mId memories (episodicQueue mgr)\<rparr>
           in if length memories = 0 then syncIds respond rest mgr1 s
              else if BATCH_SIZE (options mgr) = 0 then None
              else (case sendBatches respond (options mgr) mId
                           (chunks (BATCH_SIZE (options mgr)) memories) s of
                      (Inl error, s') \<Rightarrow> Some (Inl error, mgr1, s')
                    | (Inr v, s') \<Rightarrow>
                        syncIds respond rest
                          (mgr1\<lparr>episodicQueue := AList.update mId [] (episodicQueue mgr1)\<rparr>) s')))"

text \<open>
  \<open>syncEpisodicMemories\<close>: the flag \<open>syncInProgress\<close> is set before the loop and
  cleared after it, which an error thrown in the loop skips.
\<close>

definition syncEpisodicMemories ::
  "server \<Rightarrow> MemoryManager \<Rightarrow> io \<Rightarrow> ((string + unit) \<times> MemoryManager \<times> io) option" where
  "syncEpisodicMemories respond mgr s =
     (if \<not> ENABLE_CLOUD_SYNC (options mgr) \<or> syncInProgress mgr \<or> length (episodicQueue mgr) = 0
      then Some (Inr (), mgr, s)
      else (case syncIds respond (map fst (episodicQueue mgr)) (mgr\<lparr>syncInProgress := True\<rparr>) s of
              None \<Rightarrow> None
            | Some (Inl error, mgr', s') \<Rightarrow> Some (Inl error, mgr', s')
            | Some (Inr v, mgr', s') \<Rightarrow> Some (Inr (), mgr'\<lparr>syncInProgress := False\<rparr>, s')))"

section \<open>Queries of the memory manager\<close>

datatype jsError = TypeError | ReferenceError

definition getSemanticMemory :: "MemoryManager \<Rightarrow> EnhancedMemory \<Rightarrow> nat \<Rightarrow> SemanticMemory" where
  "getSemanticMemory mgr em agent =
     (case map_of (agentMemoryCache mgr) (memoryId em agent) of
        None \<Rightarrow> newSemanticMemory
      | Some semantic \<Rightarrow> semantic)"

text \<open>\<open>String.prototype.includes\<close>.\<close>

fun startsWith :: "string \<Rightarrow> string \<Rightarrow> bool" where
  "startsWith s [] = True"
| "startsWith [] (c # cs) = False"
| "startsWith (x # xs) (c # cs) = (x = c \<and> startsWith xs cs)"

fun includesStr :: "string \<Rightarrow> string \<Rightarrow> bool" where
  "includesStr [] sub = (sub = [])"
| "includesStr (x # xs) sub = (startsWith (x # xs) sub \<or> includesStr xs sub)"

text \<open>
  \<open>findRelevantPatterns\<close>; \<open>contextType\<close> is \<open>context.type\<close>, \<open>None\<close> when the
  context has no such field.
\<close>

definition findRelevantPatterns ::
  "MemoryManager \<Rightarrow> EnhancedMemory \<Rightarrow> nat \<Rightarrow> string option \<Rightarrow> semanticPattern list" where
  "findRelevantPatterns mgr em agent contextType =
     (let semantic = getSemanticMemory mgr em agent
      in if length (patterns semantic) = 0 then []
         else sort_key (\<lambda>p. - sconfidence p)
                (filter (\<lambda>p. sconfidence p \<ge> PATTERN_CONFIDENCE_THRESHOLD (options mgr) \<and>
                              (case contextType of
                                 None \<Rightarrow> True
                               | Some t \<Rightarrow> t = [] \<or> includesStr (stype p) t))
                   (patterns semantic)))"

definition getMemoriesNear :: "num \<Rightarrow> grid \<Rightarrow> num \<Rightarrow> num \<Rightarrow> num \<Rightarrow> EpisodicMemory list" where
  "getMemoriesNear cellSize g x y radius =
     (let minX = \<lfloor>(x - radius) / cellSize\<rfloor>; maxX = \<lfloor>(x + radius) / cellSize\<rfloor>;
          minY = \<lfloor>(y - radius) / cellSize\<rfloor>; maxY = \<lfloor>(y + radius) / cellSize\<rfloor>;
          memories = concat (map (\<lambda>i. concat (map (\<lambda>j.
                        case map_of g (i, j) of None \<Rightarrow> [] | Some ms \<Rightarrow> ms) [minY..maxY]))
                      [minX..maxX])
      in filter (\<lambda>m. hypotAtMost (fst (position m) - x) (snd (position m) - y) radius) memories)"

text \<open>
  \<open>checkRecentlyRecorded\<close> is a function of the module, outside every closure that
  binds a memory manager: its \<open>memoryManager\<close> is a free identifier, resolved in the
  global scope when the second conjunct is evaluated. \<open>globalTime\<close> is
  \<open>memoryManager.world.time\<close> when the host has such a global, \<open>None\<close> when it has
  not, which makes the evaluation throw a ReferenceError.
\<close>

fun recentlyIn :: "EnhancedMemory \<Rightarrow> nat \<Rightarrow> nat \<Rightarrow> nat option \<Rightarrow> nat list \<Rightarrow> jsError + bool" where
  "recentlyIn em agent eid globalTime [] = Inr False"
| "recentlyIn em agent eid globalTime (i # rest) =
     (if shortTermIds em (agent * 10 + i) = eid
      then (case globalTime of
              None \<Rightarrow> Inl ReferenceError
            | Some time \<Rightarrow>
                if int time - int (shortTermTimestamps em (agent * 10 + i)) < 10
                then Inr True
                else recentlyIn em agent eid globalTime rest)
      else recentlyIn em agent eid globalTime rest)"

definition checkRecentlyRecorded :: "EnhancedMemory \<Rightarrow> nat option \<Rightarrow> nat \<Rightarrow> nat \<Rightarrow> jsError + bool" where
  "checkRecentlyRecorded em globalTime agent eid =
     recentlyIn em agent eid globalTime [0..<unat (shortTermCapacity em agent)]"

section \<open>The enhanced decision system\<close>

text \<open>
  What the decision system reads from the other components for one agent: its
  position, its emotional state (\<open>None\<close> when undefined), the entities in its ten
  sensor slots, whether a reality wave is active, and the value of the one
  \<open>Math.random()\<close> call that decides a branch. A sensed entity is environmental with
  a type, or another agent, or neither.
\<close>

datatype perceptKind = EnvironmentalKind nat | AgentKind | OtherKind

record percept =
  p_entity :: nat
  p_pos :: "num \<times> num"
  p_kind :: perceptKind

record senses =
  agentPos :: "num \<times> num"
  feeling :: "num option"
  detected :: "percept list"
  realityWaveActive :: bool
  randomDraw :: num

record sensedEntities =
  resources :: "(nat \<times> num \<times> num) list"
  obstacles :: "(nat \<times> num \<times> num) list"
  hazards :: "(nat \<times> num \<times> num) list"
  agents :: "(nat \<times> num \<times> num) list"

text \<open>
  The loop over the sensor slots. An environmental entity of a type other than 0, 1, 2
  indexes the list of names out of range, and the \<open>push\<close> on the undefined result
  throws.
\<close>

fun classify :: "percept list \<Rightarrow> sensedEntities \<Rightarrow> jsError + sensedEntities" where
  "classify [] entities = Inr entities"
| "classify (p # rest) entities =
     (if p_entity p = 0 then classify rest entities
      else (case p_kind p of
              EnvironmentalKind t \<Rightarrow>
                if t = 0 then classify rest
                     (entities\<lparr>resources := resources entities @ [(p_entity p, p_pos p)]\<rparr>)
                else if t = 1 then classify rest
                     (entities\<lparr>obstacles := obstacles entities @ [(p_entity p, p_pos p)]\<rparr>)
                else if t = 2 then classify rest
                     (entities\<lparr>hazards := hazards entities @ [(p_entity p, p_pos p)]\<rparr>)
                else Inl TypeError
            | AgentKind \<Rightarrow>
                classify rest (entities\<lparr>agents := agents entities @ [(p_entity p, p_pos p)]\<rparr>)
            | OtherKind \<Rightarrow> classify rest entities))"

text \<open>
  The goal the decision system writes for an agent. The target coordinates, which are
  random polar offsets from a sensed position, are not part of the model. The priority
  is the number that is assigned; the ui8 field it is stored in would truncate it.
\<close>

record goal =
  goalType :: nat
  targetEntity :: nat
  priority :: num

text \<open>
  The goal suggested by the most confident relevant pattern, if any; a hazard at a
  distance of 0 (\<open>Math.hypot(dx, dy) > 0\<close> false) suggests none.
\<close>

definition patternGoal :: "semanticPattern list \<Rightarrow> sensedEntities \<Rightarrow> senses \<Rightarrow> goal" where
  "patternGoal relevant entities sensed =
     (let none = \<lparr>goalType = 0, targetEntity = 0, priority = 0\<rparr>
      in case relevant of
           [] \<Rightarrow> none
         | topPattern # others \<Rightarrow>
             if stype topPattern = ''resource_obstacle_proximity'' then
               (if length (obstacles entities) > 0 \<and> length (resources entities) = 0
                then none\<lparr>goalType := 1, priority := 60 * sconfidence topPattern\<rparr> else none)
             else if stype topPattern = ''resource_clustering'' then
               (if length (resources entities) = 1
                then none\<lparr>goalType := 1, priority := 55 * sconfidence topPattern\<rparr> else none)
             else if stype topPattern = ''hazard_shift_stability'' then
               (if realityWaveActive sensed \<and> sconfidence topPattern > 7 / 10 \<and>
                   length (hazards entities) > 0
                then (let haz = hd (hazards entities);
                          dx = fst (agentPos sensed) - fst (snd haz);
                          dy = snd (agentPos sensed) - snd (snd haz)
                      in if \<not> (dx = 0 \<and> dy = 0)
                         then none\<lparr>goalType := 2, priority := 80 * sconfidence topPattern\<rparr>
                         else none)
                else none)
             else none)"

definition fallbackGoal :: "sensedEntities \<Rightarrow> senses \<Rightarrow> goal" where
  "fallbackGoal entities sensed =
     (if length (hazards entities) > 0
      then \<lparr>goalType = 2, targetEntity = 0, priority = 70\<rparr>
      else if length (resources entities) > 0
      then \<lparr>goalType = 1, targetEntity = fst (hd (resources entities)), priority = 50\<rparr>
      else if length (agents entities) > 0 \<and> randomDraw sensed < 2 / 10
      then \<lparr>goalType = 3, targetEntity = fst (hd (agents entities)), priority = 30\<rparr>
      else \<lparr>goalType = 0, targetEntity = 0, priority = 20\<rparr>)"

text \<open>
  The body of the loop over the agents. \<open>longTermMemory.get(memoryId)\<close> is undefined
  when the Map has no list for the agent's memory id, and \<open>.filter\<close> on it throws.
\<close>

definition decideForAgent :: "MemoryManager \<Rightarrow> EnhancedMemory \<Rightarrow> nat \<Rightarrow> senses \<Rightarrow> jsError + goal" where
  "decideForAgent mgr em agent sensed =
     (let mId = memoryId em agent;
          emotion = orElse (feeling sensed) 50
      in case classify (detected sensed)
                \<lparr>resources = [], obstacles = [], hazards = [], agents = []\<rparr> of
           Inl error \<Rightarrow> Inl error
         | Inr entities \<Rightarrow>
             (let relevant = findRelevantPatterns mgr em agent None;
                  g = patternGoal relevant entities sensed;
                  nearbyMemories =
                    getMemoriesNear (SPATIAL_CELL_SIZE (options mgr)) (spatialIndex mgr)
                      (fst (agentPos sensed)) (snd (agentPos sensed)) 20
              in case map_of (longTermMemory mgr) mId of
                   None \<Rightarrow> Inl TypeError
                 | Some longTerm \<Rightarrow>
                     (let emotionalMemories =
                            filter (\<lambda>m. \<bar>emotionalImpact m - emotion\<bar> < 10) longTerm;
                          g1 = (if list_ex (\<lambda>m. entityType m = 2) nearbyMemories
                                then g\<lparr>priority := priority g + 20\<rparr> else g);
                          g2 = (if list_ex (\<lambda>m. (case success (mcontext m) of
                                                      None \<Rightarrow> 0 | Some v \<Rightarrow> v) < 50)
                                     emotionalMemories
                                then g1\<lparr>priority := priority g1 + 10\<rparr> else g1)
                      in Inr (if priority g2 = 0 then fallbackGoal entities sensed else g2))))"

text \<open>
  The decision system over the agents of the query: the first error ends the tick.
\<close>

fun decisionSystem ::
  "MemoryManager \<Rightarrow> EnhancedMemory \<Rightarrow> (nat \<Rightarrow> senses) \<Rightarrow> nat list \<Rightarrow> (nat \<Rightarrow> goal)
     \<Rightarrow> jsError + (nat \<Rightarrow> goal)" where
  "decisionSystem mgr em sensed [] goals = Inr goals"
| "decisionSystem mgr em sensed (agent # rest) goals =
     (case decideForAgent mgr em agent (sensed agent) of
        Inl error \<Rightarrow> Inl error
      | Inr g \<Rightarrow> decisionSystem mgr em sensed rest (goals(agent := g)))"

chapter \<open>Notions and sample states\<close>

section \<open>Decay: notions and sample states\<close>

text \<open>
  Sample entries, built with the constructor and the entry's own methods: a fresh
  low-level entry learned in environment 1 (confidence 0.5, last used at time 0), and
  the same entry after one more instance and one failed application (confidence
  0.6 * 1/5 + 0.3 * 0 + 0.1 * 1/3 = 23/150, below the floor).
\<close>

definition sampleLowEntry :: KnowledgeEntry where
  "sampleLowEntry =
     newKnowledgeEntry ''knowledge-0-1'' 0 (extractResourcePattern (10, 10)) Low (Some 1)"

definition sampleWeakEntry :: KnowledgeEntry where
  "sampleWeakEntry =
     recordApplication 0 False (Some 1)
       (addInstance 0 (extractResourcePattern (10, 10)) (Some 1) sampleLowEntry)"

text \<open>
  A low-level entry as the constructor makes it while the program runs: its
  \<open>lastUsed\<close> is the wall-clock time in milliseconds.
\<close>

definition sampleFreshEntry :: KnowledgeEntry where
  "sampleFreshEntry =
     newKnowledgeEntry ''knowledge-1700000000000-1'' 1700000000000
       (extractResourcePattern (10, 10)) Low (Some 1)"

section \<open>Applicability: notions and sample states\<close>

text \<open>
  Every transfer record is written by \<open>recordApplication\<close>, which counts the
  application it records: totals are never 0.
\<close>

definition totalsPositive :: "KnowledgeEntry \<Rightarrow> bool" where
  "totalsPositive e = list_all (\<lambda>r. 0 < snd (snd r)) (transferSuccess e)"

text \<open>
  The average per-environment success rate as an exact number: the sum of the rates
  \<open>success / total\<close> divided by the number of records.
\<close>

definition exactAverage :: "(nat \<times> nat) list \<Rightarrow> rat" where
  "exactAverage rates =
     sum_list (map (\<lambda>(succeeded, total). of_nat succeeded / of_nat total) rates)
       / of_nat (length rates)"

text \<open>
  The unit roundoff of double arithmetic: rounding changes a number by at most this
  fraction of it.
\<close>

definition unitRoundoff :: rat where
  "unitRoundoff = 1 / 2 ^ 53"

text \<open>
  Sample entries for the three levels: a high-level entry with no environment; the
  low-level entry of environment 1; and mid-level entries with no environment of their
  own, after a run of applications, each in an environment and with or without
  success. The reliable one succeeded in environments 2 and 3 and once out of twice in
  environment 4 (rates 1, 1, 1/2: average 5/6); the unreliable one succeeded in
  environment 2 and failed in environment 3 (rates 1, 0: average 1/2); the borderline
  one succeeded 7 times out of 10 in each of the environments 2, 3 and 4 (average
  exactly 7/10).
\<close>

definition sampleHighEntry :: KnowledgeEntry where
  "sampleHighEntry =
     newKnowledgeEntry ''knowledge-0-2'' 0 (extractHazardPattern True) High None"

definition sampleMidEntry :: "(nat \<times> bool) list \<Rightarrow> KnowledgeEntry" where
  "sampleMidEntry applications =
     foldl (\<lambda>e (environmentId, succeeded). recordApplication 0 succeeded (Some environmentId) e)
       (newKnowledgeEntry ''knowledge-0-3'' 0 (extractHazardPattern True) Mid None)
       applications"

definition reliableEntry :: KnowledgeEntry where
  "reliableEntry = sampleMidEntry [(2, True), (3, True), (4, True), (4, False)]"

definition unreliableEntry :: KnowledgeEntry where
  "unreliableEntry = sampleMidEntry [(2, True), (3, False)]"

definition sevenOfTen :: "nat \<Rightarrow> (nat \<times> bool) list" where
  "sevenOfTen environmentId =
     map (\<lambda>succeeded. (environmentId, succeeded)) (replicate 7 True @ replicate 3 False)"

definition borderlineEntry :: KnowledgeEntry where
  "borderlineEntry = sampleMidEntry (sevenOfTen 2 @ sevenOfTen 3 @ sevenOfTen 4)"

section \<open>Tier capacity: notions and sample states\<close>

text \<open>
  What eviction at capacity is to achieve: some entry of the tier whose confidence no
  other entry undercuts, and which comes first in insertion order among the entries of
  that confidence, is deleted, and the new entry is set under its id.
\<close>

definition evictsWeakest :: "tier \<Rightarrow> KnowledgeEntry \<Rightarrow> tier \<Rightarrow> bool" where
  "evictsWeakest t newEntry t' =
     (\<exists>j<length t.
        (\<forall>m<length t. confidence (snd (t ! j)) \<le> confidence (snd (t ! m))) \<and>
        (\<forall>m<j. confidence (snd (t ! j)) < confidence (snd (t ! m))) \<and>
        t' = AList.update (kid newEntry) newEntry (AList.delete (fst (t ! j)) t))"

text \<open>
  The tiers of an agent are Maps (no key occurs twice) that hold at most their capacity.
\<close>

definition tiersWellFormed :: "knowledge \<Rightarrow> bool" where
  "tiersWellFormed k =
     (distinct (map fst (low k)) \<and> length (low k) \<le> LOW_LEVEL_CAPACITY \<and>
      distinct (map fst (mid k)) \<and> length (mid k) \<le> MID_LEVEL_CAPACITY \<and>
      distinct (map fst (high k)) \<and> length (high k) \<le> HIGH_LEVEL_CAPACITY)"

text \<open>
  Sample tiers: entry number \<open>i\<close> has the key and pattern type \<open>k...k\<close> (\<open>i + 1\<close>
  letters) and confidence 0.5, but for entries 3 and 5, which have confidence 0.1. An
  agent whose three tiers are full: the entry evicted is entry 3, the first of the two
  weakest.
\<close>

definition sampleKey :: "nat \<Rightarrow> string" where
  "sampleKey i = replicate (Suc i) CHR ''k''"

definition sampleTierEntry :: "level \<Rightarrow> nat \<Rightarrow> string \<times> KnowledgeEntry" where
  "sampleTierEntry l i =
     (sampleKey i,
      (newKnowledgeEntry (sampleKey i) 0
         \<lparr>ptype = sampleKey i, conditions = [], universalPrinciple = False\<rparr> l None)
       \<lparr>confidence := (if i = 3 \<or> i = 5 then 1 / 10 else 5 / 10)\<rparr>)"

definition sampleTier :: "level \<Rightarrow> nat \<Rightarrow> tier" where
  "sampleTier l n = map (sampleTierEntry l) [0..<n]"

definition sampleKnowledge :: knowledge where
  "sampleKnowledge =
     \<lparr>low = sampleTier Low 20, mid = sampleTier Mid 15, high = sampleTier High 10\<rparr>"

definition sampleSystem :: CrossRealitySystem where
  "sampleSystem =
     \<lparr>agentKnowledge = [0 \<mapsto> sampleKnowledge], environments = [],
      worldCurrentEnvironmentId = None, currentEnvironmentId = (\<lambda>a. 1),
      lastEnvironmentId = (\<lambda>a. 0), environmentTransitionTime = (\<lambda>a. 0),
      environmentSimilarity = (\<lambda>a. 1), adaptationRate = (\<lambda>a. 5 / 10)\<rparr>"

section \<open>Generalization: notions and sample states\<close>

text \<open>
  A pattern type qualifies for promotion in a low tier when the tier holds at least
  ABSTRACTION_INSTANCE_THRESHOLD (5) entries of the type, at least 3 of them have
  confidence at least ABSTRACTION_CONFIDENCE_THRESHOLD (0.6), and some property and
  operator occur together in a condition of every one of these confident entries.
\<close>

definition promotable :: "tier \<Rightarrow> string \<Rightarrow> bool" where
  "promotable lowTier T =
     (let sameType = filter (\<lambda>e. ptype (kpattern e) = T) (map snd lowTier);
          confident = filter (\<lambda>e. ABSTRACTION_CONFIDENCE_THRESHOLD \<le> confidence e) sameType
      in ABSTRACTION_INSTANCE_THRESHOLD \<le> length sameType \<and> 3 \<le> length confident \<and>
         (\<exists>p op. \<forall>e\<in>set confident. \<exists>c\<in>set (conditions (kpattern e)).
                    property c = p \<and> operator c = op))"

text \<open>
  An entry of a tier was there before when the earlier tier holds an entry under the
  same id with the same pattern and level.
\<close>

definition keptFrom :: "tier \<Rightarrow> string \<Rightarrow> KnowledgeEntry \<Rightarrow> bool" where
  "keptFrom t i e = (\<exists>e0. (i, e0) \<in> set t \<and> kpattern e0 = kpattern e \<and> level e0 = level e)"

text \<open>
  A sample agent with five low-level entries of type \<open>resource_location\<close>, three of
  them confident, all conditioned on the quadrant: generalization creates one
  mid-level entry, whose quadrant condition carries the range of the three values.
\<close>

definition promoEntry :: "string \<Rightarrow> nat \<Rightarrow> num \<Rightarrow> string \<times> KnowledgeEntry" where
  "promoEntry key q c =
     (key,
      (newKnowledgeEntry key 0
         \<lparr>ptype = ''resource_location'',
          conditions =
            [\<lparr>property = ''quadrant'', operator = ''equals'', cvalue = Some (JNum (of_nat q)),
              valueRange = None, threshold = None, generalized = False\<rparr>,
             \<lparr>property = key, operator = ''equals'', cvalue = Some (JBool True),
              valueRange = None, threshold = None, generalized = False\<rparr>],
          universalPrinciple = False\<rparr> Low (Some 1))
       \<lparr>confidence := c\<rparr>)"

definition promoKnowledge :: knowledge where
  "promoKnowledge =
     \<lparr>low = [promoEntry ''a'' 0 (8 / 10), promoEntry ''b'' 1 (5 / 10), promoEntry ''c'' 2 (8 / 10),
             promoEntry ''d'' 3 (5 / 10), promoEntry ''e'' 1 (8 / 10)],
      mid = [], high = []\<rparr>"

definition promoSystem :: CrossRealitySystem where
  "promoSystem = sampleSystem\<lparr>agentKnowledge := [0 \<mapsto> promoKnowledge]\<rparr>"

section \<open>Knowledge adaptation: notions and sample states\<close>

text \<open>
  A sample agent in environment 1 that moves to (60, 60), the diagonal quadrant
  (environment 4, similarity 0.4 without profiles). It holds the low-level entry of
  environment 1, a low-level entry of environment 4, a mid-level entry whose only
  application (in environment 2) failed, and a high-level entry.
\<close>

definition adaptMidEntry :: KnowledgeEntry where
  "adaptMidEntry =
     recordApplication 0 False (Some 2)
       (addInstance 0 (extractHazardPattern True) None
          (newKnowledgeEntry ''knowledge-0-3'' 0 (extractHazardPattern True) Mid None))"

definition adaptSample :: knowledge where
  "adaptSample =
     \<lparr>low = [(''knowledge-0-1'', sampleLowEntry),
             (''knowledge-0-4'',
              newKnowledgeEntry ''knowledge-0-4'' 0 (extractHazardPattern False) Low (Some 4))],
      mid = [(''knowledge-0-3'', adaptMidEntry)],
      high = [(''knowledge-0-2'', sampleHighEntry)]\<rparr>"

definition adaptSystem :: CrossRealitySystem where
  "adaptSystem = sampleSystem\<lparr>agentKnowledge := [0 \<mapsto> adaptSample]\<rparr>"

definition noObservations :: observations where
  "noObservations = \<lparr>entityCounts = [], spatialData = [], stabilityData = []\<rparr>"

definition confidences :: "knowledge \<Rightarrow> num list \<times> num list \<times> num list" where
  "confidences k =
     (map (\<lambda>(i, e). confidence e) (low k), map (\<lambda>(i, e). confidence e) (mid k),
      map (\<lambda>(i, e). confidence e) (high k))"

section \<open>Resource patterns: notions and sample states\<close>

text \<open>
  Sample memories of agent 1: three resources (kind 0) seen at ticks 1, 2, 3 and three
  obstacles (kind 1) seen at the same ticks, all within 3 units of each other.
\<close>

definition sightings :: "nat \<Rightarrow> (num \<times> num) list \<Rightarrow> EpisodicMemory list" where
  "sightings kind places =
     map (\<lambda>(t, p). \<lparr>memId = ''1-'' @ showNat t @ ''-'' @ showNat kind, timestamp = of_nat t,
                   entityId = 10 * kind + t, entityType = kind, position = p, importance = 6 / 10,
                   mcontext = \<lparr>action = None, success = None, emotionalState = None,
                               realityShift = False\<rparr>,
                   agentId = 1, fidelity = 1, emotionalImpact = 50\<rparr>)
       (enumerate 1 places)"

definition proximityMemories :: "EpisodicMemory list" where
  "proximityMemories =
     sightings 0 [(12, 11), (14, 11), (12, 13)] @ sightings 1 [(13, 11), (13, 12), (11, 12)]"

section \<open>Short-term ring buffer: notions and sample states\<close>

text \<open>The contents of one flat slot of the short-term arrays.\<close>

definition slotContents ::
  "EnhancedMemory \<Rightarrow> nat \<Rightarrow> nat \<times> nat \<times> num \<times> num \<times> nat \<times> num \<times> num" where
  "slotContents em slot =
     (shortTermIds em slot, shortTermTypes em slot, shortTermPositionsX em slot,
      shortTermPositionsY em slot, shortTermTimestamps em slot, shortTermImportance em slot,
      shortTermFidelity em slot)"

text \<open>
  The component as \<open>initializeAgentMemory\<close> leaves it (capacity 10, write index 0,
  empty slots, full fidelity), and the sightings of entities 101, 102, ... by agent 2
  in a calm state.
\<close>

definition freshEnhancedMemory :: EnhancedMemory where
  "freshEnhancedMemory =
     \<lparr>shortTermCapacity = (\<lambda>a. 10), shortTermIndex = (\<lambda>a. 0), shortTermIds = (\<lambda>s. 0),
      shortTermTypes = (\<lambda>s. 0), shortTermPositionsX = (\<lambda>s. 0), shortTermPositionsY = (\<lambda>s. 0),
      shortTermTimestamps = (\<lambda>s. 0), shortTermImportance = (\<lambda>s. 0),
      shortTermFidelity = (\<lambda>s. 1), memoryId = (\<lambda>a. 1000 + a), globalFidelity = (\<lambda>a. 1)\<rparr>"

definition calmReadings :: agentReadings where
  "calmReadings =
     \<lparr>currentAction = None, successRate = None, emotionalStateReading = Some 50,
      effectType = Some 0\<rparr>"

definition sighting :: "nat \<Rightarrow> agentReadings \<times> string \<times> shortTermEvent" where
  "sighting i =
     (calmReadings, ''2-0-'' @ showNat i,
      \<lparr>ev_entityId = 100 + i, ev_entityType = 0, ev_position = (12, 11),
       ev_importance = Some (6 / 10)\<rparr>)"

text \<open>
  An eleventh event of another kind, seen at world time 7 by the agent in an excited
  state (emotional state 80): entity 111 of type 1 at (40, 7), with no importance of
  its own.
\<close>

definition excitedReadings :: agentReadings where
  "excitedReadings =
     \<lparr>currentAction = None, successRate = None, emotionalStateReading = Some 80,
      effectType = Some 0\<rparr>"

definition lateEvent :: shortTermEvent where
  "lateEvent =
     \<lparr>ev_entityId = 111, ev_entityType = 1, ev_position = (40, 7), ev_importance = None\<rparr>"

section \<open>Cloud sync: notions and sample states\<close>

text \<open>The line that \<open>retryOperation\<close> writes with \<open>console.warn\<close>.\<close>

definition retryWarning :: "nat \<Rightarrow> nat \<Rightarrow> string \<Rightarrow> string" where
  "retryWarning retries attempt error =
     ''HESMS: Retry '' @ showNat (attempt + 1) @ ''/'' @ showNat retries @ '' failed: '' @ error"

text \<open>
  The outside world after \<open>retryOperation\<close> has run out of retries: one request per
  attempt; a warning and a delay of RETRY_DELAY times the attempt number after each
  failed attempt but the last.
\<close>

definition afterRetries :: "options \<Rightarrow> (nat \<Rightarrow> string) \<Rightarrow> io \<Rightarrow> io" where
  "afterRetries opts err s =
     s\<lparr>requests := requests s + MAX_RETRIES opts,
       warnings := warnings s @
         map (\<lambda>a. retryWarning (MAX_RETRIES opts) a (err a)) [0..<MAX_RETRIES opts - 1],
       sleeps := sleeps s @
         map (\<lambda>a. RETRY_DELAY opts * of_nat (a + 1)) [0..<MAX_RETRIES opts - 1]\<rparr>"

text \<open>
  A manager with one queued memory (agent 2 has seen entity 101 once), the state of
  the outside world before any request, and a server that refuses every request.
\<close>

definition queuedManager :: MemoryManager where
  "queuedManager =
     snd (snd (recordEpisodicMemory freshEnhancedMemory (newMemoryManager CONFIG 0) 2
                 (fst (sighting 1)) (fst (snd (sighting 1))) (snd (snd (sighting 1)))))"

definition quiet :: io where
  "quiet = \<lparr>requests = 0, warnings = [], logs = [], sleeps = []\<rparr>"

definition refusing :: server where
  "refusing n = Some ''Network Error''"

definition firstMemory :: EpisodicMemory where
  "firstMemory =
     fst (recordEpisodicMemory freshEnhancedMemory (newMemoryManager CONFIG 0) 2
            (fst (sighting 1)) (fst (snd (sighting 1))) (snd (snd (sighting 1))))"

text \<open>
  A manager with a batch size of 1 and two queued memories: agent 2 has seen entity
  101 (importance 0.6) and then entity 102 (importance 0.9), so the second memory is
  sent first. And a server that accepts the first request and refuses every later one.
\<close>

definition smallBatches :: options where
  "smallBatches = CONFIG\<lparr>BATCH_SIZE := 1\<rparr>"

definition urgentSighting :: "agentReadings \<times> string \<times> shortTermEvent" where
  "urgentSighting =
     (calmReadings, ''2-0-2'',
      \<lparr>ev_entityId = 102, ev_entityType = 0, ev_position = (12, 11),
       ev_importance = Some (9 / 10)\<rparr>)"

definition twoQueuedManager :: MemoryManager where
  "twoQueuedManager =
     snd (recordAll 2 [sighting 1, urgentSighting]
            (freshEnhancedMemory, newMemoryManager smallBatches 0))"

definition urgentMemory :: EpisodicMemory where
  "urgentMemory =
     newEpisodicMemory ''2-0-2'' 2 0 102 0 (12, 11) (9 / 10)
       \<lparr>action = None, success = None, emotionalState = Some 50, realityShift = False\<rparr> 1 50"

definition acceptingOnce :: server where
  "acceptingOnce n = (if n = 0 then None else Some ''Network Error'')"

section \<open>Uninitialized memory: notions and sample states\<close>

text \<open>
  Agent 2 after its first recorded memory (the sighting of entity 101): its memory id
  has an episodic queue, and no long-term list, which only \<open>consolidateMemories\<close>
  creates. The agent senses nothing in this tick.
\<close>

definition idleSenses :: senses where
  "idleSenses =
     \<lparr>agentPos = (10, 10), feeling = Some 50, detected = [], realityWaveActive = False,
      randomDraw = 5 / 10\<rparr>"

definition recordedComponent :: EnhancedMemory where
  "recordedComponent =
     fst (snd (recordEpisodicMemory freshEnhancedMemory (newMemoryManager CONFIG 0) 2
                 (fst (sighting 1)) (fst (snd (sighting 1))) (snd (snd (sighting 1)))))"

chapter \<open>Results\<close>

lemmas CROSS_REALITY_CONFIG =
  LOW_LEVEL_CAPACITY_def MID_LEVEL_CAPACITY_def HIGH_LEVEL_CAPACITY_def
  ABSTRACTION_CONFIDENCE_THRESHOLD_def ABSTRACTION_INSTANCE_THRESHOLD_def
  KNOWLEDGE_DECAY_RATE_def MINIMUM_KNOWLEDGE_CONFIDENCE_def VALIDATION_THRESHOLD_def
  ENVIRONMENT_TRANSITION_THRESHOLD_def

section \<open>Decay: results\<close>

lemma levelMultiplier_values:
  "levelMultiplier Low = 12 / 10" "levelMultiplier Mid = 1" "levelMultiplier High = 8 / 10"
  by (simp_all add: levelMultiplier_def)

lemma applyDecay_floor: "MINIMUM_KNOWLEDGE_CONFIDENCE \<le> confidence (applyDecay t e)"
  by (simp add: applyDecay_def Let_def)

lemma decayTier_keeps_all:
  "decayTier t es = map (\<lambda>(i, e). (i, applyDecay t e)) es"
proof (induction es)
  case Nil
  show ?case by simp
next
  case (Cons p es)
  obtain i e where p: "p = (i, e)" by (cases p)
  have "\<not> confidence (applyDecay t e) < MINIMUM_KNOWLEDGE_CONFIDENCE"
    using applyDecay_floor [of t e] by simp
  with Cons p show ?case by (simp add: Let_def)
qed

text \<open>
  C10. \<open>applyDecay\<close> clamps at the forgetting floor: the confidence it leaves is at
  least MINIMUM_KNOWLEDGE_CONFIDENCE (0.2) for every entry, level and time. The test
  \<open>entry.confidence < MINIMUM_KNOWLEDGE_CONFIDENCE\<close> that follows each decay in
  \<open>applyKnowledgeDecay\<close> is therefore never true: every tier keeps all its entries,
  each one decayed, in the same order.
\<close>

theorem applyDecay_pruning_unreachable:
  "MINIMUM_KNOWLEDGE_CONFIDENCE \<le> confidence (applyDecay currentTime e) \<and>
   decayTier currentTime es = map (\<lambda>(i, e). (i, applyDecay currentTime e)) es \<and>
   applyKnowledgeDecay crs agent currentTime =
     (case agentKnowledge crs agent of
        None \<Rightarrow> crs
      | Some k \<Rightarrow>
          crs\<lparr>agentKnowledge := (agentKnowledge crs)(agent \<mapsto>
            \<lparr>low = map (\<lambda>(i, e). (i, applyDecay currentTime e)) (low k),
             mid = map (\<lambda>(i, e). (i, applyDecay currentTime e)) (mid k),
             high = map (\<lambda>(i, e). (i, applyDecay currentTime e)) (high k)\<rparr>)\<rparr>)"
proof -
  have "applyKnowledgeDecay crs agent currentTime =
     (case agentKnowledge crs agent of
        None \<Rightarrow> crs
      | Some k \<Rightarrow>
          crs\<lparr>agentKnowledge := (agentKnowledge crs)(agent \<mapsto>
            \<lparr>low = map (\<lambda>(i, e). (i, applyDecay currentTime e)) (low k),
             mid = map (\<lambda>(i, e). (i, applyDecay currentTime e)) (mid k),
             high = map (\<lambda>(i, e). (i, applyDecay currentTime e)) (high k)\<rparr>)\<rparr>)"
    unfolding applyKnowledgeDecay_def decayTier_keeps_all ..
  then show ?thesis
    using applyDecay_floor decayTier_keeps_all by blast
qed

text \<open>
  C8 (as amended). For every entry and every current time, \<open>applyDecay\<close> sets the
  confidence to the larger of the floor 0.2 and the old confidence minus
  KNOWLEDGE_DECAY_RATE (0.05) per 1000 units of \<open>currentTime - lastUsed\<close>, times
  1.2 / 1.0 / 0.8 for low / mid / high, and changes no other field. For an entry last
  used no later than \<open>currentTime\<close> whose confidence is at least the floor, the
  confidence does not increase, and it decreases by exactly that amount whenever the
  difference stays at or above the floor.
\<close>

theorem applyDecay_amount:
  "applyDecay currentTime e =
     e\<lparr>confidence := max MINIMUM_KNOWLEDGE_CONFIDENCE
        (confidence e -
           KNOWLEDGE_DECAY_RATE * ((currentTime - lastUsed e) / 1000) * levelMultiplier (level e))\<rparr>
   \<and> levelMultiplier Low = 12 / 10 \<and> levelMultiplier Mid = 1 \<and> levelMultiplier High = 8 / 10
   \<and> (lastUsed e \<le> currentTime \<and> MINIMUM_KNOWLEDGE_CONFIDENCE \<le> confidence e \<longrightarrow>
        confidence (applyDecay currentTime e) \<le> confidence e \<and>
        (MINIMUM_KNOWLEDGE_CONFIDENCE \<le>
           confidence e -
             KNOWLEDGE_DECAY_RATE * ((currentTime - lastUsed e) / 1000) * levelMultiplier (level e)
         \<longrightarrow> confidence e - confidence (applyDecay currentTime e) =
             KNOWLEDGE_DECAY_RATE * ((currentTime - lastUsed e) / 1000) * levelMultiplier (level e)))"
proof -
  let ?d = "KNOWLEDGE_DECAY_RATE * ((currentTime - lastUsed e) / 1000) * levelMultiplier (level e)"
  have eq: "applyDecay currentTime e =
      e\<lparr>confidence := max MINIMUM_KNOWLEDGE_CONFIDENCE (confidence e - ?d)\<rparr>"
    by (simp add: applyDecay_def Let_def)
  have le: "confidence (applyDecay currentTime e) \<le> confidence e"
    if "lastUsed e \<le> currentTime \<and> MINIMUM_KNOWLEDGE_CONFIDENCE \<le> confidence e"
  proof -
    have m: "0 \<le> levelMultiplier (level e)"
      by (simp add: levelMultiplier_def)
    have "0 \<le> KNOWLEDGE_DECAY_RATE * ((currentTime - lastUsed e) / 1000)"
      using that by (simp add: KNOWLEDGE_DECAY_RATE_def)
    then have "0 \<le> ?d"
      using m by (rule mult_nonneg_nonneg)
    then show ?thesis
      unfolding eq using that by simp
  qed
  have ex: "MINIMUM_KNOWLEDGE_CONFIDENCE \<le> confidence e - ?d
      \<longrightarrow> confidence e - confidence (applyDecay currentTime e) = ?d"
    unfolding eq by (simp add: max_def)
  show ?thesis
    using eq le ex levelMultiplier_values by blast
qed

lemma sampleLowEntry_fields:
  "confidence sampleLowEntry = 5 / 10" "lastUsed sampleLowEntry = 0" "level sampleLowEntry = Low"
  "environmentIds sampleLowEntry = [1]"
  by (simp_all add: sampleLowEntry_def newKnowledgeEntry_def truthyId_def)

lemma sampleWeakEntry_fields:
  "confidence sampleWeakEntry = 23 / 150" "lastUsed sampleWeakEntry = 0" "level sampleWeakEntry = Low"
  by (simp_all add: sampleWeakEntry_def sampleLowEntry_def newKnowledgeEntry_def truthyId_def
      recordApplication_def addInstance_def updateConfidence_def Let_def
      ABSTRACTION_INSTANCE_THRESHOLD_def)

lemma sampleFreshEntry_fields:
  "confidence sampleFreshEntry = 5 / 10" "lastUsed sampleFreshEntry = 1700000000000"
  "level sampleFreshEntry = Low"
  by (simp_all add: sampleFreshEntry_def newKnowledgeEntry_def)

theorem applyDecay_amount_witness:
  "lastUsed sampleLowEntry \<le> 2000 \<and>
   MINIMUM_KNOWLEDGE_CONFIDENCE \<le> confidence sampleLowEntry \<and>
   MINIMUM_KNOWLEDGE_CONFIDENCE \<le> confidence sampleLowEntry - 12 / 100 \<and>
   confidence (applyDecay 2000 sampleLowEntry) \<le> confidence sampleLowEntry \<and>
   confidence sampleLowEntry - confidence (applyDecay 2000 sampleLowEntry) = 12 / 100 \<and>
   applyDecay 2000 sampleLowEntry = sampleLowEntry\<lparr>confidence := 38 / 100\<rparr>"
proof -
  let ?d = "KNOWLEDGE_DECAY_RATE * ((2000 - lastUsed sampleLowEntry) / 1000) *
        levelMultiplier (level sampleLowEntry)"
  have d: "?d = 12 / 100"
    by (simp add: sampleLowEntry_fields CROSS_REALITY_CONFIG levelMultiplier_def)
  have h1: "lastUsed sampleLowEntry \<le> 2000"
    by (simp add: sampleLowEntry_fields)
  have h2: "MINIMUM_KNOWLEDGE_CONFIDENCE \<le> confidence sampleLowEntry"
    by (simp add: sampleLowEntry_fields MINIMUM_KNOWLEDGE_CONFIDENCE_def)
  have h3: "MINIMUM_KNOWLEDGE_CONFIDENCE \<le> confidence sampleLowEntry - 12 / 100"
    by (simp add: sampleLowEntry_fields CROSS_REALITY_CONFIG)
  note t = applyDecay_amount [of 2000 sampleLowEntry, unfolded d]
  have le: "confidence (applyDecay 2000 sampleLowEntry) \<le> confidence sampleLowEntry"
    using t h1 h2 by blast
  have "confidence sampleLowEntry - confidence (applyDecay 2000 sampleLowEntry) = 12 / 100"
    using t h1 h2 h3 by blast
  moreover have "applyDecay 2000 sampleLowEntry =
      sampleLowEntry\<lparr>confidence := max MINIMUM_KNOWLEDGE_CONFIDENCE (confidence sampleLowEntry - 12 / 100)\<rparr>"
    using t by blast
  then have "applyDecay 2000 sampleLowEntry = sampleLowEntry\<lparr>confidence := 38 / 100\<rparr>"
    by (simp add: sampleLowEntry_fields CROSS_REALITY_CONFIG)
  ultimately show ?thesis
    using h1 h2 h3 le by blast
qed

text \<open>
  The claim as stated fails three times. A low-level entry (confidence 0.5) decayed
  10000 time units after its last use loses 0.3, not 0.05 * 10 * 1.2 = 0.6 (nor
  0.05 * 10000 * 1.2): the floor stops the decay. An entry whose confidence is below
  the floor is raised to the floor by a decay step with no time elapsed. And an entry
  as the constructor makes it, last used at the wall-clock time 1700000000000
  (\<open>Date.now()\<close>), decayed at the world time 5 that \<open>updateKnowledge\<close> passes, has
  its confidence raised from 0.5 to 0.5 + 0.05 * 1699999999.995 * 1.2.
\<close>

theorem applyDecay_not_exact_counterexample:
  "confidence sampleLowEntry - confidence (applyDecay 10000 sampleLowEntry) = 3 / 10 \<and>
   KNOWLEDGE_DECAY_RATE * ((10000 - lastUsed sampleLowEntry) / 1000) *
     levelMultiplier (level sampleLowEntry) = 6 / 10 \<and>
   confidence sampleWeakEntry < confidence (applyDecay (lastUsed sampleWeakEntry) sampleWeakEntry) \<and>
   confidence sampleFreshEntry = 5 / 10 \<and>
   confidence (applyDecay 5 sampleFreshEntry) = 1020000004997 / 10000 \<and>
   confidence sampleFreshEntry < confidence (applyDecay 5 sampleFreshEntry)"
  by (simp add: applyDecay_def Let_def sampleLowEntry_fields sampleWeakEntry_fields
      sampleFreshEntry_fields CROSS_REALITY_CONFIG levelMultiplier_def)

section \<open>Applicability: results\<close>

lemma update_list_all:
  "list_all P al \<Longrightarrow> P (k, v) \<Longrightarrow> list_all P (AList.update k v al)"
  by (induction al) auto

lemma totalsPositive_new: "totalsPositive (newKnowledgeEntry newId now p l environmentId)"
  by (simp add: totalsPositive_def newKnowledgeEntry_def)

lemma totalsPositive_recordApplication:
  "totalsPositive e \<Longrightarrow> totalsPositive (recordApplication now succeeded environmentId e)"
  by (auto simp: totalsPositive_def recordApplication_def updateConfidence_def Let_def
      intro!: update_list_all)

lemma totalsPositive_addInstance:
  "totalsPositive e \<Longrightarrow> totalsPositive (addInstance now inst environmentId e)"
  by (simp add: totalsPositive_def addInstance_def updateConfidence_def Let_def)

lemma totalsPositive_applyDecay:
  "totalsPositive e \<Longrightarrow> totalsPositive (applyDecay currentTime e)"
  by (simp add: totalsPositive_def applyDecay_def Let_def)

lemma roundHalfEven_error: "\<bar>of_int (roundHalfEven q) - q\<bar> \<le> 1 / 2"
proof -
  have "of_int \<lfloor>q\<rfloor> \<le> q" "q < of_int \<lfloor>q\<rfloor> + 1"
    by linarith+
  then show ?thesis
    by (auto simp: roundHalfEven_def Let_def)
qed

lemma bitlen_powi:
  assumes "0 < (a::int)"
  shows "(2::rat) powi (bitlen a - 1) \<le> of_int a" and "of_int a < (2::rat) powi (bitlen a)"
proof -
  have b: "1 \<le> bitlen a"
    using assms by (simp add: bitlen_alt_def)
  from bitlen_bounds [OF assms]
  have 1: "2 ^ nat (bitlen a - 1) \<le> a" and 2: "a < 2 ^ nat (bitlen a)"
    by simp_all
  have "(of_int (2 ^ nat (bitlen a - 1)) :: rat) \<le> of_int a"
    using 1 by (simp only: of_int_le_iff)
  then show "(2::rat) powi (bitlen a - 1) \<le> of_int a"
    using b by (simp add: power_int_def)
  have "(of_int a :: rat) < of_int (2 ^ nat (bitlen a))"
    using 2 by (simp only: of_int_less_iff)
  then show "of_int a < (2::rat) powi (bitlen a)"
    using b by (simp add: power_int_def)
qed

lemma exponent_bounds:
  assumes "0 < x"
  shows "2 powi (exponent x) \<le> x" and "x < 2 powi (exponent x + 1)"
proof -
  obtain a b where q: "quotient_of x = (a, b)"
    by (cases "quotient_of x")
  have x: "x = of_int a / of_int b" and b: "0 < b"
    using q by (simp_all add: quotient_of_div quotient_of_denom_pos)
  have a: "0 < a"
    using assms b x by (simp add: zero_less_divide_iff)
  let ?e = "bitlen a - bitlen b"
  note ba = bitlen_powi [OF a] and bb = bitlen_powi [OF b]
  have bpos: "(0::rat) < of_int b"
    using b by simp
  have lo: "2 powi (?e - 1) \<le> x"
  proof -
    have "(2::rat) powi (?e - 1) = 2 powi (bitlen a - 1) / 2 powi (bitlen b)"
      by (simp add: power_int_diff)
    also have "\<dots> \<le> of_int a / 2 powi (bitlen b)"
      using ba(1) by (simp add: divide_right_mono)
    also have "\<dots> \<le> of_int a / of_int b"
      using bb(2) a bpos by (simp add: divide_left_mono)
    finally show ?thesis
      by (simp add: x)
  qed
  have hi: "x < 2 powi (?e + 1)"
  proof -
    have "x = of_int a / of_int b"
      by (rule x)
    also have "\<dots> < 2 powi (bitlen a) / of_int b"
      using ba(2) bpos by (simp add: divide_strict_right_mono)
    also have "\<dots> \<le> 2 powi (bitlen a) / 2 powi (bitlen b - 1)"
      using bb(1) bpos by (intro divide_left_mono mult_pos_pos) simp_all
    also have "\<dots> = 2 powi (?e + 1)"
      by (simp add: power_int_diff power_int_add)
    finally show ?thesis .
  qed
  have e: "exponent x = (if 2 powi ?e \<le> x then ?e else ?e - 1)"
    by (simp add: exponent_def q Let_def)
  show "2 powi (exponent x) \<le> x"
    using lo by (simp add: e)
  show "x < 2 powi (exponent x + 1)"
    using hi by (auto simp: e)
qed


lemma roundDouble_error:
  assumes "0 \<le> x"
  shows "x * (1 - unitRoundoff) \<le> roundDouble x" and "roundDouble x \<le> x * (1 + unitRoundoff)"
proof -
  have "x * (1 - unitRoundoff) \<le> roundDouble x \<and> roundDouble x \<le> x * (1 + unitRoundoff)"
  proof (cases "x = 0")
    case True
    then show ?thesis
      by (simp add: roundDouble_def)
  next
    case False
    then have pos: "0 < x"
      using assms by simp
    define ulp :: rat where "ulp = 2 powi (exponent x - 52)"
    define m :: rat where "m = of_int (roundHalfEven (x / ulp))"
    have u: "0 < ulp"
      by (simp add: ulp_def)
    have r: "roundDouble x = m * ulp"
      using pos by (simp add: roundDouble_def Let_def ulp_def m_def)
    have "ulp = 2 powi (exponent x) / 2 ^ 52"
      by (simp add: ulp_def power_int_diff)
    also have "\<dots> \<le> x / 2 ^ 52"
      using exponent_bounds(1) [OF pos] by (simp add: divide_right_mono)
    finally have ulp_le: "ulp / 2 \<le> x * unitRoundoff"
      by (simp add: unitRoundoff_def)
    have "\<bar>m - x / ulp\<bar> \<le> 1 / 2"
      unfolding m_def by (rule roundHalfEven_error)
    then have "\<bar>m - x / ulp\<bar> * ulp \<le> 1 / 2 * ulp"
      using u by (intro mult_right_mono) simp_all
    moreover have "\<bar>m - x / ulp\<bar> * ulp = \<bar>m * ulp - x\<bar>"
    proof -
      have "\<bar>m - x / ulp\<bar> * ulp = \<bar>m - x / ulp\<bar> * \<bar>ulp\<bar>"
        using u by simp
      also have "\<dots> = \<bar>(m - x / ulp) * ulp\<bar>"
        by (simp only: abs_mult)
      also have "(m - x / ulp) * ulp = m * ulp - x"
        using u by (simp add: left_diff_distrib)
      finally show ?thesis .
    qed
    ultimately have "\<bar>m * ulp - x\<bar> \<le> x * unitRoundoff"
      using ulp_le by simp
    then show ?thesis
      unfolding r by (simp add: abs_le_iff algebra_simps)
  qed
  then show "x * (1 - unitRoundoff) \<le> roundDouble x" and "roundDouble x \<le> x * (1 + unitRoundoff)"
    by simp_all
qed


lemma unitRoundoff_range: "0 < unitRoundoff" "unitRoundoff < 1"
  by (simp_all add: unitRoundoff_def)

lemma power_low_le: "1 \<le> k \<Longrightarrow> (1 - unitRoundoff) ^ k \<le> 1 - unitRoundoff"
  using power_decreasing [of 1 k "1 - unitRoundoff"] unitRoundoff_range by simp

lemma power_high_ge: "1 \<le> k \<Longrightarrow> 1 + unitRoundoff \<le> (1 + unitRoundoff) ^ k"
  using power_increasing [of 1 k "1 + unitRoundoff"] unitRoundoff_range by simp

lemma summed_rates_bounds:
  assumes "0 \<le> S" and "1 \<le> k"
    and "S * (1 - unitRoundoff) ^ k \<le> acc" and "acc \<le> S * (1 + unitRoundoff) ^ k"
  shows "(S + sum_list (map (\<lambda>(succeeded, total). of_nat succeeded / of_nat total) rates)) *
           (1 - unitRoundoff) ^ (k + length rates)
         \<le> foldl (\<lambda>sum (succeeded, total). roundDouble (sum + roundDouble (of_nat succeeded / of_nat total)))
              acc rates \<and>
         foldl (\<lambda>sum (succeeded, total). roundDouble (sum + roundDouble (of_nat succeeded / of_nat total)))
              acc rates
         \<le> (S + sum_list (map (\<lambda>(succeeded, total). of_nat succeeded / of_nat total) rates)) *
             (1 + unitRoundoff) ^ (k + length rates)"
  using assms
proof (induction rates arbitrary: S k acc)
  case Nil
  then show ?case by simp
next
  case (Cons r rates)
  obtain a b where r: "r = (a, b)"
    by (cases r)
  define q :: rat where "q = of_nat a / of_nat b"
  define lo where "lo = 1 - unitRoundoff"
  define hi where "hi = 1 + unitRoundoff"
  have q: "0 \<le> q"
    by (simp add: q_def)
  have lo: "0 \<le> lo" "lo \<le> 1" and hi: "1 \<le> hi"
    using unitRoundoff_range by (simp_all add: lo_def hi_def)
  have lok: "0 \<le> lo ^ k" "lo ^ k \<le> lo"
    using lo power_low_le [OF Cons.prems(2)] by (simp_all add: lo_def)
  have hik: "hi \<le> hi ^ k"
    using power_high_ge [OF Cons.prems(2)] by (simp add: hi_def)
  have ql: "q * lo \<le> roundDouble q" and qh: "roundDouble q \<le> q * hi"
    using roundDouble_error [OF q] by (simp_all add: lo_def hi_def)
  have accl: "S * lo ^ k \<le> acc" and acch: "acc \<le> S * hi ^ k"
    using Cons.prems(3,4) by (simp_all add: lo_def hi_def)
  have "q * lo ^ k \<le> q * lo"
    using q lok(2) by (rule mult_left_mono [rotated])
  then have 1: "(S + q) * lo ^ k \<le> acc + roundDouble q"
    using accl ql by (simp add: distrib_right)
  have "q * hi \<le> q * hi ^ k"
    using q hik by (rule mult_left_mono [rotated])
  then have 2: "acc + roundDouble q \<le> (S + q) * hi ^ k"
    using acch qh by (simp add: distrib_right)
  have sq: "0 \<le> S + q"
    using Cons.prems(1) q by simp
  then have nn: "0 \<le> acc + roundDouble q"
    using 1 lok(1) by (meson mult_nonneg_nonneg order_trans)
  have 3: "(acc + roundDouble q) * lo \<le> roundDouble (acc + roundDouble q)"
    and 4: "roundDouble (acc + roundDouble q) \<le> (acc + roundDouble q) * hi"
    using roundDouble_error [OF nn] by (simp_all add: lo_def hi_def)
  have "(S + q) * lo ^ (k + 1) = ((S + q) * lo ^ k) * lo"
    by simp
  also have "\<dots> \<le> (acc + roundDouble q) * lo"
    using 1 lo(1) by (rule mult_right_mono)
  also have "\<dots> \<le> roundDouble (acc + roundDouble q)"
    by (rule 3)
  finally have l: "(S + q) * (1 - unitRoundoff) ^ (k + 1) \<le> roundDouble (acc + roundDouble q)"
    by (simp add: lo_def)
  have "roundDouble (acc + roundDouble q) \<le> (acc + roundDouble q) * hi"
    by (rule 4)
  also have "\<dots> \<le> ((S + q) * hi ^ k) * hi"
    using 2 hi by (intro mult_right_mono) simp_all
  also have "\<dots> = (S + q) * hi ^ (k + 1)"
    by simp
  finally have h: "roundDouble (acc + roundDouble q) \<le> (S + q) * (1 + unitRoundoff) ^ (k + 1)"
    by (simp add: hi_def)
  have k1: "1 \<le> k + 1"
    by simp
  from Cons.IH [OF sq k1 l h]
  show ?case
    by (simp add: r q_def add.assoc)
qed

lemma averageSuccessRate_bounds:
  assumes "rates \<noteq> []"
  shows "exactAverage rates * (1 - unitRoundoff) ^ (length rates + 2) \<le> averageSuccessRate rates"
    and "averageSuccessRate rates \<le> exactAverage rates * (1 + unitRoundoff) ^ (length rates + 2)"
proof -
  let ?n = "length rates"
  define exact :: rat where
    "exact = sum_list (map (\<lambda>(a, b). of_nat a / of_nat b) rates)"
  define summed :: rat where
    "summed = foldl (\<lambda>sum (a, b). roundDouble (sum + roundDouble (of_nat a / of_nat b))) 0 rates"
  define lo :: rat where "lo = 1 - unitRoundoff"
  define hi :: rat where "hi = 1 + unitRoundoff"
  have lo: "0 \<le> lo" and hi: "0 \<le> hi"
    using unitRoundoff_range by (simp_all add: lo_def hi_def)
  have n: "(0::rat) < of_nat ?n"
    using assms by simp
  have "(0 + exact) * lo ^ (1 + ?n) \<le> summed \<and> summed \<le> (0 + exact) * hi ^ (1 + ?n)"
    unfolding exact_def summed_def lo_def hi_def
    by (rule summed_rates_bounds) simp_all
  then have s: "exact * lo ^ (?n + 1) \<le> summed" "summed \<le> exact * hi ^ (?n + 1)"
    by simp_all
  have t: "0 \<le> exact"
    unfolding exact_def by (rule sum_list_nonneg) auto
  have a: "exactAverage rates = exact / of_nat ?n"
    by (simp add: exactAverage_def exact_def)
  have r: "averageSuccessRate rates = roundDouble (summed / of_nat ?n)"
    by (simp add: averageSuccessRate_def summed_def)
  have "exact * lo ^ (?n + 1) / of_nat ?n \<le> summed / of_nat ?n"
    using s(1) n by (intro divide_right_mono) simp_all
  then have dl: "exactAverage rates * lo ^ (?n + 1) \<le> summed / of_nat ?n"
    by (simp add: a)
  have "summed / of_nat ?n \<le> exact * hi ^ (?n + 1) / of_nat ?n"
    using s(2) n by (intro divide_right_mono) simp_all
  then have dh: "summed / of_nat ?n \<le> exactAverage rates * hi ^ (?n + 1)"
    by (simp add: a)
  have "0 \<le> exactAverage rates * lo ^ (?n + 1)"
    using t lo n by (simp add: a)
  then have nn: "0 \<le> summed / of_nat ?n"
    using dl by simp
  have e: "(summed / of_nat ?n) * lo \<le> roundDouble (summed / of_nat ?n)"
      "roundDouble (summed / of_nat ?n) \<le> (summed / of_nat ?n) * hi"
    using roundDouble_error [OF nn] by (simp_all add: lo_def hi_def)
  have "exactAverage rates * lo ^ (?n + 2) = (exactAverage rates * lo ^ (?n + 1)) * lo"
    by simp
  also have "\<dots> \<le> (summed / of_nat ?n) * lo"
    using dl lo by (rule mult_right_mono)
  also have "\<dots> \<le> roundDouble (summed / of_nat ?n)"
    by (rule e(1))
  finally show "exactAverage rates * (1 - unitRoundoff) ^ (length rates + 2) \<le> averageSuccessRate rates"
    by (simp add: r lo_def)
  have "roundDouble (summed / of_nat ?n) \<le> (summed / of_nat ?n) * hi"
    by (rule e(2))
  also have "\<dots> \<le> (exactAverage rates * hi ^ (?n + 1)) * hi"
    using dh hi by (rule mult_right_mono)
  also have "\<dots> = exactAverage rates * hi ^ (?n + 2)"
    by simp
  finally show "averageSuccessRate rates \<le> exactAverage rates * (1 + unitRoundoff) ^ (length rates + 2)"
    by (simp add: r hi_def)
qed

lemma roundDouble_zero: "roundDouble 0 = 0"
  by (simp add: roundDouble_def)

lemma roundDouble_threshold: "roundDouble (7 / 10) = 6305039478318694 / 9007199254740992"
  by code_simp

lemma isApplicableInEnvironment_mid:
  assumes "level e = Mid" and "totalsPositive e"
  shows "isApplicableInEnvironment e environmentId =
           (environmentId \<in> set (environmentIds e) \<or> transferSuccess e = [] \<or>
            roundDouble VALIDATION_THRESHOLD \<le> averageSuccessRate (map snd (transferSuccess e)))"
proof -
  have "\<not> list_ex (\<lambda>(succeeded, total). total = 0) (map snd (transferSuccess e))"
    using assms(2) by (auto simp: totalsPositive_def list_ex_iff list_all_iff)
  moreover have "\<not> list_ex (\<lambda>(succeeded, total). total = 0 \<and> succeeded = 0) (map snd (transferSuccess e))"
    using assms(2) by (auto simp: totalsPositive_def list_ex_iff list_all_iff)
  ultimately show ?thesis
    using assms(1) by (simp add: isApplicableInEnvironment_def Let_def)
qed

text \<open>
  C5 (as amended). A high-level entry is applicable in every environment. A low-level
  entry is applicable exactly in the environments of its environment list. A mid-level
  entry is applicable when the environment is in its list or it has no transfer record.
  With transfer records as \<open>recordApplication\<close> writes them, \<open>n\<close> of them, it is
  applicable when the average of its per-environment success rates is at least
  VALIDATION_THRESHOLD (0.7) by the margin of the rounding errors, that is when
  average * (1 - 2^-53)^(n + 2) is at least 0.7 * (1 + 2^-53); and it is not applicable
  when the environment is not in its list and the average is below 0.7 by that margin,
  that is when average * (1 + 2^-53)^(n + 2) is below 0.7 * (1 - 2^-53).
\<close>

theorem isApplicableInEnvironment_by_level:
  "(level e = High \<longrightarrow> isApplicableInEnvironment e environmentId) \<and>
   (level e = Low \<longrightarrow>
      isApplicableInEnvironment e environmentId = (environmentId \<in> set (environmentIds e))) \<and>
   (level e = Mid \<and> (environmentId \<in> set (environmentIds e) \<or> transferSuccess e = []) \<longrightarrow>
      isApplicableInEnvironment e environmentId) \<and>
   (level e = Mid \<and> totalsPositive e \<and>
    VALIDATION_THRESHOLD * (1 + unitRoundoff) \<le>
      exactAverage (map snd (transferSuccess e)) *
        (1 - unitRoundoff) ^ (length (transferSuccess e) + 2) \<longrightarrow>
      isApplicableInEnvironment e environmentId) \<and>
   (level e = Mid \<and> totalsPositive e \<and>
    environmentId \<notin> set (environmentIds e) \<and> transferSuccess e \<noteq> [] \<and>
    exactAverage (map snd (transferSuccess e)) *
      (1 + unitRoundoff) ^ (length (transferSuccess e) + 2) <
      VALIDATION_THRESHOLD * (1 - unitRoundoff) \<longrightarrow>
      \<not> isApplicableInEnvironment e environmentId)"
proof (intro conjI impI)
  assume "level e = High"
  then show "isApplicableInEnvironment e environmentId"
    by (simp add: isApplicableInEnvironment_def)
next
  assume "level e = Low"
  then show "isApplicableInEnvironment e environmentId = (environmentId \<in> set (environmentIds e))"
    by (simp add: isApplicableInEnvironment_def)
next
  assume "level e = Mid \<and> (environmentId \<in> set (environmentIds e) \<or> transferSuccess e = [])"
  then show "isApplicableInEnvironment e environmentId"
    by (auto simp: isApplicableInEnvironment_def Let_def)
next
  let ?rates = "map snd (transferSuccess e)"
  assume h: "level e = Mid \<and> totalsPositive e \<and>
    VALIDATION_THRESHOLD * (1 + unitRoundoff) \<le>
      exactAverage ?rates * (1 - unitRoundoff) ^ (length (transferSuccess e) + 2)"
  show "isApplicableInEnvironment e environmentId"
  proof (cases "transferSuccess e = []")
    case True
    then show ?thesis
      using h by (simp add: isApplicableInEnvironment_def Let_def)
  next
    case False
    then have ne: "?rates \<noteq> []"
      by simp
    have "roundDouble VALIDATION_THRESHOLD \<le> VALIDATION_THRESHOLD * (1 + unitRoundoff)"
      by (rule roundDouble_error) (simp add: VALIDATION_THRESHOLD_def)
    also have "\<dots> \<le> exactAverage ?rates * (1 - unitRoundoff) ^ (length ?rates + 2)"
      using h by simp
    also have "\<dots> \<le> averageSuccessRate ?rates"
      by (rule averageSuccessRate_bounds(1) [OF ne])
    finally show ?thesis
      using h by (simp add: isApplicableInEnvironment_mid)
  qed
next
  let ?rates = "map snd (transferSuccess e)"
  assume h: "level e = Mid \<and> totalsPositive e \<and>
    environmentId \<notin> set (environmentIds e) \<and> transferSuccess e \<noteq> [] \<and>
    exactAverage ?rates * (1 + unitRoundoff) ^ (length (transferSuccess e) + 2) <
      VALIDATION_THRESHOLD * (1 - unitRoundoff)"
  then have ne: "?rates \<noteq> []"
    by simp
  have "averageSuccessRate ?rates \<le> exactAverage ?rates * (1 + unitRoundoff) ^ (length ?rates + 2)"
    by (rule averageSuccessRate_bounds(2) [OF ne])
  also have "\<dots> < VALIDATION_THRESHOLD * (1 - unitRoundoff)"
    using h by simp
  also have "\<dots> \<le> roundDouble VALIDATION_THRESHOLD"
    by (rule roundDouble_error) (simp add: VALIDATION_THRESHOLD_def)
  finally have "\<not> roundDouble VALIDATION_THRESHOLD \<le> averageSuccessRate ?rates"
    by simp
  then show "\<not> isApplicableInEnvironment e environmentId"
    using h by (simp add: isApplicableInEnvironment_mid)
qed

lemma sampleMidEntry_level: "level (sampleMidEntry applications) = Mid"
proof -
  have "level (foldl (\<lambda>e (environmentId, succeeded).
            recordApplication 0 succeeded (Some environmentId) e) e0 applications) = level e0" for e0
    by (induction applications arbitrary: e0)
      (auto simp: recordApplication_def updateConfidence_def Let_def)
  then show ?thesis
    by (simp add: sampleMidEntry_def newKnowledgeEntry_def)
qed

lemma sampleMidEntry_totalsPositive: "totalsPositive (sampleMidEntry applications)"
proof -
  have "totalsPositive e0 \<Longrightarrow> totalsPositive (foldl (\<lambda>e (environmentId, succeeded).
            recordApplication 0 succeeded (Some environmentId) e) e0 applications)" for e0
    by (induction applications arbitrary: e0) (auto simp: totalsPositive_recordApplication)
  then show ?thesis
    by (simp add: sampleMidEntry_def totalsPositive_new)
qed

lemma sample_rates:
  "environmentIds reliableEntry = []"
  "map snd (transferSuccess reliableEntry) = [(1, 1), (1, 1), (1, 2)]"
  "environmentIds unreliableEntry = []"
  "map snd (transferSuccess unreliableEntry) = [(1, 1), (0, 1)]"
  "environmentIds borderlineEntry = []"
  "map snd (transferSuccess borderlineEntry) = [(7, 10), (7, 10), (7, 10)]"
  by code_simp+

theorem isApplicableInEnvironment_by_level_witness:
  "level sampleHighEntry = High \<and> isApplicableInEnvironment sampleHighEntry 7 \<and>
   level sampleLowEntry = Low \<and> isApplicableInEnvironment sampleLowEntry 1 \<and>
   \<not> isApplicableInEnvironment sampleLowEntry 3 \<and>
   level (sampleMidEntry []) = Mid \<and> transferSuccess (sampleMidEntry []) = [] \<and>
   isApplicableInEnvironment (sampleMidEntry []) 5 \<and>
   level reliableEntry = Mid \<and> totalsPositive reliableEntry \<and>
   map snd (transferSuccess reliableEntry) = [(1, 1), (1, 1), (1, 2)] \<and>
   exactAverage [(1, 1), (1, 1), (1, 2)] = 5 / 6 \<and>
   VALIDATION_THRESHOLD * (1 + unitRoundoff) \<le> 5 / 6 * (1 - unitRoundoff) ^ (3 + 2) \<and>
   isApplicableInEnvironment reliableEntry 5 \<and>
   level unreliableEntry = Mid \<and> totalsPositive unreliableEntry \<and>
   5 \<notin> set (environmentIds unreliableEntry) \<and>
   map snd (transferSuccess unreliableEntry) = [(1, 1), (0, 1)] \<and>
   exactAverage [(1, 1), (0, 1)] = 1 / 2 \<and>
   1 / 2 * (1 + unitRoundoff) ^ (2 + 2) < VALIDATION_THRESHOLD * (1 - unitRoundoff) \<and>
   \<not> isApplicableInEnvironment unreliableEntry 5"
proof -
  have h: "level sampleHighEntry = High"
    by (simp add: sampleHighEntry_def newKnowledgeEntry_def)
  have l: "level sampleLowEntry = Low"
    by (simp add: sampleLowEntry_fields)
  have m: "level (sampleMidEntry []) = Mid" "level reliableEntry = Mid" "level unreliableEntry = Mid"
    by (simp_all add: reliableEntry_def unreliableEntry_def sampleMidEntry_level)
  have t: "totalsPositive reliableEntry" "totalsPositive unreliableEntry"
    by (simp_all add: reliableEntry_def unreliableEntry_def sampleMidEntry_totalsPositive)
  have n: "transferSuccess (sampleMidEntry []) = []"
    by (simp add: sampleMidEntry_def newKnowledgeEntry_def)
  have a: "exactAverage [(1, 1), (1, 1), (1, 2)] = 5 / 6" "exactAverage [(1, 1), (0, 1)] = 1 / 2"
    by (simp_all add: exactAverage_def)
  have b1: "VALIDATION_THRESHOLD * (1 + unitRoundoff) \<le> 5 / 6 * (1 - unitRoundoff) ^ (3 + 2)"
    by code_simp
  have b2: "1 / 2 * (1 + unitRoundoff) ^ (2 + 2) < VALIDATION_THRESHOLD * (1 - unitRoundoff)"
    by code_simp
  have r: "length (transferSuccess reliableEntry) = 3" "transferSuccess unreliableEntry \<noteq> []"
    "length (transferSuccess unreliableEntry) = 2"
    using sample_rates(2,4) by (auto dest: arg_cong [where f = length])
  have u: "5 \<notin> set (environmentIds unreliableEntry)"
    by (simp add: sample_rates)
  have 1: "isApplicableInEnvironment sampleHighEntry 7"
    using isApplicableInEnvironment_by_level [of sampleHighEntry 7] h by blast
  have "isApplicableInEnvironment sampleLowEntry i = (i \<in> set (environmentIds sampleLowEntry))" for i
    using isApplicableInEnvironment_by_level [of sampleLowEntry i] l by blast
  then have 2: "isApplicableInEnvironment sampleLowEntry 1 \<and> \<not> isApplicableInEnvironment sampleLowEntry 3"
    by (simp add: sampleLowEntry_fields)
  have 3: "isApplicableInEnvironment (sampleMidEntry []) 5"
    using isApplicableInEnvironment_by_level [of "sampleMidEntry []" 5] m(1) n by blast
  have "VALIDATION_THRESHOLD * (1 + unitRoundoff) \<le>
      exactAverage (map snd (transferSuccess reliableEntry)) *
        (1 - unitRoundoff) ^ (length (transferSuccess reliableEntry) + 2)"
    using b1 by (simp only: sample_rates a r)
  then have 4: "isApplicableInEnvironment reliableEntry 5"
    using isApplicableInEnvironment_by_level [of reliableEntry 5] m(2) t(1) by blast
  have "exactAverage (map snd (transferSuccess unreliableEntry)) *
      (1 + unitRoundoff) ^ (length (transferSuccess unreliableEntry) + 2) <
      VALIDATION_THRESHOLD * (1 - unitRoundoff)"
    using b2 by (simp only: sample_rates a r)
  then have 5: "\<not> isApplicableInEnvironment unreliableEntry 5"
    using isApplicableInEnvironment_by_level [of unreliableEntry 5] m(3) t(2) u r(2) by blast
  show ?thesis
    using h l m t n a b1 b2 u 1 2 3 4 5 sample_rates(2,4) by blast
qed

text \<open>
  The claim as stated fails at the threshold. The borderline entry, not learned in
  environment 5, has the success rate 7/10 in each of its three environments, so the
  average of its per-environment success rates is exactly 0.7. The program adds the
  double 0.7 three times, which rounds down, divides by 3, and gets
  0.6999999999999998, below the double 0.7: it returns false.
\<close>

theorem borderline_average_rejected_counterexample:
  "level borderlineEntry = Mid \<and>
   environmentIds borderlineEntry = [] \<and>
   map snd (transferSuccess borderlineEntry) = [(7, 10), (7, 10), (7, 10)] \<and>
   exactAverage (map snd (transferSuccess borderlineEntry)) = 7 / 10 \<and>
   VALIDATION_THRESHOLD \<le> exactAverage (map snd (transferSuccess borderlineEntry)) \<and>
   roundDouble VALIDATION_THRESHOLD = 6305039478318694 / 2 ^ 53 \<and>
   averageSuccessRate (map snd (transferSuccess borderlineEntry)) = 6305039478318693 / 2 ^ 53 \<and>
   \<not> isApplicableInEnvironment borderlineEntry 5"
proof -
  have l: "level borderlineEntry = Mid"
    by (simp add: borderlineEntry_def sampleMidEntry_level)
  have a: "exactAverage [(7, 10), (7, 10), (7, 10)] = 7 / 10"
    by (simp add: exactAverage_def)
  have t: "roundDouble VALIDATION_THRESHOLD = 6305039478318694 / 2 ^ 53"
    by code_simp
  have c: "averageSuccessRate [(7, 10), (7, 10), (7, 10)] = 6305039478318693 / 2 ^ 53"
    by code_simp
  have "\<not> isApplicableInEnvironment borderlineEntry 5"
    by (simp add: isApplicableInEnvironment_def l sample_rates Let_def t c)
  then show ?thesis
    using l a t c by (simp add: sample_rates VALIDATION_THRESHOLD_def)
qed

section \<open>Tier capacity: results\<close>

lemma hd_insort_key:
  "hd (insort_key f x ys) = (if ys = [] then x else if f x \<le> f (hd ys) then x else hd ys)"
  by (cases ys) auto

lemma sort_key_Nil_iff: "sort_key f xs = [] \<longleftrightarrow> xs = []"
  by (metis length_0_conv length_sort)

lemma hd_sort_key_first_min:
  "t \<noteq> [] \<Longrightarrow>
   \<exists>j<length t. hd (sort_key f t) = t ! j \<and>
      (\<forall>m<length t. f (t ! j) \<le> f (t ! m)) \<and> (\<forall>m<j. f (t ! j) < f (t ! m))"
proof (induction t)
  case Nil
  then show ?case by simp
next
  case (Cons x xs)
  show ?case
  proof (cases "xs = []")
    case True
    then show ?thesis by simp
  next
    case False
    with Cons.IH obtain j where j: "j < length xs" "hd (sort_key f xs) = xs ! j"
      "\<forall>m<length xs. f (xs ! j) \<le> f (xs ! m)" "\<forall>m<j. f (xs ! j) < f (xs ! m)"
      by blast
    have ne: "sort_key f xs \<noteq> []" using False by (simp add: sort_key_Nil_iff)
    show ?thesis
    proof (cases "f x \<le> f (xs ! j)")
      case True
      have "hd (sort_key f (x # xs)) = x"
        using True j(2) ne by (simp add: hd_insort_key)
      moreover have "\<forall>m<length (x # xs). f x \<le> f ((x # xs) ! m)"
      proof (intro allI impI)
        fix m assume "m < length (x # xs)"
        then show "f x \<le> f ((x # xs) ! m)"
          using True j(3) by (cases m) (auto intro: order_trans)
      qed
      ultimately show ?thesis
        by (intro exI [of _ 0]) simp
    next
      case gt: False
      have "hd (sort_key f (x # xs)) = xs ! j"
        using gt j(2) ne by (simp add: hd_insort_key)
      moreover have "\<forall>m<length (x # xs). f (xs ! j) \<le> f ((x # xs) ! m)"
      proof (intro allI impI)
        fix m assume "m < length (x # xs)"
        then show "f (xs ! j) \<le> f ((x # xs) ! m)"
          using gt j(3) by (cases m) auto
      qed
      moreover have "\<forall>m<Suc j. f (xs ! j) < f ((x # xs) ! m)"
      proof (intro allI impI)
        fix m assume "m < Suc j"
        then show "f (xs ! j) < f ((x # xs) ! m)"
          using gt j(4) by (cases m) auto
      qed
      ultimately show ?thesis
        using j(1) by (intro exI [of _ "Suc j"]) simp
    qed
  qed
qed

lemma length_delete_distinct:
  "distinct (map fst t) \<Longrightarrow> k \<in> fst ` set t \<Longrightarrow> length (AList.delete k t) = length t - 1"
proof (induction t)
  case Nil
  then show ?case by simp
next
  case (Cons p t)
  show ?case
  proof (cases "fst p = k")
    case True
    then have "k \<notin> fst ` set t" using Cons.prems(1) by auto
    then have "AList.delete k t = t" by (simp add: delete_id)
    then show ?thesis using True by simp
  next
    case False
    then have "k \<in> fst ` set t" using Cons.prems(2) by auto
    moreover from this have "t \<noteq> []" by auto
    ultimately show ?thesis using Cons False by (cases t) auto
  qed
qed

lemma length_update_le: "length (AList.update k v t) \<le> Suc (length t)"
  by (induction t) auto

lemma length_update_mem: "k \<in> fst ` set t \<Longrightarrow> length (AList.update k v t) = length t"
  by (induction t) auto

lemma insertWithCapacity_distinct:
  "distinct (map fst t) \<Longrightarrow> distinct (map fst (insertWithCapacity c t e))"
  by (simp add: insertWithCapacity_def Let_def distinct_update distinct_delete split: list.split)

lemma insertWithCapacity_evicts:
  assumes "t \<noteq> []" and "c \<le> length t"
  shows "evictsWeakest t e (insertWithCapacity c t e)"
proof -
  obtain j where j: "j < length t" "hd (sort_key (\<lambda>a. confidence (snd a)) t) = t ! j"
      "\<forall>m<length t. confidence (snd (t ! j)) \<le> confidence (snd (t ! m))"
      "\<forall>m<j. confidence (snd (t ! j)) < confidence (snd (t ! m))"
    using hd_sort_key_first_min [OF assms(1), of "\<lambda>a. confidence (snd a)"] by blast
  have "sort_key (\<lambda>a. confidence (snd a)) t \<noteq> []"
    using assms(1) by (simp add: sort_key_Nil_iff)
  then obtain w ws where w: "sort_key (\<lambda>a. confidence (snd a)) t = w # ws"
    by (cases "sort_key (\<lambda>a. confidence (snd a)) t") auto
  then have "w = t ! j" using j(2) by simp
  then have "insertWithCapacity c t e = AList.update (kid e) e (AList.delete (fst (t ! j)) t)"
    using assms(2) w by (simp add: insertWithCapacity_def)
  then show ?thesis
    unfolding evictsWeakest_def using j by blast
qed

lemma insertWithCapacity_length:
  assumes "distinct (map fst t)" and "length t \<le> c" and "0 < c"
  shows "length (insertWithCapacity c t e) \<le> c"
proof (cases "c \<le> length t")
  case True
  then have ne: "t \<noteq> []" using assms(3) by auto
  from insertWithCapacity_evicts [OF ne True, of e]
  obtain j where j: "j < length t"
      "insertWithCapacity c t e = AList.update (kid e) e (AList.delete (fst (t ! j)) t)"
    unfolding evictsWeakest_def by blast
  have "fst (t ! j) \<in> fst ` set t" using j(1) by simp
  then have "length (AList.delete (fst (t ! j)) t) = length t - 1"
    using assms(1) by (rule length_delete_distinct [rotated])
  then show ?thesis
    using j(2) length_update_le [of "kid e" e "AList.delete (fst (t ! j)) t"] assms(2) ne
    by (cases t) auto
next
  case False
  then have "insertWithCapacity c t e = AList.update (kid e) e t"
    by (simp add: insertWithCapacity_def)
  then show ?thesis
    using False length_update_le [of "kid e" e t] by simp
qed

lemma find_key_mem: "find P t = Some (i, x) \<Longrightarrow> i \<in> fst ` set t"
  by (metis find_Some_iff fst_conv image_eqI nth_mem)

lemma tiersWellFormed_initial: "tiersWellFormed \<lparr>low = [], mid = [], high = []\<rparr>"
  by (simp add: tiersWellFormed_def)

lemma addLowLevelKnowledge_tier:
  assumes "agentKnowledge crs agent = Some k" and "tiersWellFormed k"
    and "addLowLevelKnowledge crs agent p environmentId newId now = (r, crs')"
  shows "\<exists>k'. agentKnowledge crs' agent = Some k' \<and> tiersWellFormed k' \<and>
           mid k' = mid k \<and> high k' = high k \<and>
           (find (\<lambda>(i, entry). patternsMatch (kpattern entry) p) (low k) = None \<longrightarrow>
              r = Some (newKnowledgeEntry newId now p Low (Some environmentId)) \<and>
              low k' = insertWithCapacity LOW_LEVEL_CAPACITY (low k)
                         (newKnowledgeEntry newId now p Low (Some environmentId)))"
proof (cases "find (\<lambda>(i, entry). patternsMatch (kpattern entry) p) (low k)")
  case None
  then show ?thesis
    using assms insertWithCapacity_length [of "low k" LOW_LEVEL_CAPACITY]
      insertWithCapacity_distinct [of "low k" LOW_LEVEL_CAPACITY]
    by (auto simp: addLowLevelKnowledge_def tiersWellFormed_def Let_def LOW_LEVEL_CAPACITY_def)
next
  case (Some a)
  obtain i x where a: "a = (i, x)" by (cases a)
  have "i \<in> fst ` set (low k)" using Some a by (auto dest: find_key_mem)
  then have "length (AList.update i e' (low k)) = length (low k)" for e'
    by (rule length_update_mem)
  then show ?thesis
    using assms Some a
    by (auto simp: addLowLevelKnowledge_def tiersWellFormed_def Let_def distinct_update)
qed

lemma pushEnvironmentIds_fields:
  "kid (pushEnvironmentIds envIds e) = kid e"
  "kpattern (pushEnvironmentIds envIds e) = kpattern e"
  "level (pushEnvironmentIds envIds e) = level e"
  unfolding pushEnvironmentIds_def by (induction envIds arbitrary: e) auto

lemma addInstance_fields:
  "kid (addInstance now inst environmentId e) = kid e"
  "kpattern (addInstance now inst environmentId e) = kpattern e"
  "level (addInstance now inst environmentId e) = level e"
  by (simp_all add: addInstance_def updateConfidence_def Let_def)

lemma newKnowledgeEntry_fields:
  "kid (newKnowledgeEntry newId now p l environmentId) = newId"
  "kpattern (newKnowledgeEntry newId now p l environmentId) = p"
  "level (newKnowledgeEntry newId now p l environmentId) = l"
  by (simp_all add: newKnowledgeEntry_def)

lemmas entry_fields = pushEnvironmentIds_fields addInstance_fields newKnowledgeEntry_fields

lemma addMidLevelKnowledge_tier:
  assumes "agentKnowledge crs agent = Some k" and "tiersWellFormed k"
    and "addMidLevelKnowledge crs agent p sourceEntries newId now = (r, crs')"
  shows "\<exists>k'. agentKnowledge crs' agent = Some k' \<and> tiersWellFormed k' \<and>
           low k' = low k \<and> high k' = high k \<and>
           (find (\<lambda>(i, entry). patternsMatch (kpattern entry) p) (mid k) = None \<longrightarrow>
              (\<exists>newEntry. r = Some newEntry \<and> kid newEntry = newId \<and>
                 mid k' = insertWithCapacity MID_LEVEL_CAPACITY (mid k) newEntry))"
proof (cases "find (\<lambda>(i, entry). patternsMatch (kpattern entry) p) (mid k)")
  case None
  then show ?thesis
    using assms insertWithCapacity_length [of "mid k" MID_LEVEL_CAPACITY]
      insertWithCapacity_distinct [of "mid k" MID_LEVEL_CAPACITY]
    by (auto simp: addMidLevelKnowledge_def tiersWellFormed_def Let_def MID_LEVEL_CAPACITY_def
        entry_fields)
next
  case (Some a)
  obtain i x where a: "a = (i, x)" by (cases a)
  have "i \<in> fst ` set (mid k)" using Some a by (auto dest: find_key_mem)
  then have "length (AList.update i e' (mid k)) = length (mid k)" for e'
    by (rule length_update_mem)
  then show ?thesis
    using assms Some a
    by (auto simp: addMidLevelKnowledge_def tiersWellFormed_def Let_def distinct_update)
qed

lemma addHighLevelKnowledge_tier:
  assumes "agentKnowledge crs agent = Some k" and "tiersWellFormed k"
    and "addHighLevelKnowledge crs agent p sourceEntries newId now = (r, crs')"
  shows "\<exists>k'. agentKnowledge crs' agent = Some k' \<and> tiersWellFormed k' \<and>
           low k' = low k \<and> mid k' = mid k \<and>
           (find (\<lambda>(i, entry). ptype (kpattern entry) = ptype p \<and>
                                universalPrinciple (kpattern entry)) (high k) = None \<longrightarrow>
              (\<exists>newEntry. r = Some newEntry \<and> kid newEntry = newId \<and>
                 high k' = insertWithCapacity HIGH_LEVEL_CAPACITY (high k) newEntry))"
proof (cases "find (\<lambda>(i, entry). ptype (kpattern entry) = ptype p \<and>
                                universalPrinciple (kpattern entry)) (high k)")
  case None
  then show ?thesis
    using assms insertWithCapacity_length [of "high k" HIGH_LEVEL_CAPACITY]
      insertWithCapacity_distinct [of "high k" HIGH_LEVEL_CAPACITY]
    by (auto simp: addHighLevelKnowledge_def tiersWellFormed_def Let_def HIGH_LEVEL_CAPACITY_def
        entry_fields)
next
  case (Some a)
  obtain i x where a: "a = (i, x)" by (cases a)
  have "i \<in> fst ` set (high k)" using Some a by (auto dest: find_key_mem)
  then have "length (AList.update i e' (high k)) = length (high k)" for e'
    by (rule length_update_mem)
  then show ?thesis
    using assms Some a
    by (auto simp: addHighLevelKnowledge_def tiersWellFormed_def Let_def distinct_update)
qed

lemma evicts_from_insert:
  assumes "length t = c" and "0 < c" and "t' = insertWithCapacity c t e"
  shows "evictsWeakest t e t'"
proof -
  have "t \<noteq> []" using assms(1,2) by auto
  moreover have "c \<le> length t" using assms(1) by simp
  ultimately show ?thesis
    unfolding assms(3) by (rule insertWithCapacity_evicts)
qed

text \<open>
  C6. For each tier (low, capacity 20; mid, 15; high, 10), adding knowledge to an agent
  whose tiers hold at most their capacity leaves them so. When the pattern matches no
  existing entry of the tier and the tier is at capacity, the entry deleted is one of
  least confidence in the tier, the first such in insertion order, and the new entry
  is then set under its id.
\<close>

theorem full_tier_insertion_evicts_weakest:
  assumes "agentKnowledge crs agent = Some k" and "tiersWellFormed k"
  shows "(\<exists>r crs' k'.
            addLowLevelKnowledge crs agent p environmentId newId now = (r, crs') \<and>
            agentKnowledge crs' agent = Some k' \<and> tiersWellFormed k' \<and>
            length (low k') \<le> LOW_LEVEL_CAPACITY \<and>
            (find (\<lambda>(i, entry). patternsMatch (kpattern entry) p) (low k) = None \<and>
             length (low k) = LOW_LEVEL_CAPACITY \<longrightarrow>
               (\<exists>newEntry. r = Some newEntry \<and> kid newEntry = newId \<and>
                  evictsWeakest (low k) newEntry (low k')))) \<and>
         (\<exists>r crs' k'.
            addMidLevelKnowledge crs agent p sourceEntries newId now = (r, crs') \<and>
            agentKnowledge crs' agent = Some k' \<and> tiersWellFormed k' \<and>
            length (mid k') \<le> MID_LEVEL_CAPACITY \<and>
            (find (\<lambda>(i, entry). patternsMatch (kpattern entry) p) (mid k) = None \<and>
             length (mid k) = MID_LEVEL_CAPACITY \<longrightarrow>
               (\<exists>newEntry. r = Some newEntry \<and> kid newEntry = newId \<and>
                  evictsWeakest (mid k) newEntry (mid k')))) \<and>
         (\<exists>r crs' k'.
            addHighLevelKnowledge crs agent p sourceEntries newId now = (r, crs') \<and>
            agentKnowledge crs' agent = Some k' \<and> tiersWellFormed k' \<and>
            length (high k') \<le> HIGH_LEVEL_CAPACITY \<and>
            (find (\<lambda>(i, entry). ptype (kpattern entry) = ptype p \<and>
                                 universalPrinciple (kpattern entry)) (high k) = None \<and>
             length (high k) = HIGH_LEVEL_CAPACITY \<longrightarrow>
               (\<exists>newEntry. r = Some newEntry \<and> kid newEntry = newId \<and>
                  evictsWeakest (high k) newEntry (high k'))))"
proof (intro conjI)
  obtain r crs' where a: "addLowLevelKnowledge crs agent p environmentId newId now = (r, crs')"
    by (cases "addLowLevelKnowledge crs agent p environmentId newId now")
  from addLowLevelKnowledge_tier [OF assms a]
  obtain k' where k': "agentKnowledge crs' agent = Some k'" "tiersWellFormed k'"
    and n: "find (\<lambda>(i, entry). patternsMatch (kpattern entry) p) (low k) = None \<longrightarrow>
       r = Some (newKnowledgeEntry newId now p Low (Some environmentId)) \<and>
       low k' = insertWithCapacity LOW_LEVEL_CAPACITY (low k)
                  (newKnowledgeEntry newId now p Low (Some environmentId))"
    by auto
  have l: "length (low k') \<le> LOW_LEVEL_CAPACITY"
    using k'(2) by (simp add: tiersWellFormed_def)
  have "\<exists>newEntry. r = Some newEntry \<and> kid newEntry = newId \<and>
          evictsWeakest (low k) newEntry (low k')"
    if "find (\<lambda>(i, entry). patternsMatch (kpattern entry) p) (low k) = None \<and>
        length (low k) = LOW_LEVEL_CAPACITY"
  proof -
    from that n have r: "r = Some (newKnowledgeEntry newId now p Low (Some environmentId))"
      and t: "low k' = insertWithCapacity LOW_LEVEL_CAPACITY (low k)
                  (newKnowledgeEntry newId now p Low (Some environmentId))"
      by simp_all
    have "evictsWeakest (low k) (newKnowledgeEntry newId now p Low (Some environmentId)) (low k')"
      using that t by (intro evicts_from_insert [of _ LOW_LEVEL_CAPACITY])
        (simp_all add: LOW_LEVEL_CAPACITY_def)
    with r show ?thesis
      by (simp add: newKnowledgeEntry_fields)
  qed
  with a k' l show "\<exists>r crs' k'.
            addLowLevelKnowledge crs agent p environmentId newId now = (r, crs') \<and>
            agentKnowledge crs' agent = Some k' \<and> tiersWellFormed k' \<and>
            length (low k') \<le> LOW_LEVEL_CAPACITY \<and>
            (find (\<lambda>(i, entry). patternsMatch (kpattern entry) p) (low k) = None \<and>
             length (low k) = LOW_LEVEL_CAPACITY \<longrightarrow>
               (\<exists>newEntry. r = Some newEntry \<and> kid newEntry = newId \<and>
                  evictsWeakest (low k) newEntry (low k')))"
    by blast
next
  obtain r crs' where a: "addMidLevelKnowledge crs agent p sourceEntries newId now = (r, crs')"
    by (cases "addMidLevelKnowledge crs agent p sourceEntries newId now")
  from addMidLevelKnowledge_tier [OF assms a]
  obtain k' where k': "agentKnowledge crs' agent = Some k'" "tiersWellFormed k'"
    and n: "find (\<lambda>(i, entry). patternsMatch (kpattern entry) p) (mid k) = None \<longrightarrow>
       (\<exists>newEntry. r = Some newEntry \<and> kid newEntry = newId \<and>
          mid k' = insertWithCapacity MID_LEVEL_CAPACITY (mid k) newEntry)"
    by auto
  have l: "length (mid k') \<le> MID_LEVEL_CAPACITY"
    using k'(2) by (simp add: tiersWellFormed_def)
  have c: "0 < MID_LEVEL_CAPACITY"
    by (simp add: MID_LEVEL_CAPACITY_def)
  have "\<exists>newEntry. r = Some newEntry \<and> kid newEntry = newId \<and>
          evictsWeakest (mid k) newEntry (mid k')"
    if "find (\<lambda>(i, entry). patternsMatch (kpattern entry) p) (mid k) = None \<and>
        length (mid k) = MID_LEVEL_CAPACITY"
  proof -
    from that n obtain newEntry where r: "r = Some newEntry" "kid newEntry = newId"
      and t: "mid k' = insertWithCapacity MID_LEVEL_CAPACITY (mid k) newEntry"
      by auto
    have "evictsWeakest (mid k) newEntry (mid k')"
      using that c t by (intro evicts_from_insert [of _ MID_LEVEL_CAPACITY]) simp_all
    with r show ?thesis
      by simp
  qed
  with a k' l show "\<exists>r crs' k'.
            addMidLevelKnowledge crs agent p sourceEntries newId now = (r, crs') \<and>
            agentKnowledge crs' agent = Some k' \<and> tiersWellFormed k' \<and>
            length (mid k') \<le> MID_LEVEL_CAPACITY \<and>
            (find (\<lambda>(i, entry). patternsMatch (kpattern entry) p) (mid k) = None \<and>
             length (mid k) = MID_LEVEL_CAPACITY \<longrightarrow>
               (\<exists>newEntry. r = Some newEntry \<and> kid newEntry = newId \<and>
                  evictsWeakest (mid k) newEntry (mid k')))"
    by blast
next
  obtain r crs' where a: "addHighLevelKnowledge crs agent p sourceEntries newId now = (r, crs')"
    by (cases "addHighLevelKnowledge crs agent p sourceEntries newId now")
  from addHighLevelKnowledge_tier [OF assms a]
  obtain k' where k': "agentKnowledge crs' agent = Some k'" "tiersWellFormed k'"
    and n: "find (\<lambda>(i, entry). ptype (kpattern entry) = ptype p \<and>
                         universalPrinciple (kpattern entry)) (high k) = None \<longrightarrow>
       (\<exists>newEntry. r = Some newEntry \<and> kid newEntry = newId \<and>
          high k' = insertWithCapacity HIGH_LEVEL_CAPACITY (high k) newEntry)"
    by auto
  have l: "length (high k') \<le> HIGH_LEVEL_CAPACITY"
    using k'(2) by (simp add: tiersWellFormed_def)
  have c: "0 < HIGH_LEVEL_CAPACITY"
    by (simp add: HIGH_LEVEL_CAPACITY_def)
  have "\<exists>newEntry. r = Some newEntry \<and> kid newEntry = newId \<and>
          evictsWeakest (high k) newEntry (high k')"
    if "find (\<lambda>(i, entry). ptype (kpattern entry) = ptype p \<and>
                         universalPrinciple (kpattern entry)) (high k) = None \<and>
        length (high k) = HIGH_LEVEL_CAPACITY"
  proof -
    from that n obtain newEntry where r: "r = Some newEntry" "kid newEntry = newId"
      and t: "high k' = insertWithCapacity HIGH_LEVEL_CAPACITY (high k) newEntry"
      by auto
    have "evictsWeakest (high k) newEntry (high k')"
      using that c t by (intro evicts_from_insert [of _ HIGH_LEVEL_CAPACITY]) simp_all
    with r show ?thesis
      by simp
  qed
  with a k' l show "\<exists>r crs' k'.
            addHighLevelKnowledge crs agent p sourceEntries newId now = (r, crs') \<and>
            agentKnowledge crs' agent = Some k' \<and> tiersWellFormed k' \<and>
            length (high k') \<le> HIGH_LEVEL_CAPACITY \<and>
            (find (\<lambda>(i, entry). ptype (kpattern entry) = ptype p \<and>
                                 universalPrinciple (kpattern entry)) (high k) = None \<and>
             length (high k) = HIGH_LEVEL_CAPACITY \<longrightarrow>
               (\<exists>newEntry. r = Some newEntry \<and> kid newEntry = newId \<and>
                  evictsWeakest (high k) newEntry (high k')))"
    by blast
qed

lemma sampleTier_length: "length (sampleTier l n) = n"
  by (simp add: sampleTier_def)

lemma sampleTier_nth:
  "m < n \<Longrightarrow> fst (sampleTier l n ! m) = sampleKey m"
  "m < n \<Longrightarrow> confidence (snd (sampleTier l n ! m)) = (if m = 3 \<or> m = 5 then 1 / 10 else 5 / 10)"
  by (simp_all add: sampleTier_def sampleTierEntry_def)

lemma sampleTier_distinct: "distinct (map fst (sampleTier l n))"
proof -
  have "map fst (sampleTier l n) = map sampleKey [0..<n]"
    by (simp add: sampleTier_def sampleTierEntry_def)
  moreover have "inj_on sampleKey (set [0..<n])"
    by (rule inj_onI) (metis sampleKey_def length_replicate nat.inject)
  ultimately show ?thesis
    by (simp add: distinct_map)
qed

lemma sampleTier_no_match:
  "find (\<lambda>(i, entry). patternsMatch (kpattern entry) (extractResourcePattern pos)) (sampleTier l n) = None"
  "find (\<lambda>(i, entry). ptype (kpattern entry) = ptype (extractResourcePattern pos) \<and>
                        universalPrinciple (kpattern entry)) (sampleTier l n) = None"
  by (auto simp: find_None_iff sampleTier_def sampleTierEntry_def newKnowledgeEntry_def
      patternsMatch_def extractResourcePattern_def sampleKey_def)

lemma sampleTier_evicts:
  assumes "5 < n" and "evictsWeakest (sampleTier l n) e t'"
  shows "t' = AList.update (kid e) e (AList.delete (sampleKey 3) (sampleTier l n))"
proof -
  let ?t = "sampleTier l n"
  from assms(2) obtain j where j: "j < n"
      "\<forall>m<n. confidence (snd (?t ! j)) \<le> confidence (snd (?t ! m))"
      "\<forall>m<j. confidence (snd (?t ! j)) < confidence (snd (?t ! m))"
      "t' = AList.update (kid e) e (AList.delete (fst (?t ! j)) ?t)"
    unfolding evictsWeakest_def sampleTier_length by blast
  have "confidence (snd (?t ! j)) \<le> confidence (snd (?t ! 3))"
    using j(2) assms(1) by simp
  then have "j = 3 \<or> j = 5"
    using j(1) assms(1) by (simp add: sampleTier_nth split: if_splits)
  moreover have "j \<noteq> 5"
  proof
    assume "j = 5"
    then have "confidence (snd (?t ! 5)) < confidence (snd (?t ! 3))"
      using j(3) by simp
    then show False
      using assms(1) by (simp add: sampleTier_nth)
  qed
  ultimately have "j = 3" by simp
  then show ?thesis
    using j(4) assms(1) by (simp add: sampleTier_nth)
qed

lemma sampleKnowledge_wellFormed: "tiersWellFormed sampleKnowledge"
  by (simp add: tiersWellFormed_def sampleKnowledge_def sampleTier_distinct sampleTier_length
      CROSS_REALITY_CONFIG)

theorem full_tier_insertion_evicts_weakest_witness:
  "agentKnowledge sampleSystem 0 = Some sampleKnowledge \<and> tiersWellFormed sampleKnowledge \<and>
   length (low sampleKnowledge) = LOW_LEVEL_CAPACITY \<and>
   length (mid sampleKnowledge) = MID_LEVEL_CAPACITY \<and>
   length (high sampleKnowledge) = HIGH_LEVEL_CAPACITY \<and>
   (\<exists>newEntry crs' k'.
      addLowLevelKnowledge sampleSystem 0 (extractResourcePattern (10, 10)) 1 ''knowledge-1-7'' 1
        = (Some newEntry, crs') \<and>
      agentKnowledge crs' 0 = Some k' \<and> length (low k') \<le> LOW_LEVEL_CAPACITY \<and>
      low k' = AList.update ''knowledge-1-7'' newEntry
                 (AList.delete (sampleKey 3) (low sampleKnowledge))) \<and>
   (\<exists>newEntry crs' k'.
      addMidLevelKnowledge sampleSystem 0 (extractResourcePattern (10, 10)) [] ''knowledge-1-7'' 1
        = (Some newEntry, crs') \<and>
      agentKnowledge crs' 0 = Some k' \<and> length (mid k') \<le> MID_LEVEL_CAPACITY \<and>
      mid k' = AList.update ''knowledge-1-7'' newEntry
                 (AList.delete (sampleKey 3) (mid sampleKnowledge))) \<and>
   (\<exists>newEntry crs' k'.
      addHighLevelKnowledge sampleSystem 0 (extractResourcePattern (10, 10)) [] ''knowledge-1-7'' 1
        = (Some newEntry, crs') \<and>
      agentKnowledge crs' 0 = Some k' \<and> length (high k') \<le> HIGH_LEVEL_CAPACITY \<and>
      high k' = AList.update ''knowledge-1-7'' newEntry
                 (AList.delete (sampleKey 3) (high sampleKnowledge)))"
proof -
  let ?p = "extractResourcePattern (10, 10)"
  have a: "agentKnowledge sampleSystem 0 = Some sampleKnowledge"
    by (simp add: sampleSystem_def)
  have w: "tiersWellFormed sampleKnowledge"
    by (rule sampleKnowledge_wellFormed)
  have n: "length (low sampleKnowledge) = LOW_LEVEL_CAPACITY"
      "length (mid sampleKnowledge) = MID_LEVEL_CAPACITY"
      "length (high sampleKnowledge) = HIGH_LEVEL_CAPACITY"
    by (simp_all add: sampleKnowledge_def sampleTier_length CROSS_REALITY_CONFIG)
  have f: "find (\<lambda>(i, entry). patternsMatch (kpattern entry) ?p) (low sampleKnowledge) = None"
      "find (\<lambda>(i, entry). patternsMatch (kpattern entry) ?p) (mid sampleKnowledge) = None"
      "find (\<lambda>(i, entry). ptype (kpattern entry) = ptype ?p \<and>
                           universalPrinciple (kpattern entry)) (high sampleKnowledge) = None"
    by (simp_all add: sampleKnowledge_def sampleTier_no_match)
  note t = full_tier_insertion_evicts_weakest [OF a w, of ?p 1 "''knowledge-1-7''" 1 "[]"]
  from t [THEN conjunct1] f(1) n(1)
  obtain newEntry crs' k' where
      "addLowLevelKnowledge sampleSystem 0 ?p 1 ''knowledge-1-7'' 1 = (Some newEntry, crs')"
      "agentKnowledge crs' 0 = Some k'" "length (low k') \<le> LOW_LEVEL_CAPACITY"
      "kid newEntry = ''knowledge-1-7''" "evictsWeakest (low sampleKnowledge) newEntry (low k')"
    by auto
  moreover from this have
      "low k' = AList.update ''knowledge-1-7'' newEntry (AList.delete (sampleKey 3) (low sampleKnowledge))"
    using sampleTier_evicts [of 20 Low newEntry "low k'"] by (simp add: sampleKnowledge_def)
  ultimately have 1: "\<exists>newEntry crs' k'.
      addLowLevelKnowledge sampleSystem 0 ?p 1 ''knowledge-1-7'' 1 = (Some newEntry, crs') \<and>
      agentKnowledge crs' 0 = Some k' \<and> length (low k') \<le> LOW_LEVEL_CAPACITY \<and>
      low k' = AList.update ''knowledge-1-7'' newEntry
                 (AList.delete (sampleKey 3) (low sampleKnowledge))"
    by blast
  from t [THEN conjunct2, THEN conjunct1] f(2) n(2)
  obtain newEntry crs' k' where
      "addMidLevelKnowledge sampleSystem 0 ?p [] ''knowledge-1-7'' 1 = (Some newEntry, crs')"
      "agentKnowledge crs' 0 = Some k'" "length (mid k') \<le> MID_LEVEL_CAPACITY"
      "kid newEntry = ''knowledge-1-7''" "evictsWeakest (mid sampleKnowledge) newEntry (mid k')"
    by auto
  moreover from this have
      "mid k' = AList.update ''knowledge-1-7'' newEntry (AList.delete (sampleKey 3) (mid sampleKnowledge))"
    using sampleTier_evicts [of 15 Mid newEntry "mid k'"] by (simp add: sampleKnowledge_def)
  ultimately have 2: "\<exists>newEntry crs' k'.
      addMidLevelKnowledge sampleSystem 0 ?p [] ''knowledge-1-7'' 1 = (Some newEntry, crs') \<and>
      agentKnowledge crs' 0 = Some k' \<and> length (mid k') \<le> MID_LEVEL_CAPACITY \<and>
      mid k' = AList.update ''knowledge-1-7'' newEntry
                 (AList.delete (sampleKey 3) (mid sampleKnowledge))"
    by blast
  from t [THEN conjunct2, THEN conjunct2] f(3) n(3)
  obtain newEntry crs' k' where
      "addHighLevelKnowledge sampleSystem 0 ?p [] ''knowledge-1-7'' 1 = (Some newEntry, crs')"
      "agentKnowledge crs' 0 = Some k'" "length (high k') \<le> HIGH_LEVEL_CAPACITY"
      "kid newEntry = ''knowledge-1-7''" "evictsWeakest (high sampleKnowledge) newEntry (high k')"
    by auto
  moreover from this have
      "high k' = AList.update ''knowledge-1-7'' newEntry (AList.delete (sampleKey 3) (high sampleKnowledge))"
    using sampleTier_evicts [of 10 High newEntry "high k'"] by (simp add: sampleKnowledge_def)
  ultimately have 3: "\<exists>newEntry crs' k'.
      addHighLevelKnowledge sampleSystem 0 ?p [] ''knowledge-1-7'' 1 = (Some newEntry, crs') \<and>
      agentKnowledge crs' 0 = Some k' \<and> length (high k') \<le> HIGH_LEVEL_CAPACITY \<and>
      high k' = AList.update ''knowledge-1-7'' newEntry
                 (AList.delete (sampleKey 3) (high sampleKnowledge))"
    by blast
  show ?thesis
    using a w n 1 2 3 by (intro conjI)
qed

section \<open>Generalization: results\<close>

lemma findCommonConditions_common:
  assumes "findCommonConditions es \<noteq> []"
  shows "\<exists>p op. \<forall>e\<in>set es. \<exists>c\<in>set (conditions (kpattern e)). property c = p \<and> operator c = op"
proof -
  from assms obtain condition where
    "list_all (\<lambda>entry. list_ex (sameKey condition) (conditions (kpattern entry))) es"
    by (auto simp: findCommonConditions_def Let_def filter_empty_conv split: if_splits)
  then have "\<forall>e\<in>set es. \<exists>c\<in>set (conditions (kpattern e)).
      property c = property condition \<and> operator c = operator condition"
    by (simp add: list_all_iff list_ex_iff sameKey_def)
  then show ?thesis by blast
qed

lemma groupByType_groups:
  assumes "distinct (map fst g)" and "(T, es) \<in> set (groupByType xs g)"
  shows "es = (case map_of g T of None \<Rightarrow> [] | Some es0 \<Rightarrow> es0) @
              filter (\<lambda>e. ptype (kpattern e) = T) xs"
  using assms
proof (induction xs arbitrary: g)
  case Nil
  then show ?case by simp
next
  case (Cons x xs)
  let ?T = "ptype (kpattern x)"
  show ?case
  proof (cases "map_of g ?T")
    case None
    have d: "distinct (map fst (g @ [(?T, [x])]))"
      using Cons.prems(1) None by (auto simp: map_of_eq_None_iff)
    have "(T, es) \<in> set (groupByType xs (g @ [(?T, [x])]))"
      using Cons.prems(2) None by simp
    from Cons.IH [OF d this] show ?thesis
      using None Cons.prems(1)
      by (auto simp: map_of_append map_add_def split: option.splits)
  next
    case (Some es0)
    have d: "distinct (map fst (AList.update ?T (es0 @ [x]) g))"
      using Cons.prems(1) by (simp add: distinct_update)
    have "(T, es) \<in> set (groupByType xs (AList.update ?T (es0 @ [x]) g))"
      using Cons.prems(2) Some by simp
    from Cons.IH [OF d this] show ?thesis
      using Some by (auto simp: update_conv' split: option.splits)
  qed
qed

lemma set_update_subset: "set (AList.update k v t) \<subseteq> insert (k, v) (set t)"
  by (induction t) auto

lemma set_delete_subset: "set (AList.delete k t) \<subseteq> set t"
  by (auto simp: AList.delete_eq)

lemma set_insertWithCapacity_subset:
  "set (insertWithCapacity c t e) \<subseteq> insert (kid e, e) (set t)"
proof -
  have "set (AList.update (kid e) e t') \<subseteq> insert (kid e, e) (set t)" if "set t' \<subseteq> set t" for t'
    using set_update_subset [of "kid e" e t'] that by auto
  then show ?thesis
    by (auto simp: insertWithCapacity_def Let_def set_delete_subset split: list.split)
qed

lemma addMidLevelKnowledge_entries:
  assumes "agentKnowledge crs agent = Some k"
  shows "\<exists>k'. agentKnowledge (snd (addMidLevelKnowledge crs agent p src newId now)) agent = Some k' \<and>
           low k' = low k \<and>
           (\<forall>i e. (i, e) \<in> set (mid k') \<longrightarrow>
              keptFrom (mid k) i e \<or> (kpattern e = p \<and> level e = Mid))"
proof (cases "find (\<lambda>(i, entry). patternsMatch (kpattern entry) p) (mid k)")
  case None
  let ?new = "addInstance now p None
     (pushEnvironmentIds (uniqueInOrder (concat (map environmentIds src)))
        (newKnowledgeEntry newId now p Mid None))"
  have "(i, e) \<in> set (insertWithCapacity MID_LEVEL_CAPACITY (mid k) ?new) \<Longrightarrow>
      keptFrom (mid k) i e \<or> (kpattern e = p \<and> level e = Mid)" for i e
    using set_insertWithCapacity_subset [of MID_LEVEL_CAPACITY "mid k" ?new]
    by (auto simp: keptFrom_def entry_fields)
  then show ?thesis
    using assms None by (simp add: addMidLevelKnowledge_def Let_def)
next
  case (Some a)
  obtain j x where a: "a = (j, x)" by (cases a)
  let ?e' = "pushEnvironmentIds (uniqueInOrder (concat (map environmentIds src)))
     (addInstance now p None x)"
  have m: "(j, x) \<in> set (mid k)"
    using Some a by (metis find_Some_iff nth_mem)
  have "keptFrom (mid k) i e" if "(i, e) \<in> set (AList.update j ?e' (mid k))" for i e
  proof -
    from that set_update_subset [of j ?e' "mid k"]
    consider "i = j \<and> e = ?e'" | "(i, e) \<in> set (mid k)"
      by auto
    then show ?thesis
    proof cases
      case 1
      then show ?thesis
        unfolding keptFrom_def using m by (intro exI [of _ x]) (simp add: entry_fields)
    next
      case 2
      then show ?thesis
        unfolding keptFrom_def by (intro exI [of _ e]) simp
    qed
  qed
  then show ?thesis
    using assms Some a by (simp add: addMidLevelKnowledge_def Let_def)
qed

lemma generalizeTypes_entries:
  assumes "agentKnowledge crs agent = Some kc"
    and "\<forall>(T, es)\<in>set groups. es = filter (\<lambda>e. ptype (kpattern e) = T) (map snd lowTier)"
    and "\<forall>i e. (i, e) \<in> set (mid kc) \<longrightarrow>
           keptFrom midTier i e \<or> (level e = Mid \<and> promotable lowTier (ptype (kpattern e)))"
  shows "\<exists>k'. agentKnowledge (generalizeTypes agent newId now groups crs) agent = Some k' \<and>
           (\<forall>i e. (i, e) \<in> set (mid k') \<longrightarrow>
              keptFrom midTier i e \<or> (level e = Mid \<and> promotable lowTier (ptype (kpattern e))))"
  using assms
proof (induction groups arbitrary: crs kc)
  case Nil
  then show ?case by simp
next
  case (Cons g groups)
  obtain T es where g: "g = (T, es)" by (cases g)
  have es: "es = filter (\<lambda>e. ptype (kpattern e) = T) (map snd lowTier)"
    using Cons.prems(2) g by simp
  have rest: "\<forall>(T, es)\<in>set groups. es = filter (\<lambda>e. ptype (kpattern e) = T) (map snd lowTier)"
    using Cons.prems(2) by simp
  let ?conf = "filter (\<lambda>entry. confidence entry \<ge> ABSTRACTION_CONFIDENCE_THRESHOLD) es"
  let ?p = "\<lparr>ptype = T, conditions = findCommonConditions ?conf, universalPrinciple = False\<rparr>"
  show ?case
  proof (cases "length es < ABSTRACTION_INSTANCE_THRESHOLD \<or> length ?conf < 3 \<or>
      findCommonConditions ?conf = []")
    case True
    then have "generalizeTypes agent newId now (g # groups) crs =
        generalizeTypes agent newId now groups crs"
      using g by (auto simp: Let_def)
    then show ?thesis
      using Cons.IH [OF Cons.prems(1) rest Cons.prems(3)] by simp
  next
    case False
    then have step: "generalizeTypes agent newId now (g # groups) crs =
        generalizeTypes agent newId now groups
          (snd (addMidLevelKnowledge crs agent ?p ?conf (newId T) now))"
      using g by (simp add: Let_def)
    have prom: "promotable lowTier T"
      using False findCommonConditions_common [of ?conf] es
      by (simp add: promotable_def Let_def)
    from addMidLevelKnowledge_entries [OF Cons.prems(1), of ?p ?conf "newId T" now]
    obtain k1 where k1: "agentKnowledge (snd (addMidLevelKnowledge crs agent ?p ?conf (newId T) now)) agent = Some k1"
      and e1: "\<forall>i e. (i, e) \<in> set (mid k1) \<longrightarrow>
              keptFrom (mid kc) i e \<or> (kpattern e = ?p \<and> level e = Mid)"
      by blast
    have inv: "\<forall>i e. (i, e) \<in> set (mid k1) \<longrightarrow>
           keptFrom midTier i e \<or> (level e = Mid \<and> promotable lowTier (ptype (kpattern e)))"
    proof (intro allI impI)
      fix i e assume "(i, e) \<in> set (mid k1)"
      with e1 consider "keptFrom (mid kc) i e" | "kpattern e = ?p \<and> level e = Mid"
        by blast
      then show "keptFrom midTier i e \<or> (level e = Mid \<and> promotable lowTier (ptype (kpattern e)))"
      proof cases
        case 1
        then obtain e0 where e0: "(i, e0) \<in> set (mid kc)" "kpattern e0 = kpattern e" "level e0 = level e"
          unfolding keptFrom_def by blast
        with Cons.prems(3) have "keptFrom midTier i e0 \<or>
            (level e0 = Mid \<and> promotable lowTier (ptype (kpattern e0)))"
          by blast
        then show ?thesis
          using e0(2,3) by (auto simp: keptFrom_def)
      next
        case 2
        then show ?thesis using prom by simp
      qed
    qed
    show ?thesis
      unfolding step by (rule Cons.IH [OF k1 rest inv])
  qed
qed

text \<open>
  C7. After \<open>generalizeLowToMid\<close>, every entry of the agent's mid tier either was
  there before, or is a mid-level entry whose pattern type qualifies for promotion in
  the agent's low tier: at least 5 low-level entries of the type, at least 3 of them
  with confidence at least 0.6, and those sharing a condition (same property and
  operator). No mid-level entry comes from fewer than 3 confident low-level entries.
\<close>

theorem mid_entries_need_three_confident_sources:
  assumes "agentKnowledge crs agent = Some k"
    and "agentKnowledge (generalizeLowToMid crs agent newId now) agent = Some k'"
    and "(i, e) \<in> set (mid k')"
  shows "keptFrom (mid k) i e \<or> (level e = Mid \<and> promotable (low k) (ptype (kpattern e)))"
proof -
  have g: "\<forall>(T, es)\<in>set (groupByType (map snd (low k)) []).
      es = filter (\<lambda>e. ptype (kpattern e) = T) (map snd (low k))"
    using groupByType_groups [of "[]" _ _ "map snd (low k)"] by auto
  have i: "\<forall>i e. (i, e) \<in> set (mid k) \<longrightarrow>
      keptFrom (mid k) i e \<or> (level e = Mid \<and> promotable (low k) (ptype (kpattern e)))"
    by (auto simp: keptFrom_def)
  from generalizeTypes_entries [OF assms(1) g i, of newId now]
  show ?thesis
    using assms by (auto simp: generalizeLowToMid_def)
qed

lemma promo_run:
  "\<exists>k' e. agentKnowledge (generalizeLowToMid promoSystem 0 (\<lambda>T. ''knowledge-1-'' @ T) 1) 0 = Some k' \<and>
     mid k' = [(''knowledge-1-resource_location'', e)] \<and>
     kpattern e =
       \<lparr>ptype = ''resource_location'',
        conditions = [\<lparr>property = ''quadrant'', operator = ''equals'', cvalue = None,
                       valueRange = Some (Some 0, Some 2), threshold = None,
                       generalized = True\<rparr>],
        universalPrinciple = False\<rparr>"
  by (simp add: generalizeLowToMid_def promoSystem_def sampleSystem_def promoKnowledge_def promoEntry_def
      findCommonConditions_def generalizeCondition_def sameKey_def addMidLevelKnowledge_def
      insertWithCapacity_def newKnowledgeEntry_def addInstance_def updateConfidence_def
      pushEnvironmentIds_def uniqueInOrder_def patternsMatch_def Let_def CROSS_REALITY_CONFIG
      isNumber_def isBoolean_def mathMin_def mathMax_def toNumber_def truthyId_def)

theorem mid_entries_need_three_confident_sources_witness:
  "agentKnowledge promoSystem 0 = Some promoKnowledge \<and>
   (\<exists>k' e. agentKnowledge (generalizeLowToMid promoSystem 0 (\<lambda>T. ''knowledge-1-'' @ T) 1) 0 = Some k' \<and>
      (''knowledge-1-resource_location'', e) \<in> set (mid k') \<and>
      level e = Mid \<and> ptype (kpattern e) = ''resource_location'' \<and>
      promotable (low promoKnowledge) ''resource_location'')"
proof -
  have a: "agentKnowledge promoSystem 0 = Some promoKnowledge"
    by (simp add: promoSystem_def)
  from promo_run obtain k' e where
      r: "agentKnowledge (generalizeLowToMid promoSystem 0 (\<lambda>T. ''knowledge-1-'' @ T) 1) 0 = Some k'"
      and m: "mid k' = [(''knowledge-1-resource_location'', e)]"
      and t: "ptype (kpattern e) = ''resource_location''"
    by auto
  have i: "(''knowledge-1-resource_location'', e) \<in> set (mid k')"
    using m by simp
  have "\<not> keptFrom (mid promoKnowledge) ''knowledge-1-resource_location'' e"
    by (simp add: keptFrom_def promoKnowledge_def)
  with mid_entries_need_three_confident_sources [OF a r i]
  have "level e = Mid \<and> promotable (low promoKnowledge) (ptype (kpattern e))"
    by blast
  with a r i t show ?thesis
    by auto
qed

section \<open>Knowledge adaptation: results\<close>

lemma updateEnvironmentProfile_knowledge:
  "agentKnowledge (updateEnvironmentProfile crs environmentId obs now) = agentKnowledge crs"
  by (simp add: updateEnvironmentProfile_def Let_def split: option.split)

text \<open>
  C4 (as amended). When \<open>updateEnvironment\<close> detects an environment other than the
  agent's current one and the computed similarity is below
  ENVIRONMENT_TRANSITION_THRESHOLD (0.6), then, with adaptationFactor = 1 - similarity:
  the confidence of every low-level entry not applicable in the new environment becomes
  confidence * (1 - adaptationFactor * 0.7), that of every mid-level entry not
  applicable there becomes confidence * (1 - adaptationFactor * 0.4), and that of every
  high-level entry becomes confidence * (1 - adaptationFactor * 0.1); low- and mid-level
  entries applicable in the new environment are unchanged. When the environment is the
  same or the similarity is at least 0.6, the agent's knowledge is unchanged.
\<close>

theorem transition_discounts_by_tier:
  assumes "agentKnowledge crs agent = Some k"
  shows "agentKnowledge (updateEnvironment crs agent currentTime realityEffect pos obs now) agent =
     (let newEnvironmentId = detectEnvironmentId crs realityEffect pos;
          similarity = calculateEnvironmentSimilarity crs newEnvironmentId (currentEnvironmentId crs agent)
      in if newEnvironmentId \<noteq> currentEnvironmentId crs agent \<and>
            similarity < ENVIRONMENT_TRANSITION_THRESHOLD
         then Some
           \<lparr>low = map (\<lambda>(i, e). (i, if isApplicableInEnvironment e newEnvironmentId then e
                        else e\<lparr>confidence := confidence e * (1 - (1 - similarity) * (7 / 10))\<rparr>)) (low k),
            mid = map (\<lambda>(i, e). (i, if isApplicableInEnvironment e newEnvironmentId then e
                        else e\<lparr>confidence := confidence e * (1 - (1 - similarity) * (4 / 10))\<rparr>)) (mid k),
            high = map (\<lambda>(i, e). (i, e\<lparr>confidence := confidence e * (1 - (1 - similarity) * (1 / 10))\<rparr>))
                     (high k)\<rparr>
         else Some k)"
proof -
  let ?new = "detectEnvironmentId crs realityEffect pos"
  let ?cur = "currentEnvironmentId crs agent"
  let ?s = "calculateEnvironmentSimilarity crs ?new ?cur"
  show ?thesis
  proof (cases "?new \<noteq> ?cur \<and> ?s < ENVIRONMENT_TRANSITION_THRESHOLD")
    case True
    then have "max (1 / 10) (1 - ?s) = 1 - ?s"
      by (simp add: ENVIRONMENT_TRANSITION_THRESHOLD_def max_def)
    then show ?thesis
      using True assms
      by (auto simp: updateEnvironment_def Let_def updateEnvironmentProfile_knowledge
          adaptKnowledge_def adaptTier_def)
  next
    case False
    then show ?thesis
      using assms
      by (auto simp: updateEnvironment_def Let_def updateEnvironmentProfile_knowledge)
  qed
qed

lemmas adapt_sample_defs =
  adaptSystem_def sampleSystem_def adaptSample_def adaptMidEntry_def sampleLowEntry_def
  sampleHighEntry_def newKnowledgeEntry_def recordApplication_def addInstance_def
  updateConfidence_def truthyId_def extractHazardPattern_def extractResourcePattern_def
  getQuadrant_def confidences_def isApplicableInEnvironment_def averageSuccessRate_def
  roundDouble_zero roundDouble_threshold
  detectEnvironmentId_def calculateEnvironmentSimilarity_def CROSS_REALITY_CONFIG Let_def

lemma adapt_sample_before:
  "confidences adaptSample = ([5 / 10, 5 / 10], [8 / 100], [5 / 10])"
  by (simp add: adapt_sample_defs)

theorem transition_discounts_by_tier_witness:
  "agentKnowledge adaptSystem 0 = Some adaptSample \<and>
   currentEnvironmentId adaptSystem 0 = 1 \<and>
   detectEnvironmentId adaptSystem 0 (60, 60) = 4 \<and>
   calculateEnvironmentSimilarity adaptSystem 4 1 = 4 / 10 \<and>
   map_option confidences
     (agentKnowledge (updateEnvironment adaptSystem 0 1 0 (60, 60) noObservations 1) 0) =
     Some ([29 / 100, 5 / 10], [38 / 625], [47 / 100])"
proof -
  have a: "agentKnowledge adaptSystem 0 = Some adaptSample"
    by (simp add: adaptSystem_def)
  have c: "currentEnvironmentId adaptSystem 0 = 1"
    by (simp add: adaptSystem_def sampleSystem_def)
  have d: "detectEnvironmentId adaptSystem 0 (60, 60) = 4"
    by (simp add: adapt_sample_defs)
  have s: "calculateEnvironmentSimilarity adaptSystem 4 1 = 4 / 10"
    by (simp add: adapt_sample_defs)
  have "map_option confidences
      (agentKnowledge (updateEnvironment adaptSystem 0 1 0 (60, 60) noObservations 1) 0) =
    map_option confidences
     (let newEnvironmentId = detectEnvironmentId adaptSystem 0 (60, 60);
          similarity = calculateEnvironmentSimilarity adaptSystem newEnvironmentId
                         (currentEnvironmentId adaptSystem 0)
      in if newEnvironmentId \<noteq> currentEnvironmentId adaptSystem 0 \<and>
            similarity < ENVIRONMENT_TRANSITION_THRESHOLD
         then Some
           \<lparr>low = map (\<lambda>(i, e). (i, if isApplicableInEnvironment e newEnvironmentId then e
                        else e\<lparr>confidence := confidence e * (1 - (1 - similarity) * (7 / 10))\<rparr>))
                    (low adaptSample),
            mid = map (\<lambda>(i, e). (i, if isApplicableInEnvironment e newEnvironmentId then e
                        else e\<lparr>confidence := confidence e * (1 - (1 - similarity) * (4 / 10))\<rparr>))
                    (mid adaptSample),
            high = map (\<lambda>(i, e). (i, e\<lparr>confidence := confidence e * (1 - (1 - similarity) * (1 / 10))\<rparr>))
                     (high adaptSample)\<rparr>
         else Some adaptSample)"
    by (rule arg_cong [OF transition_discounts_by_tier [OF a]])
  also have "\<dots> = Some ([29 / 100, 5 / 10], [38 / 625], [47 / 100])"
    unfolding d c s by (simp add: adapt_sample_defs)
  finally show ?thesis
    using a c d s by simp
qed

text \<open>
  The claim as stated fails for high-level entries: the sample agent's high-level entry
  is applicable in the new environment, and the transition takes its confidence from
  0.5 to 0.5 * (1 - 0.6 * 0.1) = 0.47.
\<close>

theorem applicable_high_entry_discounted_counterexample:
  "high adaptSample = [(''knowledge-0-2'', sampleHighEntry)] \<and>
   isApplicableInEnvironment sampleHighEntry 4 \<and>
   confidence sampleHighEntry = 5 / 10 \<and>
   map_option (\<lambda>k. map (\<lambda>(i, e). confidence e) (high k))
     (agentKnowledge (updateEnvironment adaptSystem 0 1 0 (60, 60) noObservations 1) 0) =
     Some [47 / 100]"
  by (simp add: adapt_sample_defs updateEnvironment_def updateEnvironmentProfile_knowledge
      adaptKnowledge_def adaptTier_def)

section \<open>Resource patterns: results\<close>

lemma mergePattern_other_type:
  "in_type p \<noteq> T \<Longrightarrow>
   filter (\<lambda>q. stype q = T) (mergePattern p ps) = filter (\<lambda>q. stype q = T) ps"
  by (induction ps) (auto simp: Let_def)

lemma addAssociation_patterns: "patterns (addAssociation c1 c2 s sm) = patterns sm"
  by (simp add: addAssociation_def Let_def)

lemma othersAt_subset: "set (othersAt memories i) \<subseteq> set memories"
  by (auto simp: othersAt_def in_set_enumerate_eq)

lemma proximityNearby_wrong_type:
  assumes "\<forall>m\<in>set memories. entityType m \<noteq> targetType"
  shows "proximityNearby memories targetType i = []"
proof -
  have "\<forall>m\<in>set (othersAt memories i). entityType m \<noteq> targetType"
    using assms othersAt_subset by blast
  then show ?thesis
    by (simp add: proximityNearby_def Let_def filter_empty_conv)
qed

lemma proximityLoop_wrong_type:
  assumes "\<forall>m\<in>set memories. entityType m \<noteq> targetType"
  shows "proximityLoop memories targetType is acc = acc"
proof (induction "is")
  case Nil
  then show ?case by simp
next
  case (Cons i "is")
  obtain c e sm where "acc = (c, e, sm)" by (cases acc)
  then show ?case
    using Cons proximityNearby_wrong_type [OF assms] by simp
qed

lemma extractProximityPattern_wrong_type:
  assumes "\<forall>m\<in>set memories. entityType m \<noteq> targetType"
  shows "extractProximityPattern memories targetType patternType rule_text sm = sm"
  by (simp add: extractProximityPattern_def proximityLoop_wrong_type [OF assms])

lemma extractResourcePatterns_no_proximity:
  "filter (\<lambda>q. stype q = ''resource_obstacle_proximity'')
     (patterns (extractResourcePatterns memories sm)) =
   filter (\<lambda>q. stype q = ''resource_obstacle_proximity'') (patterns sm)"
proof -
  let ?resources = "filter (\<lambda>m. entityType m = 0) memories"
  have "\<forall>m\<in>set ?resources. entityType m \<noteq> 1"
    by simp
  then have "extractProximityPattern ?resources 1 patternType rule_text sm = sm"
    for patternType rule_text
    by (rule extractProximityPattern_wrong_type)
  then show ?thesis
    by (simp add: extractResourcePatterns_def extractClusterPattern_def addPattern_def Let_def
        mergePattern_other_type)
qed

lemma showNat_digit: "n < 10 \<Longrightarrow> showNat n = [''0123456789'' ! n]"
  by (simp add: showNat.simps)

text \<open>
  C3. On the sample memories every resource has all three obstacles within 15 units
  and 10 ticks, so the fraction the claim speaks of is 1. \<open>extractResourcePatterns\<close>
  emits the clustering pattern only: it looks for obstacles among the memories it has
  just filtered down to resources, finds none, and emits no
  \<open>resource_obstacle_proximity\<close> pattern, here or for any other memories.
\<close>

theorem resource_obstacle_proximity_not_emitted:
  "map entityType proximityMemories = [0, 0, 0, 1, 1, 1] \<and>
   map (\<lambda>i. length (proximityNearby proximityMemories 1 i)) [0, 1, 2] = [3, 3, 3] \<and>
   map stype (patterns (extractResourcePatterns proximityMemories newSemanticMemory)) =
     [''resource_clustering'']"
  by (simp add: proximityMemories_def sightings_def showNat_digit proximityNearby_def othersAt_def
      hypotLess_def extractResourcePatterns_def extractProximityPattern_def
      extractClusterPattern_def clusterNearby_def addPattern_def addAssociation_def
      newSemanticMemory_def Let_def)

section \<open>Short-term ring buffer: results\<close>

lemma recordEpisodicMemory_step:
  assumes "recordEpisodicMemory em mgr agent readings newId event = (r, em', mgr')"
  shows "shortTermCapacity em' = shortTermCapacity em"
    and "shortTermIndex em' = (shortTermIndex em)
           (agent := (if unat (shortTermCapacity em agent) = 0 then 0
                      else of_nat ((unat (shortTermIndex em agent) + 1) mod
                                     unat (shortTermCapacity em agent))))"
    and "slot \<noteq> agent * 10 + unat (shortTermIndex em agent) \<Longrightarrow>
           slotContents em' slot = slotContents em slot"
    and "slotContents em' (agent * 10 + unat (shortTermIndex em agent)) =
           (ev_entityId event, ev_entityType event,
            fst (ev_position event), snd (ev_position event), worldTime mgr,
            min 1 (orElse (ev_importance event) (5 / 10) +
                   (case orNull (emotionalStateReading readings) of
                      None \<Rightarrow> 2 / 10
                    | Some v \<Rightarrow> if 70 < v \<or> v < 30 then 2 / 10 else 0)),
            globalFidelity em agent)"
    and "worldTime mgr' = worldTime mgr"
    and "globalFidelity em' = globalFidelity em"
  using assms
  by (auto simp: recordEpisodicMemory_def Let_def slotContents_def split: option.splits)

lemma unat_small_index: "n < 10 \<Longrightarrow> unat (of_nat n :: 8 word) = n"
  by (simp add: unat_of_nat)

lemma recordAll_ring:
  assumes "shortTermCapacity em agent = 10" and "unat (shortTermIndex em agent) < 10"
    and "recordAll agent calls (em, mgr) = (em', mgr')"
  shows "shortTermCapacity em' agent = 10 \<and>
         unat (shortTermIndex em' agent) = (unat (shortTermIndex em agent) + length calls) mod 10 \<and>
         (\<forall>slot. slot < agent * 10 \<or> agent * 10 + 10 \<le> slot \<longrightarrow>
            slotContents em' slot = slotContents em slot)"
  using assms
proof (induction calls arbitrary: em mgr)
  case Nil
  then show ?case by simp
next
  case (Cons c calls)
  obtain readings newId event where c: "c = (readings, newId, event)"
    by (cases c)
  obtain r em1 mgr1 where s: "recordEpisodicMemory em mgr agent readings newId event = (r, em1, mgr1)"
    by (cases "recordEpisodicMemory em mgr agent readings newId event")
  note st = recordEpisodicMemory_step [OF s]
  let ?i = "unat (shortTermIndex em agent)"
  have cap1: "shortTermCapacity em1 agent = 10"
    using st(1) Cons.prems(1) by simp
  have "shortTermIndex em1 agent = of_nat ((?i + 1) mod 10)"
    using st(2) Cons.prems(1) by simp
  then have idx1: "unat (shortTermIndex em1 agent) = (?i + 1) mod 10"
    by (simp add: unat_small_index)
  then have lt1: "unat (shortTermIndex em1 agent) < 10"
    by simp
  have rest: "recordAll agent calls (em1, mgr1) = (em', mgr')"
    using Cons.prems(3) c s by simp
  from Cons.IH [OF cap1 lt1 rest]
  have ih: "shortTermCapacity em' agent = 10"
      "unat (shortTermIndex em' agent) = (unat (shortTermIndex em1 agent) + length calls) mod 10"
      "\<forall>slot. slot < agent * 10 \<or> agent * 10 + 10 \<le> slot \<longrightarrow>
         slotContents em' slot = slotContents em1 slot"
    by simp_all
  have "unat (shortTermIndex em' agent) = (?i + length (c # calls)) mod 10"
    using ih(2) idx1 by (simp add: mod_add_left_eq)
  moreover have "slotContents em' slot = slotContents em slot"
    if "slot < agent * 10 \<or> agent * 10 + 10 \<le> slot" for slot
  proof -
    have "slot \<noteq> agent * 10 + ?i"
      using that Cons.prems(2) by auto
    then have "slotContents em1 slot = slotContents em slot"
      by (rule st(3))
    moreover have "slotContents em' slot = slotContents em1 slot"
      using ih(3) that by blast
    ultimately show ?thesis
      by simp
  qed
  ultimately show ?case
    using ih(1) by blast
qed

lemma recordAll_keeps:
  "recordAll agent calls (em, mgr) = (em', mgr') \<Longrightarrow>
   globalFidelity em' = globalFidelity em \<and> worldTime mgr' = worldTime mgr"
proof (induction calls arbitrary: em mgr)
  case Nil
  then show ?case by simp
next
  case (Cons c calls)
  obtain readings newId event where c: "c = (readings, newId, event)"
    by (cases c)
  obtain r em1 mgr1 where s: "recordEpisodicMemory em mgr agent readings newId event = (r, em1, mgr1)"
    by (cases "recordEpisodicMemory em mgr agent readings newId event")
  note st = recordEpisodicMemory_step [OF s]
  have "recordAll agent calls (em1, mgr1) = (em', mgr')"
    using Cons.prems c s by simp
  then have "globalFidelity em' = globalFidelity em1 \<and> worldTime mgr' = worldTime mgr1"
    by (rule Cons.IH)
  then show ?case
    using st(5,6) by simp
qed

text \<open>
  C9. For an agent with capacity 10 and write index below 10, after any run of calls of
  \<open>recordEpisodicMemory\<close> the write index is the old one plus the number of calls,
  modulo 10, so it stays in 0..9; a further call overwrites the slot at the write index
  with the record of its event, all seven fields of it: the entity's id and type, the
  two coordinates, the world time, the importance (the event's, or 0.5, plus 0.2 when
  the emotional state is missing, 0, above 70 or below 30, and at most 1) and the
  agent's global fidelity; it leaves every other slot as it was; no slot outside the
  agent's ten (\<open>agent * 10\<close> to \<open>agent * 10 + 9\<close>) ever changes. Starting from write
  index 0, the eleventh call overwrites slot 0, and the slot numbered \<open>capacity\<close> is
  untouched.
\<close>

theorem shortTerm_ring_buffer:
  assumes "shortTermCapacity em agent = 10" and "unat (shortTermIndex em agent) < 10"
    and "recordAll agent calls (em, mgr) = (em1, mgr1)"
    and "recordEpisodicMemory em1 mgr1 agent readings newId event = (r, em2, mgr2)"
  shows "unat (shortTermIndex em1 agent) = (unat (shortTermIndex em agent) + length calls) mod 10 \<and>
         unat (shortTermIndex em1 agent) < 10 \<and>
         slotContents em2 (agent * 10 + unat (shortTermIndex em1 agent)) =
           (ev_entityId event, ev_entityType event,
            fst (ev_position event), snd (ev_position event), worldTime mgr1,
            min 1 (orElse (ev_importance event) (5 / 10) +
                   (case orNull (emotionalStateReading readings) of
                      None \<Rightarrow> 2 / 10
                    | Some v \<Rightarrow> if 70 < v \<or> v < 30 then 2 / 10 else 0)),
            globalFidelity em1 agent) \<and>
         (\<forall>slot. slot \<noteq> agent * 10 + unat (shortTermIndex em1 agent) \<longrightarrow>
            slotContents em2 slot = slotContents em1 slot) \<and>
         (\<forall>slot. slot < agent * 10 \<or> agent * 10 + 10 \<le> slot \<longrightarrow>
            slotContents em2 slot = slotContents em slot) \<and>
         (shortTermIndex em agent = 0 \<and> length calls = 10 \<longrightarrow>
            slotContents em2 (agent * 10 + 0) =
              (ev_entityId event, ev_entityType event,
               fst (ev_position event), snd (ev_position event), worldTime mgr1,
               min 1 (orElse (ev_importance event) (5 / 10) +
                      (case orNull (emotionalStateReading readings) of
                         None \<Rightarrow> 2 / 10
                       | Some v \<Rightarrow> if 70 < v \<or> v < 30 then 2 / 10 else 0)),
               globalFidelity em1 agent) \<and>
            slotContents em2 (agent * 10 + 10) = slotContents em (agent * 10 + 10))"
proof -
  let ?written = "(ev_entityId event, ev_entityType event,
            fst (ev_position event), snd (ev_position event), worldTime mgr1,
            min 1 (orElse (ev_importance event) (5 / 10) +
                   (case orNull (emotionalStateReading readings) of
                      None \<Rightarrow> 2 / 10
                    | Some v \<Rightarrow> if 70 < v \<or> v < 30 then 2 / 10 else 0)),
            globalFidelity em1 agent)"
  note ring = recordAll_ring [OF assms(1,2,3)]
  note st = recordEpisodicMemory_step [OF assms(4)]
  have i1: "unat (shortTermIndex em1 agent) = (unat (shortTermIndex em agent) + length calls) mod 10"
    using ring by simp
  then have lt: "unat (shortTermIndex em1 agent) < 10"
    by simp
  have w: "slotContents em2 (agent * 10 + unat (shortTermIndex em1 agent)) = ?written"
    by (rule st(4))
  have o: "\<forall>slot. slot \<noteq> agent * 10 + unat (shortTermIndex em1 agent) \<longrightarrow>
      slotContents em2 slot = slotContents em1 slot"
    using st(3) by simp
  have out: "slotContents em2 slot = slotContents em slot"
    if "slot < agent * 10 \<or> agent * 10 + 10 \<le> slot" for slot
  proof -
    have "slot \<noteq> agent * 10 + unat (shortTermIndex em1 agent)"
      using that lt by auto
    then have "slotContents em2 slot = slotContents em1 slot"
      using o by blast
    moreover have "slotContents em1 slot = slotContents em slot"
      using ring that by blast
    ultimately show ?thesis
      by simp
  qed
  have "slotContents em2 (agent * 10 + 0) = ?written \<and>
      slotContents em2 (agent * 10 + 10) = slotContents em (agent * 10 + 10)"
    if "shortTermIndex em agent = 0 \<and> length calls = 10"
  proof -
    have "unat (shortTermIndex em1 agent) = 0"
      using i1 that by simp
    then show ?thesis
      using w out [of "agent * 10 + 10"] by simp
  qed
  then show ?thesis
    using i1 lt w o out by blast
qed

theorem shortTerm_ring_buffer_witness:
  "shortTermCapacity freshEnhancedMemory 2 = 10 \<and>
   shortTermIndex freshEnhancedMemory 2 = 0 \<and>
   length (map sighting [1..<11]) = 10 \<and>
   (case recordAll 2 (map sighting [1..<11]) (freshEnhancedMemory, newMemoryManager CONFIG 7) of
      (em1, mgr1) \<Rightarrow>
        (case recordEpisodicMemory em1 mgr1 2 excitedReadings ''2-7-11'' lateEvent of
           (r, em2, mgr2) \<Rightarrow>
             unat (shortTermIndex em1 2) = 0 \<and>
             slotContents em2 20 = (111, 1, 40, 7, 7, 7 / 10, 1) \<and>
             slotContents em2 30 = slotContents freshEnhancedMemory 30))"
proof -
  obtain em1 mgr1 where
    a: "recordAll 2 (map sighting [1..<11]) (freshEnhancedMemory, newMemoryManager CONFIG 7) = (em1, mgr1)"
    by (cases "recordAll 2 (map sighting [1..<11]) (freshEnhancedMemory, newMemoryManager CONFIG 7)")
  obtain r em2 mgr2 where
    b: "recordEpisodicMemory em1 mgr1 2 excitedReadings ''2-7-11'' lateEvent = (r, em2, mgr2)"
    by (cases "recordEpisodicMemory em1 mgr1 2 excitedReadings ''2-7-11'' lateEvent")
  have c: "shortTermCapacity freshEnhancedMemory 2 = 10"
    by (simp add: freshEnhancedMemory_def)
  have i: "shortTermIndex freshEnhancedMemory 2 = 0"
    by (simp add: freshEnhancedMemory_def)
  then have i': "unat (shortTermIndex freshEnhancedMemory 2) < 10"
    by simp
  have n: "length (map sighting [1..<11]) = 10"
    by simp
  have k: "globalFidelity em1 2 = 1" "worldTime mgr1 = 7"
    using recordAll_keeps [OF a] by (simp_all add: freshEnhancedMemory_def newMemoryManager_def)
  note t = shortTerm_ring_buffer [OF c i' a b]
  have 1: "unat (shortTermIndex em1 2) = 0"
    using t i n by simp
  have "slotContents em2 (2 * 10 + 0) =
      (ev_entityId lateEvent, ev_entityType lateEvent,
       fst (ev_position lateEvent), snd (ev_position lateEvent), worldTime mgr1,
       min 1 (orElse (ev_importance lateEvent) (5 / 10) +
              (case orNull (emotionalStateReading excitedReadings) of
                 None \<Rightarrow> 2 / 10
               | Some v \<Rightarrow> if 70 < v \<or> v < 30 then 2 / 10 else 0)),
       globalFidelity em1 2) \<and>
      slotContents em2 (2 * 10 + 10) = slotContents freshEnhancedMemory (2 * 10 + 10)"
    using t i n by blast
  then have 2: "slotContents em2 20 = (111, 1, 40, 7, 7, 7 / 10, 1) \<and>
      slotContents em2 30 = slotContents freshEnhancedMemory 30"
    by (simp add: k lateEvent_def excitedReadings_def orElse_def orNull_def)
  show ?thesis
    using a b c i n 1 2 by simp
qed

section \<open>Cloud sync: results\<close>

lemma retryFrom_all_fail:
  assumes op: "\<And>s e. respond (requests s) = Some e \<Longrightarrow>
                 operation s = (Inl e, s\<lparr>requests := requests s + 1\<rparr>)"
    and "attempt < retries"
    and "\<forall>n. attempt \<le> n \<and> n < retries \<longrightarrow> respond (requests s + (n - attempt)) = Some (err n)"
  shows "retryFrom operation opts retries attempt s =
     (Inl (err (retries - 1)),
      s\<lparr>requests := requests s + (retries - attempt),
        warnings := warnings s @ map (\<lambda>a. retryWarning retries a (err a)) [attempt..<retries - 1],
        sleeps := sleeps s @ map (\<lambda>a. RETRY_DELAY opts * of_nat (a + 1)) [attempt..<retries - 1]\<rparr>)"
  using assms(2,3)
proof (induction "retries - attempt" arbitrary: attempt s)
  case 0
  then show ?case by simp
next
  case (Suc k)
  have r: "respond (requests s) = Some (err attempt)"
    using Suc.prems(2) [rule_format, of attempt] Suc.prems(1) by simp
  note o = op [OF r]
  show ?case
  proof (cases "attempt = retries - 1")
    case True
    then show ?thesis
      using Suc.prems(1) o
      by (subst retryFrom.simps) simp
  next
    case False
    let ?s1 = "s\<lparr>requests := requests s + 1,
      warnings := warnings s @ [retryWarning retries attempt (err attempt)],
      sleeps := sleeps s @ [RETRY_DELAY opts * of_nat (attempt + 1)]\<rparr>"
    have k: "k = retries - (attempt + 1)" and lt: "attempt + 1 < retries"
      using Suc.hyps(2) False Suc.prems(1) by auto
    have rs: "\<forall>n. attempt + 1 \<le> n \<and> n < retries \<longrightarrow>
        respond (requests ?s1 + (n - (attempt + 1))) = Some (err n)"
    proof (intro allI impI)
      fix n assume n: "attempt + 1 \<le> n \<and> n < retries"
      then have a: "respond (requests s + (n - attempt)) = Some (err n)"
        using Suc.prems(2) by simp
      have b: "requests ?s1 + (n - (attempt + 1)) = requests s + (n - attempt)"
        using n by auto
      show "respond (requests ?s1 + (n - (attempt + 1))) = Some (err n)"
        unfolding b by (rule a)
    qed
    have up: "[attempt..<retries - Suc 0] = attempt # [Suc attempt..<retries - Suc 0]"
      using lt by (simp add: upt_conv_Cons)
    have ar: "Suc (requests s + retries - Suc attempt) = requests s + retries - attempt"
      using lt by simp
    have "retryFrom operation opts retries attempt s =
        retryFrom operation opts retries (attempt + 1) ?s1"
      using Suc.prems(1) False o
      by (subst retryFrom.simps) (simp add: retryWarning_def)
    also have "\<dots> = (Inl (err (retries - 1)),
        ?s1\<lparr>requests := requests ?s1 + (retries - (attempt + 1)),
          warnings := warnings ?s1 @
            map (\<lambda>a. retryWarning retries a (err a)) [attempt + 1..<retries - 1],
          sleeps := sleeps ?s1 @
            map (\<lambda>a. RETRY_DELAY opts * of_nat (a + 1)) [attempt + 1..<retries - 1]\<rparr>)"
      by (rule Suc.hyps(1) [OF k lt rs])
    finally show ?thesis
      using lt by (simp add: up ar)
  qed
qed

lemma retryOperation_all_fail:
  assumes "\<And>s e. respond (requests s) = Some e \<Longrightarrow>
             operation s = (Inl e, s\<lparr>requests := requests s + 1\<rparr>)"
    and "0 < MAX_RETRIES opts"
    and "\<forall>n<MAX_RETRIES opts. respond (requests s + n) = Some (err n)"
  shows "retryOperation operation opts s =
           (Inl (err (MAX_RETRIES opts - 1)), afterRetries opts err s)"
  unfolding retryOperation_def afterRetries_def
  using retryFrom_all_fail [of respond operation 0 "MAX_RETRIES opts" s err opts] assms
  by simp

lemma refused_operations:
  assumes "respond (requests s) = Some e"
  shows "postEpisodic respond mId batch s = (Inl e, s\<lparr>requests := requests s + 1\<rparr>)"
    and "postSemantic respond mId s = (Inl e, s\<lparr>requests := requests s + 1\<rparr>)"
    and "ENABLE_CLOUD_SYNC opts \<Longrightarrow>
           createCloudMemory respond opts mId s = (Inl e, s\<lparr>requests := requests s + 1\<rparr>)"
  using assms by (simp_all add: postEpisodic_def postSemantic_def createCloudMemory_def)

lemma chunks_Cons: "xs \<noteq> [] \<Longrightarrow> 0 < n \<Longrightarrow> chunks n xs = take n xs # chunks n (drop n xs)"
  by (subst chunks.simps) simp

lemma chunks_Nil: "chunks n [] = []"
  by (subst chunks.simps) simp

lemma concat_chunks: "0 < n \<Longrightarrow> concat (chunks n xs) = xs"
proof (induction n xs rule: chunks.induct)
  case (1 n xs)
  show ?case
  proof (cases "xs = []")
    case True
    then show ?thesis
      by (simp add: chunks_Nil)
  next
    case False
    then show ?thesis
      using 1 by (simp add: chunks_Cons)
  qed
qed

lemma sendBatches_append:
  "sendBatches respond opts mId (sent @ later) s =
     (case sendBatches respond opts mId sent s of
        (Inl error, s') \<Rightarrow> (Inl error, s')
      | (Inr v, s') \<Rightarrow> sendBatches respond opts mId later s')"
  by (induction sent arbitrary: s) (auto split: prod.splits sum.splits)

lemma syncIds_append:
  "syncIds respond (earlier @ rest) mgr s =
     (case syncIds respond earlier mgr s of
        None \<Rightarrow> None
      | Some (Inl error, mgr1, s1) \<Rightarrow> Some (Inl error, mgr1, s1)
      | Some (Inr v, mgr1, s1) \<Rightarrow> syncIds respond rest mgr1 s1)"
  by (induction earlier arbitrary: mgr s)
    (auto simp: Let_def split: option.splits prod.splits sum.splits)

lemma syncIds_options:
  "syncIds respond ids mgr s = Some (r, mgr', s') \<Longrightarrow> options mgr' = options mgr"
  by (induction ids arbitrary: mgr s)
    (auto simp: Let_def split: option.splits prod.splits sum.splits if_splits)

lemma sendBatches_batch_fails:
  assumes "0 < MAX_RETRIES opts"
    and "\<forall>n<MAX_RETRIES opts. respond (requests s + n) = Some (err n)"
    and "sendBatches respond opts mId sent s1 = (Inr (), s)"
  shows "sendBatches respond opts mId (sent @ batch # later) s1 =
           (Inl (err (MAX_RETRIES opts - 1)), afterRetries opts err s)"
proof -
  have "retryOperation (postEpisodic respond mId batch) opts s =
      (Inl (err (MAX_RETRIES opts - 1)), afterRetries opts err s)"
    by (rule retryOperation_all_fail [OF refused_operations(1) assms(1,2)])
  then show ?thesis
    by (simp add: sendBatches_append assms(3))
qed

lemma syncIds_batch_fails:
  assumes "0 < MAX_RETRIES (options mgr)"
    and "\<forall>n<MAX_RETRIES (options mgr). respond (requests s + n) = Some (err n)"
    and "syncIds respond earlier mgr s0 = Some (Inr (), mgr1, s1)"
    and "map_of (episodicQueue mgr1) mId = Some queued"
    and "0 < BATCH_SIZE (options mgr)"
    and "chunks (BATCH_SIZE (options mgr)) (sort_key (\<lambda>m. - importance m) queued) =
           sent @ batch # later"
    and "sendBatches respond (options mgr) mId sent s1 = (Inr (), s)"
  shows "syncIds respond (earlier @ mId # rest) mgr s0 =
           Some (Inl (err (MAX_RETRIES (options mgr) - 1)),
                 mgr1\<lparr>episodicQueue :=
                        AList.update mId (sort_key (\<lambda>m. - importance m) queued) (episodicQueue mgr1)\<rparr>,
                 afterRetries (options mgr) err s)"
proof -
  let ?memories = "sort_key (\<lambda>m. - importance m) queued"
  have o: "options mgr1 = options mgr"
    by (rule syncIds_options [OF assms(3)])
  have "chunks (BATCH_SIZE (options mgr)) ?memories \<noteq> []"
    unfolding assms(6) by simp
  then have ne: "?memories \<noteq> []"
    by (auto simp: chunks_Nil)
  have b: "sendBatches respond (options mgr) mId (chunks (BATCH_SIZE (options mgr)) ?memories) s1 =
      (Inl (err (MAX_RETRIES (options mgr) - 1)), afterRetries (options mgr) err s)"
    unfolding assms(6) by (rule sendBatches_batch_fails [OF assms(1,2,7)])
  have "syncIds respond (earlier @ mId # rest) mgr s0 = syncIds respond (mId # rest) mgr1 s1"
    by (simp add: syncIds_append assms(3))
  also have "\<dots> = Some (Inl (err (MAX_RETRIES (options mgr) - 1)),
      mgr1\<lparr>episodicQueue := AList.update mId ?memories (episodicQueue mgr1)\<rparr>,
      afterRetries (options mgr) err s)"
    using assms(4,5) ne by (simp add: Let_def o b)
  finally show ?thesis .
qed

text \<open>
  C2 (as amended). When every one of the MAX_RETRIES attempts of a retried operation
  fails (the request that creates the cloud memory, the upload of an episodic batch, or
  the upload of the semantic memory), \<open>retryOperation\<close> makes exactly MAX_RETRIES
  attempts; after each failed attempt but the last it writes a warning and waits
  RETRY_DELAY times the attempt number; the error of the last attempt is thrown to the
  caller. \<open>syncEpisodicMemories\<close> does not handle it: whichever batch of whichever
  memory id it is whose attempts all fail, after the ids and batches before it were
  sent, the call ends with that error, and the memories of that id, those of the failed
  batch among them, are still in the episodic queue.
\<close>

theorem retry_exhausted_rethrows:
  assumes "0 < MAX_RETRIES opts"
    and "\<forall>n<MAX_RETRIES opts. respond (requests s + n) = Some (err n)"
  shows "((operation = createCloudMemory respond opts mId \<and> ENABLE_CLOUD_SYNC opts) \<or>
          operation = postEpisodic respond mId batch \<or>
          operation = postSemantic respond mId \<longrightarrow>
            retryOperation operation opts s =
              (Inl (err (MAX_RETRIES opts - 1)),
               s\<lparr>requests := requests s + MAX_RETRIES opts,
                 warnings := warnings s @
                   map (\<lambda>a. retryWarning (MAX_RETRIES opts) a (err a)) [0..<MAX_RETRIES opts - 1],
                 sleeps := sleeps s @
                   map (\<lambda>a. RETRY_DELAY opts * of_nat (a + 1)) [0..<MAX_RETRIES opts - 1]\<rparr>)) \<and>
         (ENABLE_CLOUD_SYNC opts \<and> \<not> syncInProgress mgr \<and> options mgr = opts \<and>
          map fst (episodicQueue mgr) = earlier @ mId # rest \<and>
          syncIds respond earlier (mgr\<lparr>syncInProgress := True\<rparr>) s0 = Some (Inr (), mgr1, s1) \<and>
          map_of (episodicQueue mgr1) mId = Some queued \<and> 0 < BATCH_SIZE opts \<and>
          chunks (BATCH_SIZE opts) (sort_key (\<lambda>m. - importance m) queued) = sent @ batch # later \<and>
          sendBatches respond opts mId sent s1 = (Inr (), s) \<longrightarrow>
            syncEpisodicMemories respond mgr s0 =
              Some (Inl (err (MAX_RETRIES opts - 1)),
                    mgr1\<lparr>episodicQueue :=
                           AList.update mId (sort_key (\<lambda>m. - importance m) queued) (episodicQueue mgr1)\<rparr>,
                    s\<lparr>requests := requests s + MAX_RETRIES opts,
                      warnings := warnings s @
                        map (\<lambda>a. retryWarning (MAX_RETRIES opts) a (err a)) [0..<MAX_RETRIES opts - 1],
                      sleeps := sleeps s @
                        map (\<lambda>a. RETRY_DELAY opts * of_nat (a + 1)) [0..<MAX_RETRIES opts - 1]\<rparr>) \<and>
            set batch \<subseteq> set (sort_key (\<lambda>m. - importance m) queued))"
proof (intro conjI impI)
  assume "(operation = createCloudMemory respond opts mId \<and> ENABLE_CLOUD_SYNC opts) \<or>
          operation = postEpisodic respond mId batch \<or>
          operation = postSemantic respond mId"
  then have "\<And>s e. respond (requests s) = Some e \<Longrightarrow>
      operation s = (Inl e, s\<lparr>requests := requests s + 1\<rparr>)"
    using refused_operations by blast
  then have "retryOperation operation opts s =
      (Inl (err (MAX_RETRIES opts - 1)), afterRetries opts err s)"
    using assms by (rule retryOperation_all_fail)
  then show "retryOperation operation opts s =
           (Inl (err (MAX_RETRIES opts - 1)),
            s\<lparr>requests := requests s + MAX_RETRIES opts,
              warnings := warnings s @
                map (\<lambda>a. retryWarning (MAX_RETRIES opts) a (err a)) [0..<MAX_RETRIES opts - 1],
              sleeps := sleeps s @
                map (\<lambda>a. RETRY_DELAY opts * of_nat (a + 1)) [0..<MAX_RETRIES opts - 1]\<rparr>)"
    by (simp add: afterRetries_def)
next
  let ?memories = "sort_key (\<lambda>m. - importance m) queued"
  let ?mgr = "mgr\<lparr>syncInProgress := True\<rparr>"
  assume h: "ENABLE_CLOUD_SYNC opts \<and> \<not> syncInProgress mgr \<and> options mgr = opts \<and>
          map fst (episodicQueue mgr) = earlier @ mId # rest \<and>
          syncIds respond earlier ?mgr s0 = Some (Inr (), mgr1, s1) \<and>
          map_of (episodicQueue mgr1) mId = Some queued \<and> 0 < BATCH_SIZE opts \<and>
          chunks (BATCH_SIZE opts) ?memories = sent @ batch # later \<and>
          sendBatches respond opts mId sent s1 = (Inr (), s)"
  then have o: "options ?mgr = opts"
    by simp
  have a1: "0 < MAX_RETRIES (options ?mgr)"
    and a2: "\<forall>n<MAX_RETRIES (options ?mgr). respond (requests s + n) = Some (err n)"
    using assms by (simp_all only: o)
  have a3: "syncIds respond earlier ?mgr s0 = Some (Inr (), mgr1, s1)"
    and a4: "map_of (episodicQueue mgr1) mId = Some queued"
    using h by simp_all
  have a5: "0 < BATCH_SIZE (options ?mgr)"
    and a6: "chunks (BATCH_SIZE (options ?mgr)) ?memories = sent @ batch # later"
    and a7: "sendBatches respond (options ?mgr) mId sent s1 = (Inr (), s)"
    using h by (simp_all only: o)
  have "syncIds respond (earlier @ mId # rest) ?mgr s0 =
      Some (Inl (err (MAX_RETRIES (options ?mgr) - 1)),
            mgr1\<lparr>episodicQueue := AList.update mId ?memories (episodicQueue mgr1)\<rparr>,
            afterRetries (options ?mgr) err s)"
    by (rule syncIds_batch_fails [OF a1 a2 a3 a4 a5 a6 a7])
  moreover have "episodicQueue mgr \<noteq> []"
    using h by auto
  ultimately have "syncEpisodicMemories respond mgr s0 =
      Some (Inl (err (MAX_RETRIES opts - 1)),
            mgr1\<lparr>episodicQueue := AList.update mId ?memories (episodicQueue mgr1)\<rparr>,
            afterRetries opts err s)"
    using h by (simp add: syncEpisodicMemories_def)
  then show "syncEpisodicMemories respond mgr s0 =
              Some (Inl (err (MAX_RETRIES opts - 1)),
                    mgr1\<lparr>episodicQueue := AList.update mId ?memories (episodicQueue mgr1)\<rparr>,
                    s\<lparr>requests := requests s + MAX_RETRIES opts,
                      warnings := warnings s @
                        map (\<lambda>a. retryWarning (MAX_RETRIES opts) a (err a)) [0..<MAX_RETRIES opts - 1],
                      sleeps := sleeps s @
                        map (\<lambda>a. RETRY_DELAY opts * of_nat (a + 1)) [0..<MAX_RETRIES opts - 1]\<rparr>)"
    by (simp add: afterRetries_def)
  have c: "chunks (BATCH_SIZE opts) ?memories = sent @ batch # later"
    using h by simp
  have "0 < BATCH_SIZE opts"
    using h by simp
  then have "concat (chunks (BATCH_SIZE opts) ?memories) = ?memories"
    by (rule concat_chunks)
  then have "concat sent @ batch @ concat later = ?memories"
    unfolding c by simp
  then have "set ?memories = set (concat sent) \<union> set batch \<union> set (concat later)"
    by (metis append.assoc set_append)
  then show "set batch \<subseteq> set ?memories"
    by blast
qed

lemma syncIds_first_batch_fails:
  assumes "0 < MAX_RETRIES (options mgr)"
    and "\<forall>n<MAX_RETRIES (options mgr). respond (requests s + n) = Some (err n)"
    and "map_of (episodicQueue mgr) mId = Some queued" and "queued \<noteq> []"
    and "0 < BATCH_SIZE (options mgr)"
  shows "syncIds respond (mId # rest) mgr s =
           Some (Inl (err (MAX_RETRIES (options mgr) - 1)),
                 mgr\<lparr>episodicQueue :=
                       AList.update mId (sort_key (\<lambda>m. - importance m) queued) (episodicQueue mgr)\<rparr>,
                 afterRetries (options mgr) err s)"
proof -
  let ?memories = "sort_key (\<lambda>m. - importance m) queued"
  let ?n = "BATCH_SIZE (options mgr)"
  have ne: "?memories \<noteq> []"
    using assms(4) by (metis length_0_conv length_sort)
  have c: "chunks ?n ?memories = [] @ take ?n ?memories # chunks ?n (drop ?n ?memories)"
    using ne assms(5) by (simp add: chunks_Cons)
  have "syncIds respond ([] @ mId # rest) mgr s =
      Some (Inl (err (MAX_RETRIES (options mgr) - 1)),
            mgr\<lparr>episodicQueue := AList.update mId ?memories (episodicQueue mgr)\<rparr>,
            afterRetries (options mgr) err s)"
    by (rule syncIds_batch_fails [OF assms(1,2) _ assms(3,5) c]) simp_all
  then show ?thesis
    by simp
qed

lemma retryOperation_first_success:
  assumes "0 < MAX_RETRIES opts" and "operation s = (Inr v, s')"
  shows "retryOperation operation opts s = (Inr (Some v), s')"
  unfolding retryOperation_def using assms by (subst retryFrom.simps) simp

lemma queuedManager_fields:
  "options queuedManager = CONFIG" "map fst (episodicQueue queuedManager) = [1002]"
  "map (\<lambda>(i, ms). length ms) (episodicQueue queuedManager) = [1]"
  "syncInProgress queuedManager = False"
  by (simp_all add: queuedManager_def recordEpisodicMemory_def newMemoryManager_def
      freshEnhancedMemory_def sighting_def Let_def)

lemma retry_warnings_sample:
  "map (\<lambda>a. retryWarning 3 a ''Network Error'') [0..<2] =
     [''HESMS: Retry 1/3 failed: Network Error'', ''HESMS: Retry 2/3 failed: Network Error'']"
  by (simp add: retryWarning_def showNat_digit upt_rec)

lemma queuedManager_queue: "episodicQueue queuedManager = [(1002, [firstMemory])]"
  by (simp add: queuedManager_def firstMemory_def recordEpisodicMemory_def newMemoryManager_def
      freshEnhancedMemory_def sighting_def Let_def)

lemma refused_after_retries:
  "afterRetries CONFIG (\<lambda>n. ''Network Error'') quiet =
     \<lparr>requests = 3,
      warnings = [''HESMS: Retry 1/3 failed: Network Error'',
                  ''HESMS: Retry 2/3 failed: Network Error''],
      logs = [], sleeps = [1000, 2000]\<rparr>"
  by (simp add: afterRetries_def CONFIG_def quiet_def retryWarning_def showNat_digit upt_rec)

lemma sample_memories:
  "importance firstMemory = 6 / 10" "importance urgentMemory = 9 / 10"
  by (simp_all add: firstMemory_def urgentMemory_def recordEpisodicMemory_def newEpisodicMemory_def
      freshEnhancedMemory_def newMemoryManager_def sighting_def calmReadings_def orElse_def
      orNull_def Let_def)

lemma twoQueuedManager_fields:
  "options twoQueuedManager = smallBatches" "syncInProgress twoQueuedManager = False"
  "episodicQueue twoQueuedManager = [(1002, [firstMemory, urgentMemory])]"
  by (simp_all add: twoQueuedManager_def firstMemory_def urgentMemory_def urgentSighting_def
      recordEpisodicMemory_def newEpisodicMemory_def freshEnhancedMemory_def newMemoryManager_def
      sighting_def calmReadings_def orElse_def orNull_def Let_def)

lemma smallBatches_fields:
  "MAX_RETRIES smallBatches = 3" "BATCH_SIZE smallBatches = 1" "ENABLE_CLOUD_SYNC smallBatches"
  "RETRY_DELAY smallBatches = 1000"
  by (simp_all add: smallBatches_def CONFIG_def)

theorem retry_exhausted_rethrows_witness:
  "0 < MAX_RETRIES smallBatches \<and>
   map acceptingOnce [0, 1, 2, 3] =
     [None, Some ''Network Error'', Some ''Network Error'', Some ''Network Error''] \<and>
   map (\<lambda>operation. retryOperation operation smallBatches (quiet\<lparr>requests := 1\<rparr>))
     [createCloudMemory acceptingOnce smallBatches 1002,
      postEpisodic acceptingOnce 1002 [firstMemory],
      postSemantic acceptingOnce 1002] =
     replicate 3
       (Inl ''Network Error'',
        \<lparr>requests = 4,
         warnings = [''HESMS: Retry 1/3 failed: Network Error'',
                     ''HESMS: Retry 2/3 failed: Network Error''],
         logs = [], sleeps = [1000, 2000]\<rparr>) \<and>
   episodicQueue twoQueuedManager = [(1002, [firstMemory, urgentMemory])] \<and>
   chunks (BATCH_SIZE smallBatches) (sort_key (\<lambda>m. - importance m) [firstMemory, urgentMemory]) =
     [urgentMemory] # [firstMemory] # [] \<and>
   map_option (\<lambda>(r, mgr', s'). (r, episodicQueue mgr', syncInProgress mgr', s'))
     (syncEpisodicMemories acceptingOnce twoQueuedManager quiet) =
     Some (Inl ''Network Error'', [(1002, [urgentMemory, firstMemory])], True,
           \<lparr>requests = 4,
            warnings = [''HESMS: Retry 1/3 failed: Network Error'',
                        ''HESMS: Retry 2/3 failed: Network Error''],
            logs = [''HESMS: Synced 1 memories for ID 1002''], sleeps = [1000, 2000]\<rparr>)"
proof -
  let ?err = "\<lambda>n::nat. ''Network Error''"
  let ?sent = "quiet\<lparr>requests := 1, logs := [''HESMS: Synced 1 memories for ID 1002'']\<rparr>"
  let ?mgr = "twoQueuedManager\<lparr>syncInProgress := True\<rparr>"
  have m: "0 < MAX_RETRIES smallBatches"
    by (simp add: smallBatches_fields)
  have a: "map acceptingOnce [0, 1, 2, 3] =
      [None, Some ''Network Error'', Some ''Network Error'', Some ''Network Error'']"
    by (simp add: acceptingOnce_def)
  have f1: "\<forall>n<MAX_RETRIES smallBatches. acceptingOnce (requests (quiet\<lparr>requests := 1\<rparr>) + n) = Some (?err n)"
    by (simp add: acceptingOnce_def)
  have f2: "\<forall>n<MAX_RETRIES smallBatches. acceptingOnce (requests ?sent + n) = Some (?err n)"
    by (simp add: acceptingOnce_def)
  have c: "chunks (BATCH_SIZE smallBatches) (sort_key (\<lambda>m. - importance m) [firstMemory, urgentMemory]) =
      [urgentMemory] # [firstMemory] # []"
    by (simp add: smallBatches_fields sample_memories chunks_Cons chunks_Nil)
  have p: "postEpisodic acceptingOnce 1002 [urgentMemory] quiet = (Inr (), ?sent)"
    by (simp add: postEpisodic_def acceptingOnce_def quiet_def showNat_digit showNat.simps)
  have sb: "sendBatches acceptingOnce smallBatches 1002 ([urgentMemory] # []) quiet = (Inr (), ?sent)"
    using retryOperation_first_success
        [of smallBatches "postEpisodic acceptingOnce 1002 [urgentMemory]" quiet "()" ?sent] m p
    by simp
  have q: "ENABLE_CLOUD_SYNC smallBatches \<and> \<not> syncInProgress twoQueuedManager \<and>
      options twoQueuedManager = smallBatches \<and>
      map fst (episodicQueue twoQueuedManager) = [] @ 1002 # [] \<and>
      syncIds acceptingOnce [] ?mgr quiet = Some (Inr (), ?mgr, quiet) \<and>
      map_of (episodicQueue ?mgr) 1002 = Some [firstMemory, urgentMemory] \<and>
      0 < BATCH_SIZE smallBatches \<and>
      chunks (BATCH_SIZE smallBatches) (sort_key (\<lambda>m. - importance m) [firstMemory, urgentMemory]) =
        ([urgentMemory] # []) @ [firstMemory] # [] \<and>
      sendBatches acceptingOnce smallBatches 1002 ([urgentMemory] # []) quiet = (Inr (), ?sent)"
    using c sb by (simp add: smallBatches_fields twoQueuedManager_fields)
  have 1: "retryOperation operation smallBatches (quiet\<lparr>requests := 1\<rparr>) =
      (Inl ''Network Error'',
       \<lparr>requests = 4,
        warnings = [''HESMS: Retry 1/3 failed: Network Error'',
                    ''HESMS: Retry 2/3 failed: Network Error''],
        logs = [], sleeps = [1000, 2000]\<rparr>)"
    if "(operation = createCloudMemory acceptingOnce smallBatches 1002 \<and> ENABLE_CLOUD_SYNC smallBatches) \<or>
        operation = postEpisodic acceptingOnce 1002 [firstMemory] \<or>
        operation = postSemantic acceptingOnce 1002" for operation
  proof -
    have "retryOperation operation smallBatches (quiet\<lparr>requests := 1\<rparr>) =
        (Inl (?err (MAX_RETRIES smallBatches - 1)),
         quiet\<lparr>requests := 1\<rparr>
           \<lparr>requests := requests (quiet\<lparr>requests := 1\<rparr>) + MAX_RETRIES smallBatches,
            warnings := warnings (quiet\<lparr>requests := 1\<rparr>) @
              map (\<lambda>a. retryWarning (MAX_RETRIES smallBatches) a (?err a)) [0..<MAX_RETRIES smallBatches - 1],
            sleeps := sleeps (quiet\<lparr>requests := 1\<rparr>) @
              map (\<lambda>a. RETRY_DELAY smallBatches * of_nat (a + 1)) [0..<MAX_RETRIES smallBatches - 1]\<rparr>)"
      using retry_exhausted_rethrows [OF m f1, where operation = operation and mId = 1002
          and batch = "[firstMemory]"] that
      by blast
    then show ?thesis
      by (simp add: quiet_def smallBatches_fields retryWarning_def showNat_digit upt_rec)
  qed
  have "syncEpisodicMemories acceptingOnce twoQueuedManager quiet =
      Some (Inl (?err (MAX_RETRIES smallBatches - 1)),
            ?mgr\<lparr>episodicQueue :=
                   AList.update 1002 (sort_key (\<lambda>m. - importance m) [firstMemory, urgentMemory])
                     (episodicQueue ?mgr)\<rparr>,
            ?sent\<lparr>requests := requests ?sent + MAX_RETRIES smallBatches,
                  warnings := warnings ?sent @
                    map (\<lambda>a. retryWarning (MAX_RETRIES smallBatches) a (?err a)) [0..<MAX_RETRIES smallBatches - 1],
                  sleeps := sleeps ?sent @
                    map (\<lambda>a. RETRY_DELAY smallBatches * of_nat (a + 1)) [0..<MAX_RETRIES smallBatches - 1]\<rparr>)"
    using retry_exhausted_rethrows [OF m f2, where mgr = twoQueuedManager and earlier = "[]"
        and mId = 1002 and rest = "[]" and ?s0.0 = quiet and ?mgr1.0 = ?mgr and ?s1.0 = quiet
        and queued = "[firstMemory, urgentMemory]" and sent = "[urgentMemory] # []"
        and batch = "[firstMemory]" and later = "[]"] q
    by blast
  then have 2: "map_option (\<lambda>(r, mgr', s'). (r, episodicQueue mgr', syncInProgress mgr', s'))
      (syncEpisodicMemories acceptingOnce twoQueuedManager quiet) =
      Some (Inl ''Network Error'', [(1002, [urgentMemory, firstMemory])], True,
           \<lparr>requests = 4,
            warnings = [''HESMS: Retry 1/3 failed: Network Error'',
                        ''HESMS: Retry 2/3 failed: Network Error''],
            logs = [''HESMS: Synced 1 memories for ID 1002''], sleeps = [1000, 2000]\<rparr>)"
    by (simp add: quiet_def smallBatches_fields twoQueuedManager_fields sample_memories
        retryWarning_def showNat_digit upt_rec)
  show ?thesis
    using m a c 1 2 by (simp add: twoQueuedManager_fields smallBatches_fields numeral_3_eq_3)
qed

text \<open>
  The claim as stated fails: with a server that refuses every request,
  \<open>syncEpisodicMemories\<close> ends with the error of the third attempt, the queued memory
  is still in the queue, and only the first two failures were logged. The system
  function awaits \<open>syncEpisodicMemories\<close> without a handler, so the tick's promise is
  rejected with the same error.
\<close>

theorem sync_failure_propagates_counterexample:
  "map_option
     (\<lambda>(r, mgr', s'). (r, map (\<lambda>(i, ms). (i, length ms)) (episodicQueue mgr'), warnings s', requests s'))
     (syncEpisodicMemories refusing queuedManager quiet) =
   Some (Inl ''Network Error'', [(1002, 1)],
         [''HESMS: Retry 1/3 failed: Network Error'', ''HESMS: Retry 2/3 failed: Network Error''], 3)"
proof -
  let ?mgr = "queuedManager\<lparr>syncInProgress := True\<rparr>"
  have "syncIds refusing [1002] ?mgr quiet =
      Some (Inl ((\<lambda>n. ''Network Error'') (MAX_RETRIES (options ?mgr) - 1)),
      ?mgr\<lparr>episodicQueue := AList.update 1002 (sort_key (\<lambda>m. - importance m) [firstMemory])
                               (episodicQueue ?mgr)\<rparr>,
      afterRetries (options ?mgr) (\<lambda>n. ''Network Error'') quiet)"
    by (rule syncIds_first_batch_fails)
      (simp_all add: queuedManager_fields queuedManager_queue CONFIG_def refusing_def)
  then have "syncEpisodicMemories refusing queuedManager quiet =
      Some (Inl ''Network Error'',
      ?mgr\<lparr>episodicQueue := AList.update 1002 (sort_key (\<lambda>m. - importance m) [firstMemory])
                               (episodicQueue ?mgr)\<rparr>,
      afterRetries (options ?mgr) (\<lambda>n. ''Network Error'') quiet)"
    by (simp add: syncEpisodicMemories_def queuedManager_fields queuedManager_queue CONFIG_def)
  then show ?thesis
    by (simp add: queuedManager_fields queuedManager_queue refused_after_retries)
qed

section \<open>Uninitialized memory: results\<close>

lemma decideForAgent_without_longTerm:
  assumes "map_of (longTermMemory mgr) (memoryId em agent) = None"
  shows "\<exists>error. decideForAgent mgr em agent sensed = Inl error"
  using assms by (simp add: decideForAgent_def Let_def split: sum.split)

lemma findRelevantPatterns_uninitialized:
  "map_of (agentMemoryCache mgr) (memoryId em agent) = None \<Longrightarrow>
   findRelevantPatterns mgr em agent contextType = []"
  by (simp add: findRelevantPatterns_def getSemanticMemory_def newSemanticMemory_def)

lemma recordedComponent_fields:
  "memoryId recordedComponent 2 = 1002" "shortTermCapacity recordedComponent 2 = 10"
  "shortTermIds recordedComponent 20 = 101"
  by (simp_all add: recordedComponent_def recordEpisodicMemory_def freshEnhancedMemory_def
      sighting_def Let_def)

lemma queuedManager_longTerm: "longTermMemory queuedManager = []"
  by (simp add: queuedManager_def recordEpisodicMemory_def newMemoryManager_def Let_def)

text \<open>
  C1. For the agent that has recorded an episodic memory and has no long-term list
  yet, the decision system does not complete: reading the long-term list throws a
  TypeError, which ends the loop over the agents. And \<open>checkRecentlyRecorded\<close>, asked
  about the entity just recorded, throws a ReferenceError where the host defines no
  global \<open>memoryManager\<close>.
\<close>

theorem decision_system_throws_without_longTerm:
  "episodicQueue queuedManager = [(1002, [firstMemory])] \<and>
   longTermMemory queuedManager = [] \<and>
   decideForAgent queuedManager recordedComponent 2 idleSenses = Inl TypeError \<and>
   decisionSystem queuedManager recordedComponent (\<lambda>a. idleSenses) [2]
     (\<lambda>a. \<lparr>goalType = 0, targetEntity = 0, priority = 0\<rparr>) = Inl TypeError \<and>
   checkRecentlyRecorded recordedComponent None 2 101 = Inl ReferenceError"
  by (simp add: queuedManager_queue queuedManager_longTerm decideForAgent_def idleSenses_def
      recordedComponent_fields checkRecentlyRecorded_def upt_rec Let_def)

end
